theory Spec2Isabelle
  imports Main "HOL-Library.Word"
begin

section \<open>Strings as Go has them\<close>

text \<open>
  A Go string is a sequence of bytes; it is modelled as a \<^typ>\<open>string\<close> (a list of
  8-bit characters). The functions of package \<open>strings\<close> and the \<open>fmt\<close> verbs that
  device.go uses are written out here.
\<close>

definition dquote :: char where
  "dquote = CHR 0x22"

definition squote :: char where
  "squote = CHR 0x27"

text \<open>\<open>strings.ContainsRune(s, r)\<close> for a one-byte rune.\<close>

definition ContainsRune :: "string \<Rightarrow> char \<Rightarrow> bool" where
  "ContainsRune s r = (r \<in> set s)"

fun HasPrefix :: "string \<Rightarrow> string \<Rightarrow> bool" where
  "HasPrefix s [] = True"
| "HasPrefix [] (p # ps) = False"
| "HasPrefix (x # xs) (p # ps) = (x = p \<and> HasPrefix xs ps)"

text \<open>\<open>strings.Contains(s, substr)\<close>: \<open>substr\<close> occurs somewhere in \<open>s\<close>.\<close>

fun Contains :: "string \<Rightarrow> string \<Rightarrow> bool" where
  "Contains [] sub = (sub = [])"
| "Contains (x # xs) sub = (HasPrefix (x # xs) sub \<or> Contains xs sub)"

text \<open>\<open>strings.Join(elems, sep)\<close>.\<close>

fun Join :: "string list \<Rightarrow> string \<Rightarrow> string" where
  "Join [] sep = []"
| "Join [a] sep = a"
| "Join (a # b # rest) sep = a @ sep @ Join (b # rest) sep"

text \<open>
  \<open>strings.Split(s, sep)\<close> for a one-byte separator: the pieces between the
  separators, at least one piece (\<open>Split("", "/")\<close> is \<open>[""]\<close>).
\<close>

fun Split :: "string \<Rightarrow> char \<Rightarrow> string list" where
  "Split [] sep = [[]]"
| "Split (x # xs) sep =
     (if x = sep then [] # Split xs sep
      else (x # hd (Split xs sep)) # tl (Split xs sep))"

text \<open>The verb \<open>%d\<close> of \<open>fmt\<close> on a non-negative integer: decimal digits.\<close>

definition digit :: "nat \<Rightarrow> char" where
  "digit d = ''0123456789'' ! d"

function showNat :: "nat \<Rightarrow> string" where
  "showNat n = (if n < 10 then [digit n] else showNat (n div 10) @ [digit (n mod 10)])"
  by pat_completeness auto
termination
  by (relation "measure (\<lambda>n. n)") auto

declare showNat.simps [simp del]

definition showInt :: "int \<Rightarrow> string" where
  "showInt i = (if i < 0 then CHR ''-'' # showNat (nat (- i)) else showNat (nat i))"

section \<open>The error taxonomy\<close>

text \<open>
  Modelled from the spec: package \<open>internal/errors\<close> is not among the sources. The
  spec (section 3) gives its error value as a kind, a message and an optional nested
  cause; the kinds are the six of its taxonomy. The field names are those the test file
  reads (\<open>Code\<close>, \<open>Message\<close>, \<open>Cause\<close>); \<open>Details\<close> holds the descriptor string that
  the wrapping function of section 4.5 attaches.
\<close>

datatype ErrCode =
    AssertionError
  | ParseError
  | DeviceNotFound
  | ConnectionError
  | NetworkError
  | ProtocolError

datatype Err =
  Err (Code: ErrCode) (Message: string) (Details: "string option") (Cause: "Err option")

text \<open>
  Go's \<open>error\<close> interface, as far as device.go builds values of it: a tagged error of
  the package, \<open>fmt.Errorf\<close> with the verb \<open>%w\<close> (a message prefix and the wrapped
  error), \<open>fmt.Errorf\<close> without \<open>%w\<close>, the sentinel \<open>ErrNoOp\<close> (compared by identity in
  Go, hence a constructor of its own), and the two errors a context reports.
\<close>

datatype error =
    PkgErr Err
  | WrapError string error
  | ErrorString string
  | ErrNoOp
  | Canceled
  | DeadlineExceeded

text \<open>Modelled from the spec: \<open>errors.Errorf\<close> and \<open>errors.AssertionErrorf\<close> build an
  error of the given kind with the formatted message and no cause; \<open>errors.WrapErrf\<close>
  keeps the kind of the error it wraps and records it as the cause.\<close>

definition Errorf :: "ErrCode \<Rightarrow> string \<Rightarrow> Err" where
  "Errorf code msg = Err code msg None None"

text \<open>Modelled from the spec: \<open>errors.AssertionErrorf\<close>.\<close>

definition AssertionErrorf :: "string \<Rightarrow> Err" where
  "AssertionErrorf msg = Errorf AssertionError msg"

text \<open>Modelled from the spec: \<open>errors.WrapErrf\<close>.\<close>

definition WrapErrf :: "Err \<Rightarrow> string \<Rightarrow> Err" where
  "WrapErrf cause msg = Err (Code cause) msg None (Some cause)"

section \<open>Command preparation\<close>

text \<open>
  Modelled from the spec: \<open>isBlank\<close> and \<open>containsWhitespace\<close> live in a file that
  is not among the sources. The spec speaks of a command that is empty or blank and of
  an argument containing whitespace; whitespace is taken to be the six ASCII whitespace
  bytes.
\<close>

definition isSpace :: "char \<Rightarrow> bool" where
  "isSpace ch = (ch = CHR '' '' \<or> ch = CHR 0x09 \<or> ch = CHR 0x0A \<or> ch = CHR 0x0B
                 \<or> ch = CHR 0x0C \<or> ch = CHR 0x0D)"

text \<open>Modelled from the spec: \<open>isBlank\<close>, true of the empty string and of a string of
  whitespace only.\<close>

definition isBlank :: "string \<Rightarrow> bool" where
  "isBlank s = list_all isSpace s"

text \<open>Modelled from the spec: \<open>containsWhitespace\<close>, true of a string with at least
  one whitespace byte.\<close>

definition containsWhitespace :: "string \<Rightarrow> bool" where
  "containsWhitespace s = list_ex isSpace s"

text \<open>
  The loop of \<open>prepareCommandLine\<close> (lines 350 to 357). The variadic parameter \<open>args\<close>
  is a slice, and \<open>args[i] = ...\<close> writes into it: the function returns the slice as
  the loop leaves it, next to the error. \<open>i\<close> is the loop index.
\<close>

function prepareCommandLine_loop :: "nat \<Rightarrow> string list \<Rightarrow> Err option \<times> string list" where
  "prepareCommandLine_loop i args =
     (if i < length args then
        (let arg = args ! i in
         if ContainsRune arg dquote then
           (Some (Errorf ParseError
                    (''arg at index '' @ showNat i @ '' contains an invalid double quote: '' @ arg)),
            args)
         else prepareCommandLine_loop (Suc i)
                (if containsWhitespace arg then args[i := [dquote] @ arg @ [dquote]] else args))
      else (None, args))"
  by pat_completeness auto
termination
  by (relation "measure (\<lambda>(i, args). length args - i)") auto

declare prepareCommandLine_loop.simps [simp del]

text \<open>
  \<open>prepareCommandLine\<close>: the returned string, the returned error, and the argument
  slice after the call.
\<close>

definition prepareCommandLine :: "string \<Rightarrow> string list \<Rightarrow> (string \<times> Err option) \<times> string list" where
  "prepareCommandLine cmd args =
     (if isBlank cmd then (([], Some (AssertionErrorf ''command cannot be empty'')), args)
      else
        (case prepareCommandLine_loop 0 args of
           (Some e, args') \<Rightarrow> (([], Some e), args')
         | (None, args') \<Rightarrow>
             ((if length args' > 0 then cmd @ '' '' @ Join args' '' '' else cmd, None), args')))"

section \<open>Device descriptors\<close>

text \<open>
  Modelled from the spec: \<open>DeviceDescriptor\<close> is declared in a file that is not among
  the sources. The five variants and the two derived strings are the table of section 6
  of the spec. The spec does not give the text that \<open>String()\<close> renders; the transport
  descriptor stands for it.
\<close>

datatype DeviceDescriptor =
    DescSerial string
  | DescUsbAny
  | DescLocalAny
  | DescTransportId int
  | DescAny

text \<open>Modelled from the spec: the host prefix of the table.\<close>

fun getHostPrefix :: "DeviceDescriptor \<Rightarrow> string" where
  "getHostPrefix (DescSerial s) = ''host-serial:'' @ s"
| "getHostPrefix DescUsbAny = ''host-usb''"
| "getHostPrefix DescLocalAny = ''host-local''"
| "getHostPrefix (DescTransportId n) = ''host-transport-id:'' @ showInt n"
| "getHostPrefix DescAny = ''host''"

text \<open>Modelled from the spec: the transport descriptor of the table.\<close>

fun getTransportDescriptor :: "DeviceDescriptor \<Rightarrow> string" where
  "getTransportDescriptor (DescSerial s) = ''serial:'' @ s"
| "getTransportDescriptor DescUsbAny = ''usb:''"
| "getTransportDescriptor DescLocalAny = ''local:''"
| "getTransportDescriptor (DescTransportId n) = ''transport-id:'' @ showInt n"
| "getTransportDescriptor DescAny = ''transport-any''"

text \<open>Modelled from the spec: \<open>String()\<close> of a descriptor.\<close>

definition descriptorString :: "DeviceDescriptor \<Rightarrow> string" where
  "descriptorString d = getTransportDescriptor d"

section \<open>The host daemon and its connections\<close>

text \<open>
  Modelled from the spec: the \<open>server\<close> interface and package \<open>wire\<close> are not among
  the sources. Every call into them is an event appended to a log, and the environment
  answers it: \<open>reply\<close> maps the log, the call included, to the bytes and the error the
  call returns. A theorem that quantifies over the world covers every behaviour of the
  daemon and of the device. Connections are numbered in the order they are dialled.
\<close>

datatype event =
    EvDial nat
  | EvDialContext nat
  | EvSendMessage nat string
  | EvReadStatus nat string
  | EvReadUntilEof nat
  | EvClose nat
  | EvRoundTripSingleResponse string
  | EvConnRoundTripSingleResponse nat string
  | EvListDirEntries nat string
  | EvStat nat string
  | EvReceiveFile nat string
  | EvSendFile nat string "32 word" int
  | EvLog string

text \<open>Modelled from the spec: a directory entry, as section 3 gives it.\<close>

record DirEntry =
  Name :: string
  Mode :: "32 word"
  Size :: "32 word"
  ModifiedAt :: int

record world =
  events :: "event list"
  reply :: "event list \<Rightarrow> string \<times> Err option"
  entryReply :: "event list \<Rightarrow> DirEntry option"

text \<open>Modelled from the spec: one call into the daemon or a connection; the call is
  logged and the environment's answer to the log so far is returned.\<close>

definition perform :: "event \<Rightarrow> world \<Rightarrow> (string \<times> Err option) \<times> world" where
  "perform ev w = (reply w (events w @ [ev]), w\<lparr>events := events w @ [ev]\<rparr>)"

text \<open>Modelled from the spec: a connection is numbered by the dials that came before
  it, so that every dial yields a connection of its own (section 5).\<close>

fun isDial :: "event \<Rightarrow> bool" where
  "isDial (EvDial n) = True"
| "isDial (EvDialContext n) = True"
| "isDial ev = False"

definition nextConn :: "world \<Rightarrow> nat" where
  "nextConn w = length (filter isDial (events w))"

text \<open>Modelled from the spec: \<open>server.Dial()\<close>, the host dialer without a
  cancellation token: a fresh connection, or the error.\<close>

definition Dial :: "world \<Rightarrow> (Err + nat) \<times> world" where
  "Dial w =
     (let conn = nextConn w in
      case perform (EvDial conn) w of
        ((_, Some e), w') \<Rightarrow> (Inl e, w')
      | ((_, None), w') \<Rightarrow> (Inr conn, w'))"

text \<open>
  A \<open>context.Context\<close>. The log is the clock: the signal fires once the log holds
  \<open>doneAt\<close> events, and from then on \<open>ctx.Err()\<close> is \<open>ctxCause\<close> for good; a context
  with no \<open>doneAt\<close> is never cancelled.
\<close>

record Context =
  doneAt :: "nat option"
  ctxCause :: error

definition ctxErr :: "Context \<Rightarrow> world \<Rightarrow> error option" where
  "ctxErr ctx w =
     (case doneAt ctx of
        None \<Rightarrow> None
      | Some t \<Rightarrow> if t \<le> length (events w) then Some (ctxCause ctx) else None)"

text \<open>Modelled from the spec: \<open>server.DialContext(ctx)\<close>, the host dialer with a
  cancellation token; whether it fails on a cancelled context is the environment's
  answer.\<close>

definition DialContext :: "Context \<Rightarrow> world \<Rightarrow> (Err + nat) \<times> world" where
  "DialContext ctx w =
     (let conn = nextConn w in
      case perform (EvDialContext conn) w of
        ((_, Some e), w') \<Rightarrow> (Inl e, w')
      | ((_, None), w') \<Rightarrow> (Inr conn, w'))"

text \<open>Modelled from the spec: \<open>conn.SendMessage\<close> and \<open>wire.SendMessageString\<close>,
  the send of section 4.1; the message is logged without its length prefix.\<close>

definition SendMessage :: "nat \<Rightarrow> string \<Rightarrow> world \<Rightarrow> Err option \<times> world" where
  "SendMessage conn msg w = (case perform (EvSendMessage conn msg) w of ((_, err), w') \<Rightarrow> (err, w'))"

text \<open>Modelled from the spec: \<open>conn.ReadStatus(req)\<close>, the status read of section
  4.1; device.go drops the string it returns.\<close>

definition ReadStatus :: "nat \<Rightarrow> string \<Rightarrow> world \<Rightarrow> Err option \<times> world" where
  "ReadStatus conn req w = (case perform (EvReadStatus conn req) w of ((_, err), w') \<Rightarrow> (err, w'))"

text \<open>Modelled from the spec: \<open>conn.ReadUntilEof()\<close>, the read to the end of the
  stream of section 4.1: the bytes read, with an error or without.\<close>

definition ReadUntilEof :: "nat \<Rightarrow> world \<Rightarrow> (string \<times> Err option) \<times> world" where
  "ReadUntilEof conn w = perform (EvReadUntilEof conn) w"

text \<open>Modelled from the spec: \<open>conn.Close()\<close>; it returns nothing that device.go
  looks at.\<close>

definition Close :: "nat \<Rightarrow> world \<Rightarrow> world" where
  "Close conn w = w\<lparr>events := events w @ [EvClose conn]\<rparr>"

text \<open>\<open>log.Printf\<close> and \<open>log.Println\<close>.\<close>

definition Log :: "string \<Rightarrow> world \<Rightarrow> world" where
  "Log msg w = w\<lparr>events := events w @ [EvLog msg]\<rparr>"

text \<open>Modelled from the spec: \<open>roundTripSingleResponse(c.server, req)\<close>, one request
  to the daemon on a connection of its own, and the first message of the answer.\<close>

definition roundTripSingleResponse :: "string \<Rightarrow> world \<Rightarrow> (string \<times> Err option) \<times> world" where
  "roundTripSingleResponse req w = perform (EvRoundTripSingleResponse req) w"

text \<open>Modelled from the spec: \<open>conn.RoundTripSingleResponse(req)\<close>, one request on an
  open connection and the first message of the answer.\<close>

definition RoundTripSingleResponse :: "nat \<Rightarrow> string \<Rightarrow> world
    \<Rightarrow> (string \<times> Err option) \<times> world" where
  "RoundTripSingleResponse conn req w = perform (EvConnRoundTripSingleResponse conn req) w"

section \<open>The device client\<close>

text \<open>
  Modelled from the spec: \<open>DeviceInfo\<close> and \<open>DeviceState\<close> are declared in files that
  are not among the sources. Of a device record the code and its test read \<open>Serial\<close>
  and \<open>Product\<close>; of the states device.go names \<open>StateInvalid\<close> and
  \<open>StateUnauthorized\<close>, and every other state is carried by its name.
\<close>

record DeviceInfo =
  Serial :: string
  Product :: string

datatype DeviceState =
    StateInvalid
  | StateUnauthorized
  | StateNamed string

text \<open>
  \<open>Device\<close>. Its \<open>server\<close> is the world. \<open>deviceListFunc\<close> is a callable that
  returns device records and an error; the spec has it consumed as pure data, so the
  field holds what the call returns.
\<close>

record Device =
  descriptor :: DeviceDescriptor
  deviceListFunc :: "DeviceInfo list \<times> Err option"

text \<open>
  Modelled from the spec: \<open>wrapClientError\<close> is defined in a file that is not among
  the sources. Section 4.5 of the spec: it attaches the component, the operation and the
  descriptor to an inner error and keeps the inner kind and the inner error as the cause;
  \<open>nil\<close> stays \<open>nil\<close>. What it returns is a tagged error of the package.
\<close>

definition wrapClientError :: "Err option \<Rightarrow> Device \<Rightarrow> string \<Rightarrow> Err option" where
  "wrapClientError err c operation =
     (case err of
        None \<Rightarrow> None
      | Some e \<Rightarrow>
          Some (Err (Code e) (''error performing '' @ operation @ '' on Device'')
                  (Some (descriptorString (descriptor c))) (Some e)))"

text \<open>
  Modelled from the spec: the \<open>Error()\<close> method of the package's error is not among
  the sources. The test file fixes its text for an error without details: the name of
  the kind, a colon and a space, the message.
\<close>

fun codeName :: "ErrCode \<Rightarrow> string" where
  "codeName AssertionError = ''AssertionError''"
| "codeName ParseError = ''ParseError''"
| "codeName DeviceNotFound = ''DeviceNotFound''"
| "codeName ConnectionError = ''ConnectionError''"
| "codeName NetworkError = ''NetworkError''"
| "codeName ProtocolError = ''ProtocolError''"

text \<open>Modelled from the spec: \<open>Error()\<close> of the package's error.\<close>

definition ErrError :: "Err \<Rightarrow> string" where
  "ErrError e = codeName (Code e) @ '': '' @ Message e"

text \<open>\<open>Error()\<close> of any error: \<open>fmt.Errorf\<close> puts the text of the wrapped error
  where \<open>%w\<close> stands, at the end of the format in every use here.\<close>

fun Error :: "error \<Rightarrow> string" where
  "Error (PkgErr e) = ErrError e"
| "Error (WrapError msg e) = msg @ Error e"
| "Error (ErrorString s) = s"
| "Error ErrNoOp = ''no-op''"
| "Error Canceled = ''context canceled''"
| "Error DeadlineExceeded = ''context deadline exceeded''"

text \<open>\<open>getAttribute\<close> (line 275).\<close>

definition getAttribute :: "Device \<Rightarrow> string \<Rightarrow> world \<Rightarrow> (string \<times> Err option) \<times> world" where
  "getAttribute c attr w =
     (case roundTripSingleResponse (getHostPrefix (descriptor c) @ '':'' @ attr) w of
        ((_, Some e), w') \<Rightarrow> (([], Some e), w')
      | ((resp, None), w') \<Rightarrow> ((resp, None), w'))"

text \<open>\<open>Serial\<close> (line 42); the name \<open>Serial\<close> is the field of the device record.\<close>

definition Serial_of :: "Device \<Rightarrow> world \<Rightarrow> (string \<times> Err option) \<times> world" where
  "Serial_of c w =
     (case getAttribute c ''get-serialno'' w of
        ((attr, err), w') \<Rightarrow> ((attr, wrapClientError err c ''Serial''), w'))"

text \<open>\<open>DevicePath\<close> (line 47).\<close>

definition DevicePath :: "Device \<Rightarrow> world \<Rightarrow> (string \<times> Err option) \<times> world" where
  "DevicePath c w =
     (case getAttribute c ''get-devpath'' w of
        ((attr, err), w') \<Rightarrow> ((attr, wrapClientError err c ''DevicePath''), w'))"

text \<open>
  \<open>State\<close> (line 52). \<open>parseDeviceState\<close> is not among the sources and is a
  parameter.
\<close>

definition State :: "(string \<Rightarrow> DeviceState \<times> Err option) \<Rightarrow> Device \<Rightarrow> world
    \<Rightarrow> (DeviceState \<times> Err option) \<times> world" where
  "State parseDeviceState c w =
     (case getAttribute c ''get-state'' w of
        ((attr, Some e), w') \<Rightarrow>
          (if Contains (ErrError e) ''unauthorized'' then ((StateUnauthorized, None), w')
           else ((StateInvalid, wrapClientError (Some e) c ''State''), w'))
      | ((attr, None), w') \<Rightarrow>
          (case parseDeviceState attr of
             (state, err) \<Rightarrow> ((state, wrapClientError err c ''State''), w')))"

text \<open>\<open>DeviceInfo\<close> (line 64); the loop returns the first record with the serial.\<close>

definition DeviceInfo_of :: "Device \<Rightarrow> world \<Rightarrow> (DeviceInfo option \<times> Err option) \<times> world" where
  "DeviceInfo_of c w =
     (case Serial_of c w of
        ((_, Some e), w') \<Rightarrow> ((None, wrapClientError (Some e) c ''GetDeviceInfo(GetSerial)''), w')
      | ((serial, None), w') \<Rightarrow>
          (case deviceListFunc c of
             (_, Some e) \<Rightarrow> ((None, wrapClientError (Some e) c ''DeviceInfo(ListDevices)''), w')
           | (devices, None) \<Rightarrow>
               (case find (\<lambda>deviceInfo. Serial deviceInfo = serial) devices of
                  Some deviceInfo \<Rightarrow> ((Some deviceInfo, None), w')
                | None \<Rightarrow>
                    ((None,
                      wrapClientError
                        (Some (Errorf DeviceNotFound (''device list doesn't contain serial '' @ serial)))
                        c ''DeviceInfo''),
                     w'))))"

text \<open>\<open>dialDevice\<close> (line 303).\<close>

definition dialDevice :: "Device \<Rightarrow> world \<Rightarrow> (Err + nat) \<times> world" where
  "dialDevice c w =
     (case Dial w of
        (Inl e, w1) \<Rightarrow> (Inl e, w1)
      | (Inr conn, w1) \<Rightarrow>
          (let req = ''host:'' @ getTransportDescriptor (descriptor c) in
           case SendMessage conn req w1 of
             (Some e, w2) \<Rightarrow>
               (Inl (WrapErrf e (''error connecting to device '' @ [squote]
                                  @ descriptorString (descriptor c) @ [squote])),
                Close conn w2)
           | (None, w2) \<Rightarrow>
               (case ReadStatus conn req w2 of
                  (Some e, w3) \<Rightarrow> (Inl e, Close conn w3)
                | (None, w3) \<Rightarrow> (Inr conn, w3))))"

text \<open>\<open>dialContext\<close> (line 323).\<close>

definition dialContext :: "Device \<Rightarrow> Context \<Rightarrow> world \<Rightarrow> (Err + nat) \<times> world" where
  "dialContext c ctx w =
     (case DialContext ctx w of
        (Inl e, w1) \<Rightarrow> (Inl e, w1)
      | (Inr conn, w1) \<Rightarrow>
          (let req = ''host:'' @ getTransportDescriptor (descriptor c) in
           case SendMessage conn req w1 of
             (Some e, w2) \<Rightarrow>
               (Inl (WrapErrf e (''error connecting to device '' @ [squote]
                                  @ descriptorString (descriptor c) @ [squote])),
                Close conn w2)
           | (None, w2) \<Rightarrow>
               (case ReadStatus conn req w2 of
                  (Some e, w3) \<Rightarrow> (Inl e, Close conn w3)
                | (None, w3) \<Rightarrow> (Inr conn, w3))))"

text \<open>
  \<open>RunCommand\<close> (line 106): the output, the error, the caller's argument slice after
  the call, and the world. The deferred \<open>conn.Close()\<close> runs on every return after the
  dial.
\<close>

definition RunCommand :: "Device \<Rightarrow> string \<Rightarrow> string list \<Rightarrow> world
    \<Rightarrow> ((string \<times> Err option) \<times> string list) \<times> world" where
  "RunCommand c cmd args w =
     (case prepareCommandLine cmd args of
        ((_, Some e), args') \<Rightarrow> ((([], wrapClientError (Some e) c ''RunCommand''), args'), w)
      | ((cmd', None), args') \<Rightarrow>
          (case dialDevice c w of
             (Inl e, w1) \<Rightarrow> ((([], wrapClientError (Some e) c ''RunCommand''), args'), w1)
           | (Inr conn, w1) \<Rightarrow>
               (let req = ''shell:'' @ cmd' in
                case SendMessage conn req w1 of
                  (Some e, w2) \<Rightarrow>
                    ((([], wrapClientError (Some e) c ''RunCommand''), args'), Close conn w2)
                | (None, w2) \<Rightarrow>
                    (case ReadStatus conn req w2 of
                       (Some e, w3) \<Rightarrow>
                         ((([], wrapClientError (Some e) c ''RunCommand''), args'), Close conn w3)
                     | (None, w3) \<Rightarrow>
                         (case ReadUntilEof conn w3 of
                            ((resp, err), w4) \<Rightarrow>
                              (((resp, wrapClientError err c ''RunCommand''), args'),
                               Close conn w4))))))"

text \<open>
  \<open>strings.TrimSpace\<close> cuts the leading and the trailing Unicode white space off a
  string, which it reads as UTF-8. \<open>spaceRunes\<close> lists the UTF-8 encodings of the
  runes for which \<open>unicode.IsSpace\<close> holds: the six ASCII ones, U+0085, U+00A0,
  U+1680, U+2000 to U+200A, U+2028, U+2029, U+202F, U+205F and U+3000. UTF-8 is
  prefix-free and a rune's last byte is found by going back to its start byte, so a
  white space rune leads (or ends) the string exactly when its encoding is a prefix (or
  a suffix) of the bytes.
\<close>

definition spaceRunes :: "string list" where
  "spaceRunes =
     [[CHR 0x09], [CHR 0x0A], [CHR 0x0B], [CHR 0x0C], [CHR 0x0D], [CHR 0x20],
      [CHR 0xC2, CHR 0x85], [CHR 0xC2, CHR 0xA0],
      [CHR 0xE1, CHR 0x9A, CHR 0x80],
      [CHR 0xE2, CHR 0x80, CHR 0x80], [CHR 0xE2, CHR 0x80, CHR 0x81],
      [CHR 0xE2, CHR 0x80, CHR 0x82], [CHR 0xE2, CHR 0x80, CHR 0x83],
      [CHR 0xE2, CHR 0x80, CHR 0x84], [CHR 0xE2, CHR 0x80, CHR 0x85],
      [CHR 0xE2, CHR 0x80, CHR 0x86], [CHR 0xE2, CHR 0x80, CHR 0x87],
      [CHR 0xE2, CHR 0x80, CHR 0x88], [CHR 0xE2, CHR 0x80, CHR 0x89],
      [CHR 0xE2, CHR 0x80, CHR 0x8A],
      [CHR 0xE2, CHR 0x80, CHR 0xA8], [CHR 0xE2, CHR 0x80, CHR 0xA9],
      [CHR 0xE2, CHR 0x80, CHR 0xAF],
      [CHR 0xE2, CHR 0x81, CHR 0x9F],
      [CHR 0xE3, CHR 0x80, CHR 0x80]]"

text \<open>The string without the first of the given byte sequences that leads it, if one
  does.\<close>

fun dropRune :: "string list \<Rightarrow> string \<Rightarrow> string option" where
  "dropRune [] s = None"
| "dropRune (r # rs) s =
     (if r \<noteq> [] \<and> HasPrefix s r then Some (drop (length r) s) else dropRune rs s)"

function trimLeftRunes :: "string list \<Rightarrow> string \<Rightarrow> string" where
  "trimLeftRunes rs s =
     (case dropRune rs s of None \<Rightarrow> s | Some rest \<Rightarrow> trimLeftRunes rs rest)"
  by pat_completeness auto
termination
proof (relation "measure (\<lambda>(rs, s). length s)")
  show "wf (measure (\<lambda>(rs, s). length s))" by simp
next
  fix rs :: "string list" and s rest :: string
  assume "dropRune rs s = Some rest"
  then have "length rest < length s"
  proof (induction rs)
    case Nil
    then show ?case by simp
  next
    case (Cons r rs)
    show ?case
    proof (cases "r \<noteq> [] \<and> HasPrefix s r")
      case True
      then have "s \<noteq> []" by (cases s; cases r) auto
      moreover have "rest = drop (length r) s" using Cons.prems True by simp
      ultimately show ?thesis using True by (cases s) auto
    next
      case False
      then show ?thesis using Cons by auto
    qed
  qed
  then show "((rs, rest), (rs, s)) \<in> measure (\<lambda>(rs, s). length s)" by simp
qed

declare trimLeftRunes.simps [simp del]

definition TrimSpace :: "string \<Rightarrow> string" where
  "TrimSpace s = rev (trimLeftRunes (map rev spaceRunes) (rev (trimLeftRunes spaceRunes s)))"

text \<open>
  The watcher of \<open>RunCommandContext\<close> (lines 160 to 191) once it has taken the
  \<open>ctx.Done()\<close> branch. \<open>cmd\<close> and \<open>args\<close> are the variables its closure captures:
  the command as the caller passed it and the argument slice. First the string it
  looks for (lines 168 to 174), then the shell command around it (line 176), then the
  two commands it runs.
\<close>

definition watcherFullCommand :: "string \<Rightarrow> string list \<Rightarrow> string" where
  "watcherFullCommand cmd args =
     (let components = Split cmd (CHR ''/'');
          process = last components
      in if length args > 0 then process @ '' '' @ Join args '' '' else process)"

definition procFetchCmd :: "string \<Rightarrow> string" where
  "procFetchCmd fullCommand =
     ''ps -f -A | grep '' @ [squote] @ fullCommand @ [squote]
       @ '' | sed 's/   */ /g' | cut -d ' ' -f 2 | head -n 1''"

definition watcher :: "Device \<Rightarrow> string \<Rightarrow> string list \<Rightarrow> world \<Rightarrow> world" where
  "watcher c cmd args w =
     (case RunCommand c (procFetchCmd (watcherFullCommand cmd args)) [] w of
        (((out, Some e), _), w1) \<Rightarrow>
          Log (''failed to fetch matching processes: '' @ ErrError e) w1
      | (((out, None), _), w1) \<Rightarrow>
          (let out' = TrimSpace out in
           if length out' = 0 then Log ''output from kill was empty'' w1
           else
             (case RunCommand c (''kill '' @ out') [] (Log (''Killing PID '' @ out') w1) of
                (((_, Some e), _), w2) \<Rightarrow> Log (''failed to kill: '' @ ErrError e) w2
              | (((_, None), _), w2) \<Rightarrow> w2)))"

text \<open>
  The goroutine that \<open>RunCommandContext\<close> starts at line 160, as the call leaves it
  behind: not started, or started with the \<open>cmd\<close> and the \<open>args\<close> slice its
  closure captured. Nothing waits for it.
\<close>

datatype spawned = NotStarted | Started string "string list"

text \<open>
  The \<open>select\<close> of lines 161 to 165, when the goroutine gets to run in the world \<open>w\<close>:
  \<open>cmdDone\<close> is ready once the call has returned, \<open>ctx.Done()\<close> once the context is
  done. With neither ready the goroutine stays blocked; with both ready Go picks one of
  them at random, which is \<open>pick\<close>.
\<close>

datatype selectCase = CmdDone | CtxDone

definition watcherSelect :: "Context \<Rightarrow> bool \<Rightarrow> selectCase \<Rightarrow> world \<Rightarrow> selectCase option" where
  "watcherSelect ctx cmdDoneClosed pick w =
     (case ctxErr ctx w of
        None \<Rightarrow> if cmdDoneClosed then Some CmdDone else None
      | Some cancelled \<Rightarrow> if cmdDoneClosed then Some pick else Some CtxDone)"

text \<open>
  The goroutine (lines 160 to 191), run in the world \<open>w\<close> it finds when the scheduler
  lets it go on: no world while it is blocked, the same world when it leaves through
  \<open>cmdDone\<close>, the world after the watcher's commands when it takes \<open>ctx.Done()\<close>.
\<close>

definition watcherGoroutine :: "Device \<Rightarrow> Context \<Rightarrow> spawned \<Rightarrow> bool \<Rightarrow> selectCase \<Rightarrow> world
    \<Rightarrow> world option" where
  "watcherGoroutine c ctx sp cmdDoneClosed pick w =
     (case sp of
        NotStarted \<Rightarrow> Some w
      | Started cmd args \<Rightarrow>
          (case watcherSelect ctx cmdDoneClosed pick w of
             None \<Rightarrow> None
           | Some CmdDone \<Rightarrow> Some w
           | Some CtxDone \<Rightarrow> Some (watcher c cmd args w)))"

text \<open>
  \<open>RunCommandContext\<close> (line 134): the output, the error, the caller's argument slice
  after the call, the goroutine it has started, and the world as the calling thread
  leaves it. The goroutine is started once the status of the shell request is read; the
  deferred calls close \<open>cmdDone\<close> and then the connection. What the goroutine does,
  and when, is \<open>watcherGoroutine\<close>: its commands are no part of the call's own log.
\<close>

definition RunCommandContext :: "Device \<Rightarrow> Context \<Rightarrow> string \<Rightarrow> string list \<Rightarrow> world
    \<Rightarrow> ((string \<times> error option) \<times> (string list \<times> spawned)) \<times> world" where
  "RunCommandContext c ctx cmd args w =
     (case prepareCommandLine cmd args of
        ((_, Some e), args') \<Rightarrow>
          ((([], Some (WrapError ''prepareCommandLine err: '' (PkgErr e))), (args', NotStarted)), w)
      | ((preparedCmd, None), args') \<Rightarrow>
          (case dialContext c ctx w of
             (Inl e, w1) \<Rightarrow>
               ((([], Some (WrapError ''dialContext err: '' (PkgErr e))), (args', NotStarted)), w1)
           | (Inr conn, w1) \<Rightarrow>
               (let req = ''shell:'' @ preparedCmd in
                case SendMessage conn req w1 of
                  (Some e, w2) \<Rightarrow>
                    ((([], Some (WrapError ''conn.SendMessage err: '' (PkgErr e))),
                      (args', NotStarted)),
                     Close conn w2)
                | (None, w2) \<Rightarrow>
                    (case ReadStatus conn req w2 of
                       (Some e, w3) \<Rightarrow>
                         ((([], Some (WrapError ''conn.ReadStatus err: '' (PkgErr e))),
                           (args', NotStarted)),
                          Close conn w3)
                     | (None, w3) \<Rightarrow>
                         (case ReadUntilEof conn w3 of
                            ((resp, err), w4) \<Rightarrow>
                              (case ctxErr ctx w4 of
                                 Some cancelled \<Rightarrow>
                                   (((resp, Some cancelled), (args', Started cmd args')),
                                    Close conn w4)
                               | None \<Rightarrow>
                                   (case err of
                                      Some e \<Rightarrow>
                                        (((resp,
                                           Some (WrapError ''conn.ReadUntilEof err: '' (PkgErr e))),
                                          (args', Started cmd args')),
                                         Close conn w4)
                                    | None \<Rightarrow>
                                        (((resp, None), (args', Started cmd args')),
                                         Close conn w4))))))))"

text \<open>\<open>Remount\<close> (line 217).\<close>

definition Remount :: "Device \<Rightarrow> world \<Rightarrow> (string \<times> Err option) \<times> world" where
  "Remount c w =
     (case dialDevice c w of
        (Inl e, w1) \<Rightarrow> (([], wrapClientError (Some e) c ''Remount''), w1)
      | (Inr conn, w1) \<Rightarrow>
          (case RoundTripSingleResponse conn ''remount'' w1 of
             ((resp, err), w2) \<Rightarrow> ((resp, wrapClientError err c ''Remount''), Close conn w2)))"

text \<open>\<open>roundTripUntilEof\<close> (line 367).\<close>

definition roundTripUntilEof :: "nat \<Rightarrow> string \<Rightarrow> world \<Rightarrow> (string \<times> error option) \<times> world" where
  "roundTripUntilEof conn req w =
     (case SendMessage conn req w of
        (Some e, w1) \<Rightarrow> (([], Some (WrapError ''SendMessage failed: '' (PkgErr e))), w1)
      | (None, w1) \<Rightarrow>
          (case ReadStatus conn req w1 of
             (Some e, w2) \<Rightarrow> (([], Some (WrapError ''ReadStatus failed: '' (PkgErr e))), w2)
           | (None, w2) \<Rightarrow>
               (case ReadUntilEof conn w2 of
                  ((resp, Some e), w3) \<Rightarrow>
                    (([], Some (WrapError ''ReadUntilEof failed: '' (PkgErr e))), w3)
                | ((resp, None), w3) \<Rightarrow> ((resp, None), w3))))"

text \<open>\<open>Root\<close> (line 391).\<close>

definition Root :: "Device \<Rightarrow> world \<Rightarrow> error option \<times> world" where
  "Root c w =
     (case dialDevice c w of
        (Inl e, w1) \<Rightarrow> (Some (WrapError ''dialDevice failed: '' (PkgErr e)), w1)
      | (Inr conn, w1) \<Rightarrow>
          (case roundTripUntilEof conn ''root:'' w1 of
             ((_, Some e), w2) \<Rightarrow>
               (Some (WrapError ''roundTripUntilEof failed: '' e), Close conn w2)
           | ((respStr, None), w2) \<Rightarrow>
               (if Contains respStr ''restarting adbd as root'' then (None, Close conn w2)
                else if Contains respStr ''adbd is already running as root''
                  then (Some ErrNoOp, Close conn w2)
                else (Some (ErrorString (''unexpected response: '' @ respStr)), Close conn w2))))"

text \<open>\<open>Unroot\<close> (line 419).\<close>

definition Unroot :: "Device \<Rightarrow> world \<Rightarrow> error option \<times> world" where
  "Unroot c w =
     (case dialDevice c w of
        (Inl e, w1) \<Rightarrow> (Some (WrapError ''dialDevice failed: '' (PkgErr e)), w1)
      | (Inr conn, w1) \<Rightarrow>
          (case roundTripUntilEof conn ''unroot:'' w1 of
             ((_, Some e), w2) \<Rightarrow>
               (Some (WrapError ''roundTripUntilEof failed: '' e), Close conn w2)
           | ((respStr, None), w2) \<Rightarrow>
               (if Contains respStr ''restarting adbd as non root'' then (None, Close conn w2)
                else if Contains respStr ''adbd not running as root''
                  then (Some ErrNoOp, Close conn w2)
                else (Some (ErrorString (''unexpected unroot response: '' @ respStr)),
                      Close conn w2))))"

text \<open>\<open>WaitFor\<close> (line 447); a \<open>DeviceConnectionState\<close> is a string.\<close>

definition WaitFor :: "Device \<Rightarrow> string \<Rightarrow> world \<Rightarrow> error option \<times> world" where
  "WaitFor c state w =
     (case Dial w of
        (Inl e, w1) \<Rightarrow> (Some (WrapError ''server Dial: '' (PkgErr e)), w1)
      | (Inr conn, w1) \<Rightarrow>
          (let cmd = getHostPrefix (descriptor c) @ '':wait-for-any-'' @ state in
           case roundTripUntilEof conn cmd w1 of
             ((_, Some e), w2) \<Rightarrow>
               (Some (WrapError ''roundTripUntilEof err: '' e), Close conn w2)
           | ((resp, None), w2) \<Rightarrow>
               (let respStr = TrimSpace resp in
                if respStr \<noteq> [] then
                  (None, Close conn (Log (''Unexpected WaitFor response: '' @ respStr) w2))
                else (None, Close conn w2))))"

text \<open>\<open>getSyncConn\<close> (line 284); on a failed switch the connection is not closed.\<close>

definition getSyncConn :: "Device \<Rightarrow> world \<Rightarrow> (Err + nat) \<times> world" where
  "getSyncConn c w =
     (case dialDevice c w of
        (Inl e, w1) \<Rightarrow> (Inl e, w1)
      | (Inr conn, w1) \<Rightarrow>
          (case SendMessage conn ''sync:'' w1 of
             (Some e, w2) \<Rightarrow> (Inl e, w2)
           | (None, w2) \<Rightarrow>
               (case ReadStatus conn ''sync'' w2 of
                  (Some e, w3) \<Rightarrow> (Inl e, w3)
                | (None, w3) \<Rightarrow> (Inr conn, w3))))"

text \<open>
  Modelled from the spec: \<open>stat\<close>, \<open>receiveFile\<close> and \<open>sendFile\<close> of the sync engine
  are not among the sources; each is one call answered by the environment. A reader or
  a writer is the sync connection it works on.
\<close>

definition stat :: "nat \<Rightarrow> string \<Rightarrow> world \<Rightarrow> (DirEntry option \<times> Err option) \<times> world" where
  "stat conn path w =
     (case perform (EvStat conn path) w of
        ((_, Some e), w') \<Rightarrow> ((None, Some e), w')
      | ((_, None), w') \<Rightarrow> ((entryReply w (events w'), None), w'))"

text \<open>Modelled from the spec: \<open>receiveFile\<close>, the pull of section 4.3.\<close>

definition receiveFile :: "nat \<Rightarrow> string \<Rightarrow> world \<Rightarrow> (nat option \<times> Err option) \<times> world" where
  "receiveFile conn path w =
     (case perform (EvReceiveFile conn path) w of
        ((_, Some e), w') \<Rightarrow> ((None, Some e), w')
      | ((_, None), w') \<Rightarrow> ((Some conn, None), w'))"

text \<open>Modelled from the spec: \<open>sendFile\<close>, the push of section 4.3.\<close>

definition sendFile :: "nat \<Rightarrow> string \<Rightarrow> 32 word \<Rightarrow> int \<Rightarrow> world
    \<Rightarrow> (nat option \<times> Err option) \<times> world" where
  "sendFile conn path perms mtime w =
     (case perform (EvSendFile conn path perms mtime) w of
        ((_, Some e), w') \<Rightarrow> ((None, Some e), w')
      | ((_, None), w') \<Rightarrow> ((Some conn, None), w'))"

text \<open>Modelled from the spec: \<open>listDirEntries\<close>, the listing of section 4.3; the
  entries are read from the sync connection it returns.\<close>

definition listDirEntries :: "nat \<Rightarrow> string \<Rightarrow> world \<Rightarrow> (nat option \<times> Err option) \<times> world" where
  "listDirEntries conn path w =
     (case perform (EvListDirEntries conn path) w of
        ((_, Some e), w') \<Rightarrow> ((None, Some e), w')
      | ((_, None), w') \<Rightarrow> ((Some conn, None), w'))"

text \<open>\<open>ListDirEntries\<close> (line 228); the connection is left open.\<close>

definition ListDirEntries :: "Device \<Rightarrow> string \<Rightarrow> world \<Rightarrow> (nat option \<times> Err option) \<times> world" where
  "ListDirEntries c path w =
     (case getSyncConn c w of
        (Inl e, w1) \<Rightarrow>
          ((None, wrapClientError (Some e) c (''ListDirEntries('' @ path @ '')'')), w1)
      | (Inr conn, w1) \<Rightarrow>
          (case listDirEntries conn path w1 of
             ((entries, err), w2) \<Rightarrow>
               ((entries, wrapClientError err c (''ListDirEntries('' @ path @ '')'')), w2)))"

text \<open>\<open>Stat\<close> (line 238).\<close>

definition Stat :: "Device \<Rightarrow> string \<Rightarrow> world \<Rightarrow> (DirEntry option \<times> Err option) \<times> world" where
  "Stat c path w =
     (case getSyncConn c w of
        (Inl e, w1) \<Rightarrow> ((None, wrapClientError (Some e) c (''Stat('' @ path @ '')'')), w1)
      | (Inr conn, w1) \<Rightarrow>
          (case stat conn path w1 of
             ((entry, err), w2) \<Rightarrow>
               ((entry, wrapClientError err c (''Stat('' @ path @ '')'')), Close conn w2)))"

text \<open>\<open>OpenRead\<close> (line 249).\<close>

definition OpenRead :: "Device \<Rightarrow> string \<Rightarrow> world \<Rightarrow> (nat option \<times> Err option) \<times> world" where
  "OpenRead c path w =
     (case getSyncConn c w of
        (Inl e, w1) \<Rightarrow> ((None, wrapClientError (Some e) c (''OpenRead('' @ path @ '')'')), w1)
      | (Inr conn, w1) \<Rightarrow>
          (case receiveFile conn path w1 of
             ((reader, err), w2) \<Rightarrow>
               ((reader, wrapClientError err c (''OpenRead('' @ path @ '')'')), w2)))"

text \<open>\<open>OpenWrite\<close> (line 263).\<close>

definition OpenWrite :: "Device \<Rightarrow> string \<Rightarrow> 32 word \<Rightarrow> int \<Rightarrow> world
    \<Rightarrow> (nat option \<times> Err option) \<times> world" where
  "OpenWrite c path perms mtime w =
     (case getSyncConn c w of
        (Inl e, w1) \<Rightarrow> ((None, wrapClientError (Some e) c (''OpenWrite('' @ path @ '')'')), w1)
      | (Inr conn, w1) \<Rightarrow>
          (case sendFile conn path perms mtime w1 of
             ((writer, err), w2) \<Rightarrow>
               ((writer, wrapClientError err c (''OpenWrite('' @ path @ '')'')), w2)))"

section \<open>The error an operation attaches its name to\<close>

text \<open>
  Modelled from the spec: the error that section 4.5 has an operation of the device
  \<open>c\<close> return for the error \<open>inner\<close>. It is of the kind of \<open>inner\<close>, its
  message names the operation, its details are the descriptor string of the device, and
  its cause is \<open>inner\<close>.
\<close>

definition clientError :: "Device \<Rightarrow> string \<Rightarrow> Err \<Rightarrow> Err" where
  "clientError c operation inner =
     Err (Code inner) (''error performing '' @ operation @ '' on Device'')
       (Some (descriptorString (descriptor c))) (Some inner)"

section \<open>Environments of the examples\<close>

text \<open>
  The mock server of the test file: every call succeeds, and every read yields the
  one message the mock was given.
\<close>

definition MockServer :: "string \<Rightarrow> world" where
  "MockServer message =
     \<lparr>events = [], reply = (\<lambda>h. (message, None)), entryReply = (\<lambda>h. None)\<rparr>"

text \<open>A daemon that cannot be reached: every call fails with a network error.\<close>

definition Unreachable :: world where
  "Unreachable =
     \<lparr>events = [],
      reply = (\<lambda>h. ([], Some (Err NetworkError ''connection refused'' None None))),
      entryReply = (\<lambda>h. None)\<rparr>"

text \<open>
  A device whose shell command is cut off: every call succeeds, except that the read of
  the first connection ends with the bytes \<open>test\<close> and a network error.
\<close>

definition Interrupted :: world where
  "Interrupted =
     \<lparr>events = [],
      reply = (\<lambda>h. if last h = EvReadUntilEof 0
                     then (''test'', Some (Err NetworkError ''connection reset'' None None))
                     else ([], None)),
      entryReply = (\<lambda>h. None)\<rparr>"

definition anyDevice :: Device where
  "anyDevice = \<lparr>descriptor = DescAny, deviceListFunc = ([], None)\<rparr>"

definition deviceAbc :: Device where
  "deviceAbc = \<lparr>descriptor = DescSerial ''abc'', deviceListFunc = ([], None)\<rparr>"

text \<open>A context whose signal has fired before the call starts.\<close>

definition cancelledAtOnce :: Context where
  "cancelledAtOnce = \<lparr>doneAt = Some 0, ctxCause = Canceled\<rparr>"

text \<open>A context that is never cancelled.\<close>

definition neverDone :: Context where
  "neverDone = \<lparr>doneAt = None, ctxCause = Canceled\<rparr>"

text \<open>The network error of the examples.\<close>

definition refused :: Err where
  "refused = Err NetworkError ''connection refused'' None None"

text \<open>
  A daemon with the log \<open>es\<close> behind it that answers every call but the one that
  makes the log \<open>n\<close> long, which fails with a network error; every read yields
  \<open>message\<close>.
\<close>

definition FailsAt :: "nat \<Rightarrow> string \<Rightarrow> event list \<Rightarrow> world" where
  "FailsAt n message es =
     \<lparr>events = es,
      reply = (\<lambda>h. if length h = n then ([], Some refused) else (message, None)),
      entryReply = (\<lambda>h. None)\<rparr>"

section \<open>Helper lemmas\<close>

lemmas io_defs = perform_def nextConn_def Dial_def DialContext_def SendMessage_def ReadStatus_def
  ReadUntilEof_def Close_def Log_def roundTripSingleResponse_def RoundTripSingleResponse_def
  stat_def receiveFile_def sendFile_def listDirEntries_def Let_def

lemmas example_defs = MockServer_def Unreachable_def Interrupted_def FailsAt_def anyDevice_def

lemma showNat_digit: "n < 10 \<Longrightarrow> showNat n = [digit n]"
  by (subst showNat.simps) simp

text \<open>
  The loop, started at index \<open>length pre\<close> on the slice \<open>pre @ rest\<close>: when no
  remaining argument holds a double quote it runs to the end and has quoted every
  remaining argument that contains whitespace.
\<close>

lemma loop_clean:
  "\<forall>a\<in>set rest. \<not> ContainsRune a dquote \<Longrightarrow>
   prepareCommandLine_loop (length pre) (pre @ rest) =
     (None, pre @ map (\<lambda>a. if containsWhitespace a then [dquote] @ a @ [dquote] else a) rest)"
proof (induction rest arbitrary: pre)
  case Nil
  show ?case by (subst prepareCommandLine_loop.simps) simp
next
  case (Cons a rest)
  let ?q = "if containsWhitespace a then [dquote] @ a @ [dquote] else a"
  have step: "prepareCommandLine_loop (length pre) (pre @ a # rest) =
     prepareCommandLine_loop (length (pre @ [?q])) ((pre @ [?q]) @ rest)"
    using Cons.prems by (subst prepareCommandLine_loop.simps) (simp add: Let_def)
  show ?case
    unfolding step using Cons.prems by (subst Cons.IH) simp_all
qed

text \<open>When \<open>b\<close> is the first remaining argument with a double quote, the loop stops
  there: the arguments before it are quoted, \<open>b\<close> and the rest are untouched.\<close>

lemma loop_dq:
  "\<forall>a\<in>set r1. \<not> ContainsRune a dquote \<Longrightarrow> ContainsRune b dquote \<Longrightarrow>
   prepareCommandLine_loop (length pre) (pre @ r1 @ b # r2) =
     (Some (Errorf ParseError
        (''arg at index '' @ showNat (length pre + length r1)
           @ '' contains an invalid double quote: '' @ b)),
      pre @ map (\<lambda>a. if containsWhitespace a then [dquote] @ a @ [dquote] else a) r1 @ b # r2)"
proof (induction r1 arbitrary: pre)
  case Nil
  then show ?case by (subst prepareCommandLine_loop.simps) (simp add: Let_def)
next
  case (Cons a r1)
  let ?q = "if containsWhitespace a then [dquote] @ a @ [dquote] else a"
  have step: "prepareCommandLine_loop (length pre) (pre @ (a # r1) @ b # r2) =
     prepareCommandLine_loop (length (pre @ [?q])) ((pre @ [?q]) @ r1 @ b # r2)"
    using Cons.prems by (subst prepareCommandLine_loop.simps) (simp add: Let_def)
  show ?case
    unfolding step using Cons.prems by (subst Cons.IH) simp_all
qed

lemma loop_clean0:
  "\<forall>a\<in>set args. \<not> ContainsRune a dquote \<Longrightarrow>
   prepareCommandLine_loop 0 args =
     (None, map (\<lambda>a. if containsWhitespace a then [dquote] @ a @ [dquote] else a) args)"
  using loop_clean [of args "[]"] by simp

lemma loop_dq0:
  assumes "i < length args" "ContainsRune (args ! i) dquote"
    "\<forall>j<i. \<not> ContainsRune (args ! j) dquote"
  shows "prepareCommandLine_loop 0 args =
     (Some (Errorf ParseError
        (''arg at index '' @ showNat i @ '' contains an invalid double quote: '' @ args ! i)),
      map (\<lambda>a. if containsWhitespace a then [dquote] @ a @ [dquote] else a) (take i args)
        @ drop i args)"
proof -
  have split: "args = take i args @ args ! i # drop (Suc i) args"
    using assms(1) by (simp add: id_take_nth_drop)
  have clean: "\<forall>a\<in>set (take i args). \<not> ContainsRune a dquote"
    using assms(1,3) by (auto simp: in_set_conv_nth)
  have "prepareCommandLine_loop (length ([]::string list))
          ([] @ take i args @ args ! i # drop (Suc i) args) =
     (Some (Errorf ParseError
        (''arg at index '' @ showNat (length ([]::string list) + length (take i args))
           @ '' contains an invalid double quote: '' @ args ! i)),
      [] @ map (\<lambda>a. if containsWhitespace a then [dquote] @ a @ [dquote] else a) (take i args)
         @ args ! i # drop (Suc i) args)"
    by (rule loop_dq [OF clean assms(2)])
  moreover have "length (take i args) = i" using assms(1) by simp
  moreover have "args ! i # drop (Suc i) args = drop i args"
    using assms(1) by (simp add: Cons_nth_drop_Suc)
  ultimately show ?thesis using split by simp
qed

text \<open>\<open>Split\<close> yields at least one piece, so the last piece, which the watcher takes
  for the process name, is there.\<close>

lemma Split_nonempty: "Split s sep \<noteq> []"
  by (induction s) auto

text \<open>The dial of the device, when its three calls succeed.\<close>

lemma dialDevice_ok:
  assumes "Dial w = (Inr conn, w0)"
    and "SendMessage conn (''host:'' @ getTransportDescriptor (descriptor c)) w0 = (None, w0')"
    and "ReadStatus conn (''host:'' @ getTransportDescriptor (descriptor c)) w0' = (None, w1)"
  shows "dialDevice c w = (Inr conn, w1)"
  using assms by (simp add: dialDevice_def)

text \<open>What each call appends to the log.\<close>

lemma Dial_events:
  "Dial w = (Inr conn, w0) \<Longrightarrow> events w0 = events w @ [EvDial conn]"
  by (auto simp: Dial_def perform_def Let_def split: prod.splits option.splits)

lemma SendMessage_events:
  "SendMessage conn msg w = (r, w') \<Longrightarrow> events w' = events w @ [EvSendMessage conn msg]"
  by (auto simp: SendMessage_def perform_def split: prod.splits)

lemma ReadStatus_events:
  "ReadStatus conn req w = (r, w') \<Longrightarrow> events w' = events w @ [EvReadStatus conn req]"
  by (auto simp: ReadStatus_def perform_def split: prod.splits)

lemma ReadUntilEof_events:
  "ReadUntilEof conn w = (r, w') \<Longrightarrow> events w' = events w @ [EvReadUntilEof conn]"
  by (auto simp: ReadUntilEof_def perform_def)

text \<open>The argument slice after a call, and the goroutine a call leaves behind.\<close>

lemma prepareCommandLine_args:
  assumes "\<not> isBlank cmd" and "\<forall>a\<in>set args. \<not> ContainsRune a dquote"
  shows "snd (prepareCommandLine cmd args) =
           map (\<lambda>a. if containsWhitespace a then [dquote] @ a @ [dquote] else a) args"
    and "snd (fst (prepareCommandLine cmd args)) = None"
  using assms by (simp_all add: prepareCommandLine_def loop_clean0)

lemma prepareCommandLine_blank_args:
  "isBlank cmd \<Longrightarrow> snd (prepareCommandLine cmd args) = args"
  by (simp add: prepareCommandLine_def)

lemma prepareCommandLine_prefix_args:
  assumes "\<not> isBlank cmd" and "i \<le> length args"
    and "\<forall>j<i. \<not> ContainsRune (args ! j) dquote"
    and "i < length args \<longrightarrow> ContainsRune (args ! i) dquote"
  shows "snd (prepareCommandLine cmd args) =
           map (\<lambda>a. if containsWhitespace a then [dquote] @ a @ [dquote] else a) (take i args)
             @ drop i args"
proof (cases "i < length args")
  case True
  then show ?thesis
    using assms loop_dq0 [of i args] by (simp add: prepareCommandLine_def)
next
  case False
  then have all: "i = length args" using assms(2) by simp
  then have "\<forall>a\<in>set args. \<not> ContainsRune a dquote"
    using assms(3) by (auto simp: in_set_conv_nth)
  then show ?thesis
    using assms(1) all by (simp add: prepareCommandLine_def loop_clean0)
qed

lemma prepareCommandLine_takeWhile_args:
  assumes "\<not> isBlank cmd"
  shows "snd (prepareCommandLine cmd args) =
           map (\<lambda>a. if containsWhitespace a then [dquote] @ a @ [dquote] else a)
             (takeWhile (\<lambda>a. \<not> ContainsRune a dquote) args)
             @ dropWhile (\<lambda>a. \<not> ContainsRune a dquote) args"
proof -
  let ?P = "\<lambda>a. \<not> ContainsRune a dquote"
  let ?i = "length (takeWhile ?P args)"
  have a: "?i \<le> length args" by (rule length_takeWhile_le)
  have b: "\<forall>j<?i. \<not> ContainsRune (args ! j) dquote"
  proof (intro allI impI)
    fix j assume j: "j < ?i"
    then have "takeWhile ?P args ! j = args ! j" by (rule takeWhile_nth)
    moreover have "takeWhile ?P args ! j \<in> set (takeWhile ?P args)" using j by (rule nth_mem)
    ultimately show "\<not> ContainsRune (args ! j) dquote" using set_takeWhileD by fastforce
  qed
  have c: "?i < length args \<longrightarrow> ContainsRune (args ! ?i) dquote"
    using nth_length_takeWhile [of ?P args] by blast
  have "snd (prepareCommandLine cmd args) =
           map (\<lambda>a. if containsWhitespace a then [dquote] @ a @ [dquote] else a) (take ?i args)
             @ drop ?i args"
    using assms a b c by (rule prepareCommandLine_prefix_args)
  then show ?thesis
    by (simp add: takeWhile_eq_take [symmetric] dropWhile_eq_drop [symmetric])
qed

lemma RunCommand_args:
  "snd (fst (RunCommand c cmd args w)) = snd (prepareCommandLine cmd args)"
  by (simp add: RunCommand_def Let_def split: prod.splits sum.splits option.splits)

lemma RunCommandContext_args:
  "fst (snd (fst (RunCommandContext c ctx cmd args w))) = snd (prepareCommandLine cmd args)"
  by (simp add: RunCommandContext_def Let_def split: prod.splits sum.splits option.splits)

lemma RunCommandContext_spawned:
  "snd (snd (fst (RunCommandContext c ctx cmd args w))) = NotStarted
   \<or> snd (snd (fst (RunCommandContext c ctx cmd args w)))
        = Started cmd (snd (prepareCommandLine cmd args))"
  by (simp add: RunCommandContext_def Let_def split: prod.splits sum.splits option.splits)

lemma RunCommandContext_started:
  assumes "snd (fst (prepareCommandLine cmd args)) = None"
    and "DialContext ctx w = (Inr conn, w0)"
    and "SendMessage conn (''host:'' @ getTransportDescriptor (descriptor c)) w0 = (None, w0')"
    and "ReadStatus conn (''host:'' @ getTransportDescriptor (descriptor c)) w0' = (None, w1)"
    and "SendMessage conn (''shell:'' @ fst (fst (prepareCommandLine cmd args))) w1 = (None, w2)"
    and "ReadStatus conn (''shell:'' @ fst (fst (prepareCommandLine cmd args))) w2 = (None, w3)"
  shows "snd (snd (fst (RunCommandContext c ctx cmd args w)))
           = Started cmd (snd (prepareCommandLine cmd args))"
  using assms
  by (cases "prepareCommandLine cmd args")
     (auto simp: RunCommandContext_def dialContext_def split: prod.splits option.splits)

text \<open>What the watcher sends once its own dial has succeeded.\<close>

lemma procFetchCmd_not_blank: "\<not> isBlank (procFetchCmd s)"
  by (simp add: procFetchCmd_def isBlank_def isSpace_def)

lemma prepareCommandLine_no_args:
  "\<not> isBlank cmd \<Longrightarrow> prepareCommandLine cmd [] = ((cmd, None), [])"
  by (simp add: prepareCommandLine_def loop_clean0)

lemma RunCommand_sends:
  assumes "\<not> isBlank cmd" and "dialDevice c w = (Inr conn, w1)"
  shows "\<exists>es. events (snd (RunCommand c cmd [] w)) =
            events w1 @ EvSendMessage conn (''shell:'' @ cmd) # es"
  using assms
  by (auto simp: RunCommand_def prepareCommandLine_no_args SendMessage_def ReadStatus_def
        ReadUntilEof_def perform_def Close_def Let_def
      split: prod.splits option.splits)

lemma RunCommand_extends:
  "\<exists>es. events (snd (RunCommand c cmd args w)) = events w @ es"
  by (auto simp: RunCommand_def dialDevice_def Dial_def SendMessage_def ReadStatus_def
        ReadUntilEof_def perform_def Close_def Let_def
      split: prod.splits option.splits sum.splits)

lemma watcher_extends:
  "\<exists>es. events (watcher c cmd args w) =
          events (snd (RunCommand c (procFetchCmd (watcherFullCommand cmd args)) [] w)) @ es"
proof -
  let ?run = "RunCommand c (procFetchCmd (watcherFullCommand cmd args)) [] w"
  obtain out err a w' where run: "?run = (((out, err), a), w')"
    by (metis prod.collapse)
  show ?thesis
  proof (cases err)
    case (Some e)
    then show ?thesis using run by (simp add: watcher_def Log_def)
  next
    case None
    show ?thesis
    proof (cases "length (TrimSpace out) = 0")
      case True
      then show ?thesis using run None by (simp add: watcher_def Log_def)
    next
      case False
      let ?w2 = "Log (''Killing PID '' @ TrimSpace out) w'"
      obtain es2 where es2:
        "events (snd (RunCommand c (''kill '' @ TrimSpace out) [] ?w2)) = events ?w2 @ es2"
        using RunCommand_extends by blast
      obtain r2 e2 a2 w2 where kill:
        "RunCommand c (''kill '' @ TrimSpace out) [] ?w2 = (((r2, e2), a2), w2)"
        by (metis prod.collapse)
      show ?thesis
        using run None False kill es2
        by (cases e2) (simp_all add: watcher_def Let_def Log_def)
    qed
  qed
qed

lemma watcher_sends:
  assumes "dialDevice c w = (Inr conn, w1)"
  shows "\<exists>rest. events (watcher c cmd args w) =
            events w1 @ EvSendMessage conn (''shell:'' @ procFetchCmd (watcherFullCommand cmd args))
              # rest"
proof -
  let ?cmd = "procFetchCmd (watcherFullCommand cmd args)"
  obtain es where es:
    "events (snd (RunCommand c ?cmd [] w)) = events w1 @ EvSendMessage conn (''shell:'' @ ?cmd) # es"
    using RunCommand_sends [OF procFetchCmd_not_blank assms] by blast
  obtain es' where "events (watcher c cmd args w) = events (snd (RunCommand c ?cmd [] w)) @ es'"
    using watcher_extends by blast
  then show ?thesis using es by simp
qed

lemma watcherFullCommand_eq:
  "watcherFullCommand cmd args =
     last (Split cmd (CHR ''/'')) @ (if args = [] then [] else '' '' @ Join args '' '')"
  by (simp add: watcherFullCommand_def Let_def)

lemma sleep_prepared:
  "prepareCommandLine ''/system/bin/sleep'' [''1 2''] =
     ((''/system/bin/sleep '' @ [dquote] @ ''1 2'' @ [dquote], None), [[dquote] @ ''1 2'' @ [dquote]])"
  by (simp add: prepareCommandLine_def isBlank_def isSpace_def loop_clean0 ContainsRune_def
        containsWhitespace_def dquote_def)

lemma TrimSpace_42: "TrimSpace ''42'' = ''42''"
  by (simp add: TrimSpace_def trimLeftRunes.simps spaceRunes_def)

text \<open>The calls against the environments of the examples.\<close>

lemma MockServer_calls:
  "Dial (MockServer m\<lparr>events := es\<rparr>)
     = (Inr (length (filter isDial es)), MockServer m\<lparr>events := es @ [EvDial (length (filter isDial es))]\<rparr>)"
  "DialContext ctx (MockServer m\<lparr>events := es\<rparr>)
     = (Inr (length (filter isDial es)),
        MockServer m\<lparr>events := es @ [EvDialContext (length (filter isDial es))]\<rparr>)"
  "SendMessage conn msg (MockServer m\<lparr>events := es\<rparr>)
     = (None, MockServer m\<lparr>events := es @ [EvSendMessage conn msg]\<rparr>)"
  "ReadStatus conn msg (MockServer m\<lparr>events := es\<rparr>)
     = (None, MockServer m\<lparr>events := es @ [EvReadStatus conn msg]\<rparr>)"
  "ReadUntilEof conn (MockServer m\<lparr>events := es\<rparr>)
     = ((m, None), MockServer m\<lparr>events := es @ [EvReadUntilEof conn]\<rparr>)"
  by (simp_all add: io_defs MockServer_def)

lemma MockServer_start: "MockServer m = MockServer m\<lparr>events := []\<rparr>"
  by (simp add: MockServer_def)

lemma FailsAt_calls:
  "events (FailsAt n m es) = es"
  "Dial (FailsAt n m es) =
     (if Suc (length es) = n then Inl refused
      else Inr (length (filter isDial es)),
      FailsAt n m (es @ [EvDial (length (filter isDial es))]))"
  "DialContext ctx (FailsAt n m es) =
     (if Suc (length es) = n then Inl refused
      else Inr (length (filter isDial es)),
      FailsAt n m (es @ [EvDialContext (length (filter isDial es))]))"
  "SendMessage conn msg (FailsAt n m es) =
     (if Suc (length es) = n then Some refused
      else None,
      FailsAt n m (es @ [EvSendMessage conn msg]))"
  "ReadStatus conn msg (FailsAt n m es) =
     (if Suc (length es) = n then Some refused
      else None,
      FailsAt n m (es @ [EvReadStatus conn msg]))"
  "ReadUntilEof conn (FailsAt n m es) =
     (if Suc (length es) = n then ([], Some refused)
      else (m, None),
      FailsAt n m (es @ [EvReadUntilEof conn]))"
  "roundTripSingleResponse req (FailsAt n m es) =
     (if Suc (length es) = n then ([], Some refused)
      else (m, None),
      FailsAt n m (es @ [EvRoundTripSingleResponse req]))"
  "RoundTripSingleResponse conn req (FailsAt n m es) =
     (if Suc (length es) = n then ([], Some refused)
      else (m, None),
      FailsAt n m (es @ [EvConnRoundTripSingleResponse conn req]))"
  "listDirEntries conn path (FailsAt n m es) =
     (if Suc (length es) = n then (None, Some refused)
      else (Some conn, None),
      FailsAt n m (es @ [EvListDirEntries conn path]))"
  "stat conn path (FailsAt n m es) =
     (if Suc (length es) = n then (None, Some refused)
      else (None, None),
      FailsAt n m (es @ [EvStat conn path]))"
  "receiveFile conn path (FailsAt n m es) =
     (if Suc (length es) = n then (None, Some refused)
      else (Some conn, None),
      FailsAt n m (es @ [EvReceiveFile conn path]))"
  "sendFile conn path perms mtime (FailsAt n m es) =
     (if Suc (length es) = n then (None, Some refused)
      else (Some conn, None),
      FailsAt n m (es @ [EvSendFile conn path perms mtime]))"
  "Close conn (FailsAt n m es) = FailsAt n m (es @ [EvClose conn])"
  "Log msg (FailsAt n m es) = FailsAt n m (es @ [EvLog msg])"
  by (simp_all add: io_defs FailsAt_def)

lemma ls_prepared: "prepareCommandLine ''ls'' [] = ((''ls'', None), [])"
  by (rule prepareCommandLine_no_args) (simp add: isBlank_def isSpace_def)

lemma blank_prepared:
  "prepareCommandLine '' '' [] = (([], Some (AssertionErrorf ''command cannot be empty'')), [])"
  by (simp add: prepareCommandLine_def isBlank_def isSpace_def)

lemma ctxErr_cause: "ctxErr ctx w = Some y \<Longrightarrow> y = ctxCause ctx"
  by (simp add: ctxErr_def split: option.splits if_splits)

lemma refused_text: "ErrError refused = ''NetworkError: connection refused''"
  by (simp add: ErrError_def refused_def)

lemmas witness_simps = FailsAt_calls dialDevice_def dialContext_def getSyncConn_def
  roundTripUntilEof_def WrapErrf_def deviceAbc_def ls_prepared blank_prepared ctxErr_def
  cancelledAtOnce_def neverDone_def refused_text Let_def

lemmas operation_defs = getAttribute_def Serial_of_def DevicePath_def State_def DeviceInfo_of_def
  RunCommand_def Remount_def ListDirEntries_def Stat_def OpenRead_def OpenWrite_def
  RunCommandContext_def Root_def Unroot_def WaitFor_def wrapClientError_def clientError_def
  Errorf_def Let_def

section \<open>Cancellation of a shell command\<close>

text \<open>
  Claim C1. Take a call of \<open>RunCommandContext\<close> whose shell request has gone out: the
  command line was prepared, the device-pinned connection dialled, the request sent and
  its status read. If the context's signal has fired by the time the read of the
  remote stream returns, whether the stream was closed or the read broke off with an
  error of its own, the call returns the bytes read so far and, as its error, the
  context's error itself.
\<close>

theorem RunCommandContext_cancelled:
  assumes "prepareCommandLine cmd args = ((preparedCmd, None), args')"
    and "dialContext c ctx w = (Inr conn, w1)"
    and "SendMessage conn (''shell:'' @ preparedCmd) w1 = (None, w2)"
    and "ReadStatus conn (''shell:'' @ preparedCmd) w2 = (None, w3)"
    and "ReadUntilEof conn w3 = ((resp, err), w4)"
    and "doneAt ctx = Some t" and "t \<le> length (events w4)"
  shows "fst (fst (RunCommandContext c ctx cmd args w)) = (resp, Some (ctxCause ctx))"
  using assms by (simp add: RunCommandContext_def ctxErr_def)

theorem RunCommandContext_cancelled_witness:
  "fst (fst (RunCommandContext anyDevice \<lparr>doneAt = Some 6, ctxCause = DeadlineExceeded\<rparr>
               ''top'' [] Interrupted))
   = (''test'', Some DeadlineExceeded)"
proof -
  let ?ctx = "\<lparr>doneAt = Some 6, ctxCause = DeadlineExceeded\<rparr>"
  let ?w1 = "snd (dialContext anyDevice ?ctx Interrupted)"
  let ?w2 = "snd (SendMessage 0 ''shell:top'' ?w1)"
  let ?w3 = "snd (ReadStatus 0 ''shell:top'' ?w2)"
  let ?w4 = "snd (ReadUntilEof 0 ?w3)"
  have p: "prepareCommandLine ''top'' [] = ((''top'', None), [])"
    by (simp add: prepareCommandLine_def isBlank_def isSpace_def loop_clean0)
  have d: "dialContext anyDevice ?ctx Interrupted = (Inr 0, ?w1)"
    by (simp add: dialContext_def io_defs example_defs)
  have s: "SendMessage 0 (''shell:'' @ ''top'') ?w1 = (None, ?w2)"
    by (simp add: dialContext_def io_defs example_defs)
  have r: "ReadStatus 0 (''shell:'' @ ''top'') ?w2 = (None, ?w3)"
    by (simp add: dialContext_def io_defs example_defs)
  have e: "ReadUntilEof 0 ?w3 =
      ((''test'', Some (Err NetworkError ''connection reset'' None None)), ?w4)"
    by (simp add: dialContext_def io_defs example_defs)
  have t: "6 \<le> length (events ?w4)"
    by (simp add: dialContext_def io_defs example_defs)
  show ?thesis
    using RunCommandContext_cancelled [OF p d s r e _ t] by simp
qed

text \<open>
  Claim C2. The call is \<open>RunCommandContext(ctx, "/system/bin/sleep", "1 2")\<close> on a
  context that is cancelled, against a daemon that answers every call and yields
  \<open>42\<close> on every read. The call starts the watcher goroutine on the command and on
  the slice as \<open>prepareCommandLine\<close> left it. When the goroutine takes the case of the
  context's signal, here once the call has returned, the log shows what it sends: the
  pattern after \<open>grep\<close> is the last path segment \<open>sleep\<close> followed by the argument
  between double quotes, and then \<open>kill 42\<close>, each on a connection of its own. Built
  from the argument the caller passed, the pattern would be \<open>sleep 1 2\<close>.
\<close>

theorem watcher_greps_for_quoted_arguments:
  "snd (snd (fst (RunCommandContext anyDevice cancelledAtOnce ''/system/bin/sleep'' [''1 2'']
                    (MockServer ''42''))))
     = Started ''/system/bin/sleep'' [[dquote] @ ''1 2'' @ [dquote]]
   \<and> map_option events
        (watcherGoroutine anyDevice cancelledAtOnce
           (snd (snd (fst (RunCommandContext anyDevice cancelledAtOnce ''/system/bin/sleep''
                             [''1 2''] (MockServer ''42'')))))
           True CtxDone
           (snd (RunCommandContext anyDevice cancelledAtOnce ''/system/bin/sleep'' [''1 2'']
                   (MockServer ''42''))))
     = Some
       [EvDialContext 0,
        EvSendMessage 0 ''host:transport-any'',
        EvReadStatus 0 ''host:transport-any'',
        EvSendMessage 0 (''shell:/system/bin/sleep '' @ [dquote] @ ''1 2'' @ [dquote]),
        EvReadStatus 0 (''shell:/system/bin/sleep '' @ [dquote] @ ''1 2'' @ [dquote]),
        EvReadUntilEof 0,
        EvClose 0,
        EvDial 1,
        EvSendMessage 1 ''host:transport-any'',
        EvReadStatus 1 ''host:transport-any'',
        EvSendMessage 1 (''shell:ps -f -A | grep '' @ [squote] @ ''sleep '' @ [dquote] @ ''1 2'' @ [dquote]
                           @ [squote] @ '' | sed 's/   */ /g' | cut -d ' ' -f 2 | head -n 1''),
        EvReadStatus 1 (''shell:ps -f -A | grep '' @ [squote] @ ''sleep '' @ [dquote] @ ''1 2'' @ [dquote]
                           @ [squote] @ '' | sed 's/   */ /g' | cut -d ' ' -f 2 | head -n 1''),
        EvReadUntilEof 1,
        EvClose 1,
        EvLog ''Killing PID 42'',
        EvDial 2,
        EvSendMessage 2 ''host:transport-any'',
        EvReadStatus 2 ''host:transport-any'',
        EvSendMessage 2 ''shell:kill 42'',
        EvReadStatus 2 ''shell:kill 42'',
        EvReadUntilEof 2,
        EvClose 2]
   \<and> watcherFullCommand ''/system/bin/sleep'' [''1 2''] = ''sleep 1 2''"
proof -
  let ?r = "RunCommandContext anyDevice cancelledAtOnce ''/system/bin/sleep'' [''1 2''] (MockServer ''42'')"
  let ?line = "''/system/bin/sleep '' @ [dquote] @ ''1 2'' @ [dquote]"
  let ?w = "\<lparr>events = [EvDialContext 0, EvSendMessage 0 ''host:transport-any'',
                        EvReadStatus 0 ''host:transport-any'',
                        EvSendMessage 0 (''shell:'' @ ?line), EvReadStatus 0 (''shell:'' @ ?line),
                        EvReadUntilEof 0, EvClose 0],
             reply = (\<lambda>h. (''42'', None)), entryReply = (\<lambda>h. None)\<rparr>"
  have run: "?r = (((''42'', Some Canceled),
                    ([[dquote] @ ''1 2'' @ [dquote]],
                     Started ''/system/bin/sleep'' [[dquote] @ ''1 2'' @ [dquote]])), ?w)"
    by (simp add: RunCommandContext_def sleep_prepared dialContext_def io_defs example_defs
          ctxErr_def cancelledAtOnce_def)
  have sel: "watcherSelect cancelledAtOnce True CtxDone ?w = Some CtxDone"
    by (simp add: watcherSelect_def ctxErr_def cancelledAtOnce_def)
  have wat: "events (watcher anyDevice ''/system/bin/sleep'' [[dquote] @ ''1 2'' @ [dquote]] ?w) =
       [EvDialContext 0,
        EvSendMessage 0 ''host:transport-any'',
        EvReadStatus 0 ''host:transport-any'',
        EvSendMessage 0 (''shell:/system/bin/sleep '' @ [dquote] @ ''1 2'' @ [dquote]),
        EvReadStatus 0 (''shell:/system/bin/sleep '' @ [dquote] @ ''1 2'' @ [dquote]),
        EvReadUntilEof 0,
        EvClose 0,
        EvDial 1,
        EvSendMessage 1 ''host:transport-any'',
        EvReadStatus 1 ''host:transport-any'',
        EvSendMessage 1 (''shell:ps -f -A | grep '' @ [squote] @ ''sleep '' @ [dquote] @ ''1 2'' @ [dquote]
                           @ [squote] @ '' | sed 's/   */ /g' | cut -d ' ' -f 2 | head -n 1''),
        EvReadStatus 1 (''shell:ps -f -A | grep '' @ [squote] @ ''sleep '' @ [dquote] @ ''1 2'' @ [dquote]
                           @ [squote] @ '' | sed 's/   */ /g' | cut -d ' ' -f 2 | head -n 1''),
        EvReadUntilEof 1,
        EvClose 1,
        EvLog ''Killing PID 42'',
        EvDial 2,
        EvSendMessage 2 ''host:transport-any'',
        EvReadStatus 2 ''host:transport-any'',
        EvSendMessage 2 ''shell:kill 42'',
        EvReadStatus 2 ''shell:kill 42'',
        EvReadUntilEof 2,
        EvClose 2]"
    by (simp add: watcher_def watcherFullCommand_def procFetchCmd_def RunCommand_def
          prepareCommandLine_no_args isBlank_def isSpace_def TrimSpace_42 dialDevice_def io_defs
          anyDevice_def wrapClientError_def)
  have full: "watcherFullCommand ''/system/bin/sleep'' [''1 2''] = ''sleep 1 2''"
    by (simp add: watcherFullCommand_def)
  show ?thesis
    using sel wat full unfolding run by (simp add: watcherGoroutine_def)
qed

text \<open>
  Where no argument contains whitespace the slice is left as the caller passed it, and
  the watcher's pattern is the last path segment of the command followed by the
  caller's arguments.
\<close>

lemma watcher_pattern_without_whitespace:
  assumes "\<not> isBlank cmd" and "\<forall>a\<in>set args. \<not> ContainsRune a dquote"
    and "\<forall>a\<in>set args. \<not> containsWhitespace a"
  shows "watcherFullCommand cmd (snd (prepareCommandLine cmd args)) =
           (if args = [] then last (Split cmd (CHR ''/''))
            else last (Split cmd (CHR ''/'')) @ '' '' @ Join args '' '')"
proof -
  have "map (\<lambda>a. if containsWhitespace a then [dquote] @ a @ [dquote] else a) args = args"
    using assms(3) by (induction args) auto
  then have "snd (prepareCommandLine cmd args) = args"
    using prepareCommandLine_args(1) [OF assms(1,2)] by simp
  then show ?thesis by (simp add: watcherFullCommand_def Let_def)
qed

section \<open>Errors of the public operations\<close>

text \<open>
  Against claim C3 as it is stated: \<open>Root\<close> on a device with serial \<open>abc\<close>, when
  the daemon cannot be reached. The error returned is the dial's error under the prefix
  "dialDevice failed: "; its text names neither the operation \<open>Root\<close> nor the
  descriptor of the device.
\<close>

theorem Root_error_names_no_operation:
  "fst (Root deviceAbc Unreachable) =
     Some (WrapError ''dialDevice failed: '' (PkgErr (Err NetworkError ''connection refused'' None None)))
   \<and> Error (WrapError ''dialDevice failed: '' (PkgErr (Err NetworkError ''connection refused'' None None)))
       = ''dialDevice failed: NetworkError: connection refused''
   \<and> \<not> Contains ''dialDevice failed: NetworkError: connection refused'' ''Root''
   \<and> \<not> Contains ''dialDevice failed: NetworkError: connection refused''
           (descriptorString (descriptor deviceAbc))"
  by (simp add: Root_def dialDevice_def io_defs Unreachable_def deviceAbc_def ErrError_def
        descriptorString_def)

text \<open>
  Claim C3, amended. \<open>Serial\<close>, \<open>DevicePath\<close>, \<open>State\<close>, \<open>DeviceInfo\<close>,
  \<open>RunCommand\<close>, \<open>Remount\<close>, \<open>ListDirEntries\<close>, \<open>Stat\<close>, \<open>OpenRead\<close> and
  \<open>OpenWrite\<close> return every error wrapped for the operation: the error
  \<open>clientError c op e\<close> is of the kind of \<open>e\<close>, names the operation \<open>op\<close>,
  carries the descriptor string of the device \<open>c\<close> and has \<open>e\<close> as its cause, and
  \<open>e\<close> is the error of the step that failed. \<open>DeviceInfo\<close> wraps the wrapped error
  of \<open>Serial\<close> once more, and \<open>State\<close> returns no error at all for a failure whose
  text contains "unauthorized".

  \<open>RunCommandContext\<close>, \<open>Root\<close>, \<open>Unroot\<close> and \<open>WaitFor\<close> never wrap an
  error for the operation. \<open>RunCommandContext\<close> returns the error of the context as
  it is; \<open>Root\<close> and \<open>Unroot\<close> return the sentinel \<open>ErrNoOp\<close> or an
  unexpected-response error, which wrap nothing; every other error of the four is the
  error of the step that failed under one or two message prefixes of \<open>fmt.Errorf\<close>
  with \<open>%w\<close>, so that the package's error is at the end of the chain.

  The statement follows the code path by path. The steps are the calls into the daemon
  and the connection. The private helpers \<open>dialDevice\<close>, \<open>dialContext\<close>,
  \<open>getSyncConn\<close> and \<open>roundTripUntilEof\<close> come first, over those calls, and the
  operations are stated over the helpers; when the transport request cannot be sent,
  \<open>dialDevice\<close> and \<open>dialContext\<close> return an error of their own with the step's
  error as its cause. The last conjuncts say that an operation returns no error of
  another form.
\<close>

theorem operations_wrap_errors:
  "\<comment> \<open>Serial: the query fails\<close>
     (roundTripSingleResponse (getHostPrefix (descriptor c) @ '':get-serialno'') w = ((r, Some
         e), w1)
        \<longrightarrow> snd (fst (Serial_of c w)) = Some (clientError c ''Serial'' e))
   \<and> \<comment> \<open>DevicePath: the query fails\<close>
     (roundTripSingleResponse (getHostPrefix (descriptor c) @ '':get-devpath'') w = ((r, Some
         e), w1)
        \<longrightarrow> snd (fst (DevicePath c w)) = Some (clientError c ''DevicePath'' e))
   \<and> \<comment> \<open>State: the query fails and the text of the error lacks \<open>unauthorized\<close>\<close>
     (roundTripSingleResponse (getHostPrefix (descriptor c) @ '':get-state'') w = ((r, Some e),
         w1)
        \<and> \<not> Contains (ErrError e) ''unauthorized''
        \<longrightarrow> snd (fst (State parseDeviceState c w)) = Some (clientError c ''State''
            e))
   \<and> \<comment> \<open>State: the answer does not parse\<close>
     (roundTripSingleResponse (getHostPrefix (descriptor c) @ '':get-state'') w = ((r, None),
         w1)
        \<and> parseDeviceState r = (st, Some e)
        \<longrightarrow> snd (fst (State parseDeviceState c w)) = Some (clientError c ''State''
            e))
   \<and> \<comment> \<open>DeviceInfo: the serial query fails; the error of \<open>Serial\<close> is wrapped once more\<close>
     (roundTripSingleResponse (getHostPrefix (descriptor c) @ '':get-serialno'') w = ((r, Some
         e), w1)
        \<longrightarrow> snd (fst (DeviceInfo_of c w))
          = Some (clientError c ''GetDeviceInfo(GetSerial)'' (clientError c ''Serial'' e)))
   \<and> \<comment> \<open>DeviceInfo: the listing fails\<close>
     (roundTripSingleResponse (getHostPrefix (descriptor c) @ '':get-serialno'') w = ((r, None),
         w1)
        \<and> deviceListFunc c = (devices, Some e)
        \<longrightarrow> snd (fst (DeviceInfo_of c w)) = Some (clientError c
            ''DeviceInfo(ListDevices)'' e))
   \<and> \<comment> \<open>DeviceInfo: no record of the listing has the serial\<close>
     (roundTripSingleResponse (getHostPrefix (descriptor c) @ '':get-serialno'') w = ((r, None),
         w1)
        \<and> deviceListFunc c = (devices, None)
        \<and> (\<forall>d\<in>set devices. Serial d \<noteq> r)
        \<longrightarrow> snd (fst (DeviceInfo_of c w))
          = Some (clientError c ''DeviceInfo''
                   (Err DeviceNotFound (''device list doesn't contain serial '' @ r) None
                       None)))
   \<and> \<comment> \<open>dialDevice: the dial fails\<close>
     (Dial w = (Inl e, w0)
        \<longrightarrow> dialDevice c w = (Inl e, w0))
   \<and> \<comment> \<open>dialDevice: the transport request cannot be sent; the connection is closed\<close>
     (Dial w = (Inr conn, w0)
        \<and> SendMessage conn (''host:'' @ getTransportDescriptor (descriptor c)) w0 = (Some
            e, w1)
        \<longrightarrow> dialDevice c w =
          (Inl (Err (Code e)
                  (''error connecting to device '' @ [squote]
                     @ descriptorString (descriptor c) @ [squote])
                  None (Some e)),
           Close conn w1))
   \<and> \<comment> \<open>dialDevice: the status of the transport request is a failure; the connection is closed\<close>
     (Dial w = (Inr conn, w0)
        \<and> SendMessage conn (''host:'' @ getTransportDescriptor (descriptor c)) w0 = (None,
            w1)
        \<and> ReadStatus conn (''host:'' @ getTransportDescriptor (descriptor c)) w1 = (Some e,
            w2)
        \<longrightarrow> dialDevice c w = (Inl e, Close conn w2))
   \<and> \<comment> \<open>dialDevice: the connection is pinned to the device\<close>
     (Dial w = (Inr conn, w0)
        \<and> SendMessage conn (''host:'' @ getTransportDescriptor (descriptor c)) w0 = (None,
            w1)
        \<and> ReadStatus conn (''host:'' @ getTransportDescriptor (descriptor c)) w1 = (None,
            w2)
        \<longrightarrow> dialDevice c w = (Inr conn, w2))
   \<and> \<comment> \<open>dialContext: the dial fails\<close>
     (DialContext ctx w = (Inl e, w0)
        \<longrightarrow> dialContext c ctx w = (Inl e, w0))
   \<and> \<comment> \<open>dialContext: the transport request cannot be sent; the connection is closed\<close>
     (DialContext ctx w = (Inr conn, w0)
        \<and> SendMessage conn (''host:'' @ getTransportDescriptor (descriptor c)) w0 = (Some
            e, w1)
        \<longrightarrow> dialContext c ctx w =
          (Inl (Err (Code e)
                  (''error connecting to device '' @ [squote]
                     @ descriptorString (descriptor c) @ [squote])
                  None (Some e)),
           Close conn w1))
   \<and> \<comment> \<open>dialContext: the status of the transport request is a failure; the connection is closed\<close>
     (DialContext ctx w = (Inr conn, w0)
        \<and> SendMessage conn (''host:'' @ getTransportDescriptor (descriptor c)) w0 = (None,
            w1)
        \<and> ReadStatus conn (''host:'' @ getTransportDescriptor (descriptor c)) w1 = (Some e,
            w2)
        \<longrightarrow> dialContext c ctx w = (Inl e, Close conn w2))
   \<and> \<comment> \<open>dialContext: the connection is pinned to the device\<close>
     (DialContext ctx w = (Inr conn, w0)
        \<and> SendMessage conn (''host:'' @ getTransportDescriptor (descriptor c)) w0 = (None,
            w1)
        \<and> ReadStatus conn (''host:'' @ getTransportDescriptor (descriptor c)) w1 = (None,
            w2)
        \<longrightarrow> dialContext c ctx w = (Inr conn, w2))
   \<and> \<comment> \<open>getSyncConn: the device cannot be dialled\<close>
     (dialDevice c w = (Inl e, w1)
        \<longrightarrow> getSyncConn c w = (Inl e, w1))
   \<and> \<comment> \<open>getSyncConn: the switch to sync mode cannot be sent\<close>
     (dialDevice c w = (Inr conn, w1)
        \<and> SendMessage conn ''sync:'' w1 = (Some e, w2)
        \<longrightarrow> getSyncConn c w = (Inl e, w2))
   \<and> \<comment> \<open>getSyncConn: the status of the switch is a failure\<close>
     (dialDevice c w = (Inr conn, w1)
        \<and> SendMessage conn ''sync:'' w1 = (None, w2)
        \<and> ReadStatus conn ''sync'' w2 = (Some e, w3)
        \<longrightarrow> getSyncConn c w = (Inl e, w3))
   \<and> \<comment> \<open>getSyncConn: the connection is in sync mode\<close>
     (dialDevice c w = (Inr conn, w1)
        \<and> SendMessage conn ''sync:'' w1 = (None, w2)
        \<and> ReadStatus conn ''sync'' w2 = (None, w3)
        \<longrightarrow> getSyncConn c w = (Inr conn, w3))
   \<and> \<comment> \<open>roundTripUntilEof: the request cannot be sent\<close>
     (SendMessage conn req w = (Some e, w1)
        \<longrightarrow> roundTripUntilEof conn req w
          = (([], Some (WrapError ''SendMessage failed: '' (PkgErr e))), w1))
   \<and> \<comment> \<open>roundTripUntilEof: the status is a failure\<close>
     (SendMessage conn req w = (None, w1)
        \<and> ReadStatus conn req w1 = (Some e, w2)
        \<longrightarrow> roundTripUntilEof conn req w
          = (([], Some (WrapError ''ReadStatus failed: '' (PkgErr e))), w2))
   \<and> \<comment> \<open>roundTripUntilEof: the read fails\<close>
     (SendMessage conn req w = (None, w1)
        \<and> ReadStatus conn req w1 = (None, w2)
        \<and> ReadUntilEof conn w2 = ((r, Some e), w3)
        \<longrightarrow> roundTripUntilEof conn req w
          = (([], Some (WrapError ''ReadUntilEof failed: '' (PkgErr e))), w3))
   \<and> \<comment> \<open>roundTripUntilEof: the answer is read\<close>
     (SendMessage conn req w = (None, w1)
        \<and> ReadStatus conn req w1 = (None, w2)
        \<and> ReadUntilEof conn w2 = ((r, None), w3)
        \<longrightarrow> roundTripUntilEof conn req w = ((r, None), w3))
   \<and> \<comment> \<open>RunCommand: the command line is refused\<close>
     (snd (fst (prepareCommandLine cmd args)) = Some e
        \<longrightarrow> snd (fst (fst (RunCommand c cmd args w))) = Some (clientError c
            ''RunCommand'' e))
   \<and> \<comment> \<open>RunCommand: the device cannot be dialled\<close>
     (snd (fst (prepareCommandLine cmd args)) = None
        \<and> dialDevice c w = (Inl e, w1)
        \<longrightarrow> snd (fst (fst (RunCommand c cmd args w))) = Some (clientError c
            ''RunCommand'' e))
   \<and> \<comment> \<open>RunCommand: the shell request cannot be sent\<close>
     (snd (fst (prepareCommandLine cmd args)) = None
        \<and> dialDevice c w = (Inr conn, w1)
        \<and> SendMessage conn (''shell:'' @ fst (fst (prepareCommandLine cmd args))) w1 =
            (Some e, w2)
        \<longrightarrow> snd (fst (fst (RunCommand c cmd args w))) = Some (clientError c
            ''RunCommand'' e))
   \<and> \<comment> \<open>RunCommand: the status of the shell request is a failure\<close>
     (snd (fst (prepareCommandLine cmd args)) = None
        \<and> dialDevice c w = (Inr conn, w1)
        \<and> SendMessage conn (''shell:'' @ fst (fst (prepareCommandLine cmd args))) w1 =
            (None, w2)
        \<and> ReadStatus conn (''shell:'' @ fst (fst (prepareCommandLine cmd args))) w2 = (Some
            e, w3)
        \<longrightarrow> snd (fst (fst (RunCommand c cmd args w))) = Some (clientError c
            ''RunCommand'' e))
   \<and> \<comment> \<open>RunCommand: the read of the output fails\<close>
     (snd (fst (prepareCommandLine cmd args)) = None
        \<and> dialDevice c w = (Inr conn, w1)
        \<and> SendMessage conn (''shell:'' @ fst (fst (prepareCommandLine cmd args))) w1 =
            (None, w2)
        \<and> ReadStatus conn (''shell:'' @ fst (fst (prepareCommandLine cmd args))) w2 =
            (None, w3)
        \<and> ReadUntilEof conn w3 = ((r, Some e), w4)
        \<longrightarrow> snd (fst (fst (RunCommand c cmd args w))) = Some (clientError c
            ''RunCommand'' e))
   \<and> \<comment> \<open>Remount: the device cannot be dialled\<close>
     (dialDevice c w = (Inl e, w1)
        \<longrightarrow> snd (fst (Remount c w)) = Some (clientError c ''Remount'' e))
   \<and> \<comment> \<open>Remount: the round trip fails\<close>
     (dialDevice c w = (Inr conn, w1)
        \<and> RoundTripSingleResponse conn ''remount'' w1 = ((r, Some e), w2)
        \<longrightarrow> snd (fst (Remount c w)) = Some (clientError c ''Remount'' e))
   \<and> \<comment> \<open>ListDirEntries: no sync connection\<close>
     (getSyncConn c w = (Inl e, w1)
        \<longrightarrow> snd (fst (ListDirEntries c path w)) = Some (clientError c
            (''ListDirEntries('' @ path @ '')'') e))
   \<and> \<comment> \<open>ListDirEntries: the sync request fails\<close>
     (getSyncConn c w = (Inr conn, w1)
        \<and> listDirEntries conn path w1 = ((entries, Some e), w2)
        \<longrightarrow> snd (fst (ListDirEntries c path w)) = Some (clientError c
            (''ListDirEntries('' @ path @ '')'') e))
   \<and> \<comment> \<open>Stat: no sync connection\<close>
     (getSyncConn c w = (Inl e, w1)
        \<longrightarrow> snd (fst (Stat c path w)) = Some (clientError c (''Stat('' @ path @
            '')'') e))
   \<and> \<comment> \<open>Stat: the sync request fails\<close>
     (getSyncConn c w = (Inr conn, w1)
        \<and> stat conn path w1 = ((entry, Some e), w2)
        \<longrightarrow> snd (fst (Stat c path w)) = Some (clientError c (''Stat('' @ path @
            '')'') e))
   \<and> \<comment> \<open>OpenRead: no sync connection\<close>
     (getSyncConn c w = (Inl e, w1)
        \<longrightarrow> snd (fst (OpenRead c path w)) = Some (clientError c (''OpenRead('' @
            path @ '')'') e))
   \<and> \<comment> \<open>OpenRead: the sync request fails\<close>
     (getSyncConn c w = (Inr conn, w1)
        \<and> receiveFile conn path w1 = ((reader, Some e), w2)
        \<longrightarrow> snd (fst (OpenRead c path w)) = Some (clientError c (''OpenRead('' @
            path @ '')'') e))
   \<and> \<comment> \<open>OpenWrite: no sync connection\<close>
     (getSyncConn c w = (Inl e, w1)
        \<longrightarrow> snd (fst (OpenWrite c path perms mtime w)) = Some (clientError c
            (''OpenWrite('' @ path @ '')'') e))
   \<and> \<comment> \<open>OpenWrite: the sync request fails\<close>
     (getSyncConn c w = (Inr conn, w1)
        \<and> sendFile conn path perms mtime w1 = ((writer, Some e), w2)
        \<longrightarrow> snd (fst (OpenWrite c path perms mtime w)) = Some (clientError c
            (''OpenWrite('' @ path @ '')'') e))
   \<and> \<comment> \<open>RunCommandContext: the command line is refused\<close>
     (snd (fst (prepareCommandLine cmd args)) = Some e
        \<longrightarrow> snd (fst (fst (RunCommandContext c ctx cmd args w))) = Some (WrapError
            ''prepareCommandLine err: '' (PkgErr e)))
   \<and> \<comment> \<open>RunCommandContext: the device cannot be dialled\<close>
     (snd (fst (prepareCommandLine cmd args)) = None
        \<and> dialContext c ctx w = (Inl e, w1)
        \<longrightarrow> snd (fst (fst (RunCommandContext c ctx cmd args w))) = Some (WrapError
            ''dialContext err: '' (PkgErr e)))
   \<and> \<comment> \<open>RunCommandContext: the shell request cannot be sent\<close>
     (snd (fst (prepareCommandLine cmd args)) = None
        \<and> dialContext c ctx w = (Inr conn, w1)
        \<and> SendMessage conn (''shell:'' @ fst (fst (prepareCommandLine cmd args))) w1 =
            (Some e, w2)
        \<longrightarrow> snd (fst (fst (RunCommandContext c ctx cmd args w))) = Some (WrapError
            ''conn.SendMessage err: '' (PkgErr e)))
   \<and> \<comment> \<open>RunCommandContext: the status of the shell request is a failure\<close>
     (snd (fst (prepareCommandLine cmd args)) = None
        \<and> dialContext c ctx w = (Inr conn, w1)
        \<and> SendMessage conn (''shell:'' @ fst (fst (prepareCommandLine cmd args))) w1 =
            (None, w2)
        \<and> ReadStatus conn (''shell:'' @ fst (fst (prepareCommandLine cmd args))) w2 = (Some
            e, w3)
        \<longrightarrow> snd (fst (fst (RunCommandContext c ctx cmd args w))) = Some (WrapError
            ''conn.ReadStatus err: '' (PkgErr e)))
   \<and> \<comment> \<open>RunCommandContext: the context is done when the read returns; its error is returned
      as it is\<close>
     (snd (fst (prepareCommandLine cmd args)) = None
        \<and> dialContext c ctx w = (Inr conn, w1)
        \<and> SendMessage conn (''shell:'' @ fst (fst (prepareCommandLine cmd args))) w1 =
            (None, w2)
        \<and> ReadStatus conn (''shell:'' @ fst (fst (prepareCommandLine cmd args))) w2 =
            (None, w3)
        \<and> ReadUntilEof conn w3 = ((r, err), w4)
        \<and> ctxErr ctx w4 = Some y
        \<longrightarrow> snd (fst (fst (RunCommandContext c ctx cmd args w))) = Some y)
   \<and> \<comment> \<open>RunCommandContext: the read of the output fails and the context is not done\<close>
     (snd (fst (prepareCommandLine cmd args)) = None
        \<and> dialContext c ctx w = (Inr conn, w1)
        \<and> SendMessage conn (''shell:'' @ fst (fst (prepareCommandLine cmd args))) w1 =
            (None, w2)
        \<and> ReadStatus conn (''shell:'' @ fst (fst (prepareCommandLine cmd args))) w2 =
            (None, w3)
        \<and> ReadUntilEof conn w3 = ((r, Some e), w4)
        \<and> ctxErr ctx w4 = None
        \<longrightarrow> snd (fst (fst (RunCommandContext c ctx cmd args w))) = Some (WrapError
            ''conn.ReadUntilEof err: '' (PkgErr e)))
   \<and> \<comment> \<open>Root: the device cannot be dialled\<close>
     (dialDevice c w = (Inl e, w1)
        \<longrightarrow> fst (Root c w) = Some (WrapError ''dialDevice failed: '' (PkgErr e)))
   \<and> \<comment> \<open>Root: the round trip fails\<close>
     (dialDevice c w = (Inr conn, w1)
        \<and> roundTripUntilEof conn ''root:'' w1 = ((r, Some y), w2)
        \<longrightarrow> fst (Root c w) = Some (WrapError ''roundTripUntilEof failed: '' y))
   \<and> \<comment> \<open>Root: the answer is classified; neither error wraps anything\<close>
     (dialDevice c w = (Inr conn, w1)
        \<and> roundTripUntilEof conn ''root:'' w1 = ((r, None), w2)
        \<longrightarrow> fst (Root c w) =
          (if Contains r ''restarting adbd as root'' then None
           else if Contains r ''adbd is already running as root'' then Some ErrNoOp
           else Some (ErrorString (''unexpected response: '' @ r))))
   \<and> \<comment> \<open>Unroot: the device cannot be dialled\<close>
     (dialDevice c w = (Inl e, w1)
        \<longrightarrow> fst (Unroot c w) = Some (WrapError ''dialDevice failed: '' (PkgErr
            e)))
   \<and> \<comment> \<open>Unroot: the round trip fails\<close>
     (dialDevice c w = (Inr conn, w1)
        \<and> roundTripUntilEof conn ''unroot:'' w1 = ((r, Some y), w2)
        \<longrightarrow> fst (Unroot c w) = Some (WrapError ''roundTripUntilEof failed: '' y))
   \<and> \<comment> \<open>Unroot: the answer is classified; neither error wraps anything\<close>
     (dialDevice c w = (Inr conn, w1)
        \<and> roundTripUntilEof conn ''unroot:'' w1 = ((r, None), w2)
        \<longrightarrow> fst (Unroot c w) =
          (if Contains r ''restarting adbd as non root'' then None
           else if Contains r ''adbd not running as root'' then Some ErrNoOp
           else Some (ErrorString (''unexpected unroot response: '' @ r))))
   \<and> \<comment> \<open>WaitFor: the dial fails\<close>
     (Dial w = (Inl e, w1)
        \<longrightarrow> fst (WaitFor c state w) = Some (WrapError ''server Dial: '' (PkgErr
            e)))
   \<and> \<comment> \<open>WaitFor: the round trip fails\<close>
     (Dial w = (Inr conn, w1)
        \<and> roundTripUntilEof conn (getHostPrefix (descriptor c) @ '':wait-for-any-'' @
            state) w1 = ((r, Some y), w2)
        \<longrightarrow> fst (WaitFor c state w) = Some (WrapError ''roundTripUntilEof err: ''
            y))
   \<and> \<comment> \<open>WaitFor: whatever the answer is, there is no error\<close>
     (Dial w = (Inr conn, w1)
        \<and> roundTripUntilEof conn (getHostPrefix (descriptor c) @ '':wait-for-any-'' @
            state) w1 = ((r, None), w2)
        \<longrightarrow> fst (WaitFor c state w) = None)
   \<and> \<comment> \<open>every error of Serial\<close>
     (snd (fst (Serial_of c w)) = None
        \<or> (\<exists>inner. snd (fst (Serial_of c w)) = Some (clientError c ''Serial''
            inner)))
   \<and> \<comment> \<open>every error of DevicePath\<close>
     (snd (fst (DevicePath c w)) = None
        \<or> (\<exists>inner. snd (fst (DevicePath c w)) = Some (clientError c ''DevicePath''
            inner)))
   \<and> \<comment> \<open>every error of State\<close>
     (snd (fst (State parseDeviceState c w)) = None
        \<or> (\<exists>inner. snd (fst (State parseDeviceState c w)) = Some (clientError c
            ''State'' inner)))
   \<and> \<comment> \<open>every error of DeviceInfo\<close>
     (snd (fst (DeviceInfo_of c w)) = None
        \<or> (\<exists>inner. snd (fst (DeviceInfo_of c w)) = Some (clientError c
            ''GetDeviceInfo(GetSerial)'' inner))
        \<or> (\<exists>inner. snd (fst (DeviceInfo_of c w)) = Some (clientError c
            ''DeviceInfo(ListDevices)'' inner))
        \<or> (\<exists>inner. snd (fst (DeviceInfo_of c w)) = Some (clientError c
            ''DeviceInfo'' inner)))
   \<and> \<comment> \<open>every error of RunCommand\<close>
     (snd (fst (fst (RunCommand c cmd args w))) = None
        \<or> (\<exists>inner. snd (fst (fst (RunCommand c cmd args w))) = Some (clientError c
            ''RunCommand'' inner)))
   \<and> \<comment> \<open>every error of Remount\<close>
     (snd (fst (Remount c w)) = None
        \<or> (\<exists>inner. snd (fst (Remount c w)) = Some (clientError c ''Remount''
            inner)))
   \<and> \<comment> \<open>every error of ListDirEntries\<close>
     (snd (fst (ListDirEntries c path w)) = None
        \<or> (\<exists>inner. snd (fst (ListDirEntries c path w)) = Some (clientError c
            (''ListDirEntries('' @ path @ '')'') inner)))
   \<and> \<comment> \<open>every error of Stat\<close>
     (snd (fst (Stat c path w)) = None
        \<or> (\<exists>inner. snd (fst (Stat c path w)) = Some (clientError c (''Stat('' @ path
            @ '')'') inner)))
   \<and> \<comment> \<open>every error of OpenRead\<close>
     (snd (fst (OpenRead c path w)) = None
        \<or> (\<exists>inner. snd (fst (OpenRead c path w)) = Some (clientError c
            (''OpenRead('' @ path @ '')'') inner)))
   \<and> \<comment> \<open>every error of OpenWrite\<close>
     (snd (fst (OpenWrite c path perms mtime w)) = None
        \<or> (\<exists>inner. snd (fst (OpenWrite c path perms mtime w)) = Some (clientError c
            (''OpenWrite('' @ path @ '')'') inner)))
   \<and> \<comment> \<open>every error of RunCommandContext\<close>
     (snd (fst (fst (RunCommandContext c ctx cmd args w))) = None
        \<or> snd (fst (fst (RunCommandContext c ctx cmd args w))) = Some (ctxCause ctx)
        \<or> (\<exists>inner. snd (fst (fst (RunCommandContext c ctx cmd args w))) = Some
            (WrapError ''prepareCommandLine err: '' (PkgErr inner)))
        \<or> (\<exists>inner. snd (fst (fst (RunCommandContext c ctx cmd args w))) = Some
            (WrapError ''dialContext err: '' (PkgErr inner)))
        \<or> (\<exists>inner. snd (fst (fst (RunCommandContext c ctx cmd args w))) = Some
            (WrapError ''conn.SendMessage err: '' (PkgErr inner)))
        \<or> (\<exists>inner. snd (fst (fst (RunCommandContext c ctx cmd args w))) = Some
            (WrapError ''conn.ReadStatus err: '' (PkgErr inner)))
        \<or> (\<exists>inner. snd (fst (fst (RunCommandContext c ctx cmd args w))) = Some
            (WrapError ''conn.ReadUntilEof err: '' (PkgErr inner))))
   \<and> \<comment> \<open>every error of Root\<close>
     (fst (Root c w) = None
        \<or> fst (Root c w) = Some ErrNoOp
        \<or> (\<exists>resp. fst (Root c w) = Some (ErrorString (''unexpected response: '' @
            resp)))
        \<or> (\<exists>inner. fst (Root c w) = Some (WrapError ''dialDevice failed: '' (PkgErr
            inner)))
        \<or> (\<exists>inner. fst (Root c w) = Some (WrapError ''roundTripUntilEof failed: ''
                          (WrapError ''SendMessage failed: '' (PkgErr inner))))
        \<or> (\<exists>inner. fst (Root c w) = Some (WrapError ''roundTripUntilEof failed: ''
                          (WrapError ''ReadStatus failed: '' (PkgErr inner))))
        \<or> (\<exists>inner. fst (Root c w) = Some (WrapError ''roundTripUntilEof failed: ''
                          (WrapError ''ReadUntilEof failed: '' (PkgErr inner)))))
   \<and> \<comment> \<open>every error of Unroot\<close>
     (fst (Unroot c w) = None
        \<or> fst (Unroot c w) = Some ErrNoOp
        \<or> (\<exists>resp. fst (Unroot c w) = Some (ErrorString
            (''unexpected unroot response: '' @ resp)))
        \<or> (\<exists>inner. fst (Unroot c w) = Some (WrapError ''dialDevice failed: ''
            (PkgErr inner)))
        \<or> (\<exists>inner. fst (Unroot c w) = Some (WrapError ''roundTripUntilEof failed: ''
                          (WrapError ''SendMessage failed: '' (PkgErr inner))))
        \<or> (\<exists>inner. fst (Unroot c w) = Some (WrapError ''roundTripUntilEof failed: ''
                          (WrapError ''ReadStatus failed: '' (PkgErr inner))))
        \<or> (\<exists>inner. fst (Unroot c w) = Some (WrapError ''roundTripUntilEof failed: ''
                          (WrapError ''ReadUntilEof failed: '' (PkgErr inner)))))
   \<and> \<comment> \<open>every error of WaitFor\<close>
     (fst (WaitFor c state w) = None
        \<or> (\<exists>inner. fst (WaitFor c state w) = Some (WrapError ''server Dial: ''
            (PkgErr inner)))
        \<or> (\<exists>inner. fst (WaitFor c state w) = Some (WrapError
            ''roundTripUntilEof err: ''
                          (WrapError ''SendMessage failed: '' (PkgErr inner))))
        \<or> (\<exists>inner. fst (WaitFor c state w) = Some (WrapError
            ''roundTripUntilEof err: ''
                          (WrapError ''ReadStatus failed: '' (PkgErr inner))))
        \<or> (\<exists>inner. fst (WaitFor c state w) = Some (WrapError
            ''roundTripUntilEof err: ''
                          (WrapError ''ReadUntilEof failed: '' (PkgErr inner)))))"
  by (intro conjI impI; (elim conjE)?;
      ((simp add: operation_defs split_beta find_None_iff; fail)
       | (simp add: getSyncConn_def; fail)
       | (simp add: dialDevice_def dialContext_def roundTripUntilEof_def WrapErrf_def Let_def; fail)
       | (auto simp: operation_defs roundTripUntilEof_def find_None_iff dest: ctxErr_cause
            split: prod.splits sum.splits option.splits if_splits)))


theorem operations_wrap_errors_witness:
  "\<comment> \<open>Serial: the query fails\<close>
     (snd (fst (Serial_of deviceAbc (FailsAt 1 ''out'' [])))
       = Some (clientError deviceAbc ''Serial'' refused))
   \<and> \<comment> \<open>DevicePath: the query fails\<close>
     (snd (fst (DevicePath deviceAbc (FailsAt 1 ''out'' [])))
       = Some (clientError deviceAbc ''DevicePath'' refused))
   \<and> \<comment> \<open>State: the query fails and the text of the error lacks \<open>unauthorized\<close>\<close>
     (snd (fst (State (\<lambda>attr. (StateNamed attr, None)) deviceAbc (FailsAt 1 ''out''
         [])))
       = Some (clientError deviceAbc ''State'' refused))
   \<and> \<comment> \<open>State: the answer does not parse\<close>
     (snd (fst (State (\<lambda>attr. (StateInvalid, Some (Err ParseError ''invalid state'' None
         None))) deviceAbc (FailsAt 0 ''out'' [])))
       = Some (clientError deviceAbc ''State'' (Err ParseError ''invalid state'' None None)))
   \<and> \<comment> \<open>DeviceInfo: the serial query fails; the error of \<open>Serial\<close> is wrapped once more\<close>
     (snd (fst (DeviceInfo_of deviceAbc (FailsAt 1 ''out'' [])))
          = Some (clientError deviceAbc ''GetDeviceInfo(GetSerial)'' (clientError deviceAbc
              ''Serial'' refused)))
   \<and> \<comment> \<open>DeviceInfo: the listing fails\<close>
     (snd (fst (DeviceInfo_of (deviceAbc\<lparr>deviceListFunc := ([], Some refused)\<rparr>)
         (FailsAt 0 ''out'' [])))
       = Some (clientError (deviceAbc\<lparr>deviceListFunc := ([], Some refused)\<rparr>)
           ''DeviceInfo(ListDevices)'' refused))
   \<and> \<comment> \<open>DeviceInfo: no record of the listing has the serial\<close>
     (snd (fst (DeviceInfo_of (deviceAbc\<lparr>deviceListFunc := ([\<lparr>Serial = ''xyz'',
         Product = ''p''\<rparr>], None)\<rparr>) (FailsAt 0 ''out'' [])))
          = Some (clientError (deviceAbc\<lparr>deviceListFunc := ([\<lparr>Serial = ''xyz'',
              Product = ''p''\<rparr>], None)\<rparr>) ''DeviceInfo''
                   (Err DeviceNotFound (''device list doesn't contain serial '' @ ''out'') None
                       None)))
   \<and> \<comment> \<open>dialDevice: the dial fails\<close>
     (dialDevice deviceAbc (FailsAt 1 ''out'' []) = (Inl refused, (FailsAt 1 ''out'' [EvDial
         0])))
   \<and> \<comment> \<open>dialDevice: the transport request cannot be sent; the connection is closed\<close>
     (dialDevice deviceAbc (FailsAt 2 ''out'' []) =
          (Inl (Err (Code refused)
                  (''error connecting to device '' @ [squote]
                     @ descriptorString (descriptor deviceAbc) @ [squote])
                  None (Some refused)),
           Close 0 (FailsAt 2 ''out'' [EvDial 0, EvSendMessage 0 ''host:serial:abc''])))
   \<and> \<comment> \<open>dialDevice: the status of the transport request is a failure; the connection is closed\<close>
     (dialDevice deviceAbc (FailsAt 3 ''out'' [])
       = (Inl refused, Close 0 (FailsAt 3 ''out'' [EvDial 0, EvSendMessage 0
           ''host:serial:abc'', EvReadStatus 0 ''host:serial:abc''])))
   \<and> \<comment> \<open>dialDevice: the connection is pinned to the device\<close>
     (dialDevice deviceAbc (FailsAt 0 ''out'' [])
       = (Inr 0, (FailsAt 0 ''out'' [EvDial 0, EvSendMessage 0 ''host:serial:abc'', EvReadStatus
           0 ''host:serial:abc''])))
   \<and> \<comment> \<open>dialContext: the dial fails\<close>
     (dialContext deviceAbc neverDone (FailsAt 1 ''out'' [])
       = (Inl refused, (FailsAt 1 ''out'' [EvDialContext 0])))
   \<and> \<comment> \<open>dialContext: the transport request cannot be sent; the connection is closed\<close>
     (dialContext deviceAbc neverDone (FailsAt 2 ''out'' []) =
          (Inl (Err (Code refused)
                  (''error connecting to device '' @ [squote]
                     @ descriptorString (descriptor deviceAbc) @ [squote])
                  None (Some refused)),
           Close 0 (FailsAt 2 ''out'' [EvDialContext 0, EvSendMessage 0 ''host:serial:abc''])))
   \<and> \<comment> \<open>dialContext: the status of the transport request is a failure; the connection is closed\<close>
     (dialContext deviceAbc neverDone (FailsAt 3 ''out'' [])
       = (Inl refused, Close 0 (FailsAt 3 ''out'' [EvDialContext 0, EvSendMessage 0
           ''host:serial:abc'', EvReadStatus 0 ''host:serial:abc''])))
   \<and> \<comment> \<open>dialContext: the connection is pinned to the device\<close>
     (dialContext deviceAbc neverDone (FailsAt 0 ''out'' [])
       = (Inr 0, (FailsAt 0 ''out'' [EvDialContext 0, EvSendMessage 0 ''host:serial:abc'',
           EvReadStatus 0 ''host:serial:abc''])))
   \<and> \<comment> \<open>getSyncConn: the device cannot be dialled\<close>
     (getSyncConn deviceAbc (FailsAt 1 ''out'' [])
       = (Inl refused, (FailsAt 1 ''out'' [EvDial 0])))
   \<and> \<comment> \<open>getSyncConn: the switch to sync mode cannot be sent\<close>
     (getSyncConn deviceAbc (FailsAt 4 ''out'' [])
       = (Inl refused, (FailsAt 4 ''out'' [EvDial 0, EvSendMessage 0 ''host:serial:abc'',
           EvReadStatus 0 ''host:serial:abc'', EvSendMessage 0 ''sync:''])))
   \<and> \<comment> \<open>getSyncConn: the status of the switch is a failure\<close>
     (getSyncConn deviceAbc (FailsAt 5 ''out'' [])
       = (Inl refused, (FailsAt 5 ''out'' [EvDial 0, EvSendMessage 0 ''host:serial:abc'',
           EvReadStatus 0 ''host:serial:abc'', EvSendMessage 0 ''sync:'', EvReadStatus 0
           ''sync''])))
   \<and> \<comment> \<open>getSyncConn: the connection is in sync mode\<close>
     (getSyncConn deviceAbc (FailsAt 0 ''out'' [])
       = (Inr 0, (FailsAt 0 ''out'' [EvDial 0, EvSendMessage 0 ''host:serial:abc'', EvReadStatus
           0 ''host:serial:abc'', EvSendMessage 0 ''sync:'', EvReadStatus 0 ''sync''])))
   \<and> \<comment> \<open>roundTripUntilEof: the request cannot be sent\<close>
     (roundTripUntilEof 0 ''root:'' (FailsAt 4 ''out'' [EvDial 0, EvSendMessage 0
         ''host:serial:abc'', EvReadStatus 0 ''host:serial:abc''])
          = (([], Some (WrapError ''SendMessage failed: '' (PkgErr refused))), (FailsAt 4
              ''out'' [EvDial 0, EvSendMessage 0 ''host:serial:abc'', EvReadStatus 0
              ''host:serial:abc'', EvSendMessage 0 ''root:''])))
   \<and> \<comment> \<open>roundTripUntilEof: the status is a failure\<close>
     (roundTripUntilEof 0 ''root:'' (FailsAt 5 ''out'' [EvDial 0, EvSendMessage 0
         ''host:serial:abc'', EvReadStatus 0 ''host:serial:abc''])
          = (([], Some (WrapError ''ReadStatus failed: '' (PkgErr refused))), (FailsAt 5 ''out''
              [EvDial 0, EvSendMessage 0 ''host:serial:abc'', EvReadStatus 0
              ''host:serial:abc'', EvSendMessage 0 ''root:'', EvReadStatus 0 ''root:''])))
   \<and> \<comment> \<open>roundTripUntilEof: the read fails\<close>
     (roundTripUntilEof 0 ''root:'' (FailsAt 6 ''out'' [EvDial 0, EvSendMessage 0
         ''host:serial:abc'', EvReadStatus 0 ''host:serial:abc''])
          = (([], Some (WrapError ''ReadUntilEof failed: '' (PkgErr refused))), (FailsAt 6
              ''out'' [EvDial 0, EvSendMessage 0 ''host:serial:abc'', EvReadStatus 0
              ''host:serial:abc'', EvSendMessage 0 ''root:'', EvReadStatus 0 ''root:'',
              EvReadUntilEof 0])))
   \<and> \<comment> \<open>roundTripUntilEof: the answer is read\<close>
     (roundTripUntilEof 0 ''root:'' (FailsAt 0 ''out'' [EvDial 0, EvSendMessage 0
         ''host:serial:abc'', EvReadStatus 0 ''host:serial:abc''])
       = ((''out'', None), (FailsAt 0 ''out'' [EvDial 0, EvSendMessage 0 ''host:serial:abc'',
           EvReadStatus 0 ''host:serial:abc'', EvSendMessage 0 ''root:'', EvReadStatus 0
           ''root:'', EvReadUntilEof 0])))
   \<and> \<comment> \<open>RunCommand: the command line is refused\<close>
     (snd (fst (fst (RunCommand deviceAbc '' '' [] (FailsAt 0 ''out'' []))))
       = Some (clientError deviceAbc ''RunCommand'' (AssertionErrorf
           ''command cannot be empty'')))
   \<and> \<comment> \<open>RunCommand: the device cannot be dialled\<close>
     (snd (fst (fst (RunCommand deviceAbc ''ls'' [] (FailsAt 1 ''out'' []))))
       = Some (clientError deviceAbc ''RunCommand'' refused))
   \<and> \<comment> \<open>RunCommand: the shell request cannot be sent\<close>
     (snd (fst (fst (RunCommand deviceAbc ''ls'' [] (FailsAt 4 ''out'' []))))
       = Some (clientError deviceAbc ''RunCommand'' refused))
   \<and> \<comment> \<open>RunCommand: the status of the shell request is a failure\<close>
     (snd (fst (fst (RunCommand deviceAbc ''ls'' [] (FailsAt 5 ''out'' []))))
       = Some (clientError deviceAbc ''RunCommand'' refused))
   \<and> \<comment> \<open>RunCommand: the read of the output fails\<close>
     (snd (fst (fst (RunCommand deviceAbc ''ls'' [] (FailsAt 6 ''out'' []))))
       = Some (clientError deviceAbc ''RunCommand'' refused))
   \<and> \<comment> \<open>Remount: the device cannot be dialled\<close>
     (snd (fst (Remount deviceAbc (FailsAt 1 ''out'' [])))
       = Some (clientError deviceAbc ''Remount'' refused))
   \<and> \<comment> \<open>Remount: the round trip fails\<close>
     (snd (fst (Remount deviceAbc (FailsAt 4 ''out'' [])))
       = Some (clientError deviceAbc ''Remount'' refused))
   \<and> \<comment> \<open>ListDirEntries: no sync connection\<close>
     (snd (fst (ListDirEntries deviceAbc ''/sdcard'' (FailsAt 1 ''out'' [])))
       = Some (clientError deviceAbc (''ListDirEntries('' @ ''/sdcard'' @ '')'') refused))
   \<and> \<comment> \<open>ListDirEntries: the sync request fails\<close>
     (snd (fst (ListDirEntries deviceAbc ''/sdcard'' (FailsAt 6 ''out'' [])))
       = Some (clientError deviceAbc (''ListDirEntries('' @ ''/sdcard'' @ '')'') refused))
   \<and> \<comment> \<open>Stat: no sync connection\<close>
     (snd (fst (Stat deviceAbc ''/sdcard'' (FailsAt 1 ''out'' [])))
       = Some (clientError deviceAbc (''Stat('' @ ''/sdcard'' @ '')'') refused))
   \<and> \<comment> \<open>Stat: the sync request fails\<close>
     (snd (fst (Stat deviceAbc ''/sdcard'' (FailsAt 6 ''out'' [])))
       = Some (clientError deviceAbc (''Stat('' @ ''/sdcard'' @ '')'') refused))
   \<and> \<comment> \<open>OpenRead: no sync connection\<close>
     (snd (fst (OpenRead deviceAbc ''/sdcard'' (FailsAt 1 ''out'' [])))
       = Some (clientError deviceAbc (''OpenRead('' @ ''/sdcard'' @ '')'') refused))
   \<and> \<comment> \<open>OpenRead: the sync request fails\<close>
     (snd (fst (OpenRead deviceAbc ''/sdcard'' (FailsAt 6 ''out'' [])))
       = Some (clientError deviceAbc (''OpenRead('' @ ''/sdcard'' @ '')'') refused))
   \<and> \<comment> \<open>OpenWrite: no sync connection\<close>
     (snd (fst (OpenWrite deviceAbc ''/sdcard'' 420 0 (FailsAt 1 ''out'' [])))
       = Some (clientError deviceAbc (''OpenWrite('' @ ''/sdcard'' @ '')'') refused))
   \<and> \<comment> \<open>OpenWrite: the sync request fails\<close>
     (snd (fst (OpenWrite deviceAbc ''/sdcard'' 420 0 (FailsAt 6 ''out'' [])))
       = Some (clientError deviceAbc (''OpenWrite('' @ ''/sdcard'' @ '')'') refused))
   \<and> \<comment> \<open>RunCommandContext: the command line is refused\<close>
     (snd (fst (fst (RunCommandContext deviceAbc neverDone '' '' [] (FailsAt 0 ''out'' []))))
       = Some (WrapError ''prepareCommandLine err: '' (PkgErr (AssertionErrorf
           ''command cannot be empty''))))
   \<and> \<comment> \<open>RunCommandContext: the device cannot be dialled\<close>
     (snd (fst (fst (RunCommandContext deviceAbc neverDone ''ls'' [] (FailsAt 1 ''out'' []))))
       = Some (WrapError ''dialContext err: '' (PkgErr refused)))
   \<and> \<comment> \<open>RunCommandContext: the shell request cannot be sent\<close>
     (snd (fst (fst (RunCommandContext deviceAbc neverDone ''ls'' [] (FailsAt 4 ''out'' []))))
       = Some (WrapError ''conn.SendMessage err: '' (PkgErr refused)))
   \<and> \<comment> \<open>RunCommandContext: the status of the shell request is a failure\<close>
     (snd (fst (fst (RunCommandContext deviceAbc neverDone ''ls'' [] (FailsAt 5 ''out'' []))))
       = Some (WrapError ''conn.ReadStatus err: '' (PkgErr refused)))
   \<and> \<comment> \<open>RunCommandContext: the context is done when the read returns; its error is returned
      as it is\<close>
     (snd (fst (fst (RunCommandContext deviceAbc cancelledAtOnce ''ls'' [] (FailsAt 6 ''out''
         []))))
       = Some Canceled)
   \<and> \<comment> \<open>RunCommandContext: the read of the output fails and the context is not done\<close>
     (snd (fst (fst (RunCommandContext deviceAbc neverDone ''ls'' [] (FailsAt 6 ''out'' []))))
       = Some (WrapError ''conn.ReadUntilEof err: '' (PkgErr refused)))
   \<and> \<comment> \<open>Root: the device cannot be dialled\<close>
     (fst (Root deviceAbc (FailsAt 1 ''out'' []))
       = Some (WrapError ''dialDevice failed: '' (PkgErr refused)))
   \<and> \<comment> \<open>Root: the round trip fails\<close>
     (fst (Root deviceAbc (FailsAt 5 ''out'' []))
       = Some (WrapError ''roundTripUntilEof failed: '' (WrapError ''ReadStatus failed: ''
           (PkgErr refused))))
   \<and> \<comment> \<open>Root: the answer is classified; neither error wraps anything\<close>
     (fst (Root deviceAbc (FailsAt 0 ''out'' [])) =
          (if Contains ''out'' ''restarting adbd as root'' then None
           else if Contains ''out'' ''adbd is already running as root'' then Some ErrNoOp
           else Some (ErrorString (''unexpected response: '' @ ''out''))))
   \<and> \<comment> \<open>Unroot: the device cannot be dialled\<close>
     (fst (Unroot deviceAbc (FailsAt 1 ''out'' []))
       = Some (WrapError ''dialDevice failed: '' (PkgErr refused)))
   \<and> \<comment> \<open>Unroot: the round trip fails\<close>
     (fst (Unroot deviceAbc (FailsAt 5 ''out'' []))
       = Some (WrapError ''roundTripUntilEof failed: '' (WrapError ''ReadStatus failed: ''
           (PkgErr refused))))
   \<and> \<comment> \<open>Unroot: the answer is classified; neither error wraps anything\<close>
     (fst (Unroot deviceAbc (FailsAt 0 ''out'' [])) =
          (if Contains ''out'' ''restarting adbd as non root'' then None
           else if Contains ''out'' ''adbd not running as root'' then Some ErrNoOp
           else Some (ErrorString (''unexpected unroot response: '' @ ''out''))))
   \<and> \<comment> \<open>WaitFor: the dial fails\<close>
     (fst (WaitFor deviceAbc ''device'' (FailsAt 1 ''out'' []))
       = Some (WrapError ''server Dial: '' (PkgErr refused)))
   \<and> \<comment> \<open>WaitFor: the round trip fails\<close>
     (fst (WaitFor deviceAbc ''device'' (FailsAt 2 ''out'' []))
       = Some (WrapError ''roundTripUntilEof err: '' (WrapError ''SendMessage failed: '' (PkgErr
           refused))))
   \<and> \<comment> \<open>WaitFor: whatever the answer is, there is no error\<close>
     (fst (WaitFor deviceAbc ''device'' (FailsAt 0 ''out'' [])) = None)"
proof -
  let ?dial = "[EvDial 0, EvSendMessage 0 ''host:serial:abc'', EvReadStatus 0
      ''host:serial:abc'']"
  let ?dialc = "[EvDialContext 0, EvSendMessage 0 ''host:serial:abc'', EvReadStatus 0
      ''host:serial:abc'']"
  let ?sync = "[EvDial 0, EvSendMessage 0 ''host:serial:abc'', EvReadStatus 0
      ''host:serial:abc'', EvSendMessage 0 ''sync:'', EvReadStatus 0 ''sync'']"
  note t0 = operations_wrap_errors
  \<comment> \<open>Serial: the query fails\<close>
  have h0:
      "(roundTripSingleResponse (getHostPrefix (descriptor deviceAbc) @ '':get-serialno'')
          (FailsAt 1 ''out'' []) = (([], Some refused), (FailsAt 1 ''out''
          [EvRoundTripSingleResponse ''host-serial:abc:get-serialno''])))"
    by (simp add: witness_simps)
  have r0:
      "snd (fst (Serial_of deviceAbc (FailsAt 1 ''out'' [])))
        = Some (clientError deviceAbc ''Serial'' refused)"
    by (rule t0 [THEN conjunct1, rule_format, OF h0])
  note t1 = t0 [THEN conjunct2]
  \<comment> \<open>DevicePath: the query fails\<close>
  have h1:
      "(roundTripSingleResponse (getHostPrefix (descriptor deviceAbc) @ '':get-devpath'')
          (FailsAt 1 ''out'' []) = (([], Some refused), (FailsAt 1 ''out''
          [EvRoundTripSingleResponse ''host-serial:abc:get-devpath''])))"
    by (simp add: witness_simps)
  have r1:
      "snd (fst (DevicePath deviceAbc (FailsAt 1 ''out'' [])))
        = Some (clientError deviceAbc ''DevicePath'' refused)"
    by (rule t1 [THEN conjunct1, rule_format, OF h1])
  note t2 = t1 [THEN conjunct2]
  \<comment> \<open>State: the query fails and the text of the error lacks \<open>unauthorized\<close>\<close>
  have h2:
      "(roundTripSingleResponse (getHostPrefix (descriptor deviceAbc) @ '':get-state'') (FailsAt
          1 ''out'' []) = (([], Some refused), (FailsAt 1 ''out'' [EvRoundTripSingleResponse
          ''host-serial:abc:get-state''])))
       \<and> (\<not> Contains (ErrError refused) ''unauthorized'')"
    by (simp add: witness_simps)
  have r2:
      "snd (fst (State (\<lambda>attr. (StateNamed attr, None)) deviceAbc (FailsAt 1 ''out''
          [])))
        = Some (clientError deviceAbc ''State'' refused)"
    by (rule t2 [THEN conjunct1, rule_format, OF h2])
  note t3 = t2 [THEN conjunct2]
  \<comment> \<open>State: the answer does not parse\<close>
  have h3:
      "(roundTripSingleResponse (getHostPrefix (descriptor deviceAbc) @ '':get-state'') (FailsAt
          0 ''out'' []) = ((''out'', None), (FailsAt 0 ''out'' [EvRoundTripSingleResponse
          ''host-serial:abc:get-state''])))
       \<and> ((\<lambda>attr. (StateInvalid, Some (Err ParseError ''invalid state'' None
           None))) ''out'' = (StateInvalid, Some (Err ParseError ''invalid state'' None None)))"
    by (simp add: witness_simps)
  have r3:
      "snd (fst (State (\<lambda>attr. (StateInvalid, Some (Err ParseError ''invalid state''
          None None))) deviceAbc (FailsAt 0 ''out'' [])))
        = Some (clientError deviceAbc ''State'' (Err ParseError ''invalid state'' None None))"
    by (rule t3 [THEN conjunct1, rule_format, OF h3])
  note t4 = t3 [THEN conjunct2]
  \<comment> \<open>DeviceInfo: the serial query fails; the error of \<open>Serial\<close> is wrapped once more\<close>
  have h4:
      "(roundTripSingleResponse (getHostPrefix (descriptor deviceAbc) @ '':get-serialno'')
          (FailsAt 1 ''out'' []) = (([], Some refused), (FailsAt 1 ''out''
          [EvRoundTripSingleResponse ''host-serial:abc:get-serialno''])))"
    by (simp add: witness_simps)
  have r4:
      "snd (fst (DeviceInfo_of deviceAbc (FailsAt 1 ''out'' [])))
          = Some (clientError deviceAbc ''GetDeviceInfo(GetSerial)'' (clientError deviceAbc
              ''Serial'' refused))"
    by (rule t4 [THEN conjunct1, rule_format, OF h4])
  note t5 = t4 [THEN conjunct2]
  \<comment> \<open>DeviceInfo: the listing fails\<close>
  have h5:
      "(roundTripSingleResponse (getHostPrefix (descriptor (deviceAbc\<lparr>deviceListFunc :=
          ([], Some refused)\<rparr>)) @ '':get-serialno'') (FailsAt 0 ''out'' []) = ((''out'',
          None), (FailsAt 0 ''out'' [EvRoundTripSingleResponse
          ''host-serial:abc:get-serialno''])))
       \<and> (deviceListFunc (deviceAbc\<lparr>deviceListFunc := ([], Some refused)\<rparr>) =
           ([], Some refused))"
    by (simp add: witness_simps)
  have r5:
      "snd (fst (DeviceInfo_of (deviceAbc\<lparr>deviceListFunc := ([], Some refused)\<rparr>)
          (FailsAt 0 ''out'' [])))
        = Some (clientError (deviceAbc\<lparr>deviceListFunc := ([], Some refused)\<rparr>)
            ''DeviceInfo(ListDevices)'' refused)"
    by (rule t5 [THEN conjunct1, rule_format, OF h5])
  note t6 = t5 [THEN conjunct2]
  \<comment> \<open>DeviceInfo: no record of the listing has the serial\<close>
  have h6:
      "(roundTripSingleResponse (getHostPrefix (descriptor (deviceAbc\<lparr>deviceListFunc :=
          ([\<lparr>Serial = ''xyz'', Product = ''p''\<rparr>], None)\<rparr>)) @
          '':get-serialno'') (FailsAt 0 ''out'' []) = ((''out'', None), (FailsAt 0 ''out''
          [EvRoundTripSingleResponse ''host-serial:abc:get-serialno''])))
       \<and> (deviceListFunc (deviceAbc\<lparr>deviceListFunc := ([\<lparr>Serial = ''xyz'',
           Product = ''p''\<rparr>], None)\<rparr>) = ([\<lparr>Serial = ''xyz'', Product =
           ''p''\<rparr>], None))
       \<and> ((\<forall>d\<in>set [\<lparr>Serial = ''xyz'', Product = ''p''\<rparr>]. Serial d
           \<noteq> ''out''))"
    by (simp add: witness_simps)
  have r6:
      "snd (fst (DeviceInfo_of (deviceAbc\<lparr>deviceListFunc := ([\<lparr>Serial = ''xyz'',
          Product = ''p''\<rparr>], None)\<rparr>) (FailsAt 0 ''out'' [])))
          = Some (clientError (deviceAbc\<lparr>deviceListFunc := ([\<lparr>Serial = ''xyz'',
              Product = ''p''\<rparr>], None)\<rparr>) ''DeviceInfo''
                   (Err DeviceNotFound (''device list doesn't contain serial '' @ ''out'') None
                       None))"
    by (rule t6 [THEN conjunct1, rule_format, OF h6])
  note t7 = t6 [THEN conjunct2]
  \<comment> \<open>dialDevice: the dial fails\<close>
  have h7:
      "(Dial (FailsAt 1 ''out'' []) = (Inl refused, (FailsAt 1 ''out'' [EvDial 0])))"
    by (simp add: witness_simps)
  have r7:
      "dialDevice deviceAbc (FailsAt 1 ''out'' [])
        = (Inl refused, (FailsAt 1 ''out'' [EvDial 0]))"
    by (rule t7 [THEN conjunct1, rule_format, OF h7])
  note t8 = t7 [THEN conjunct2]
  \<comment> \<open>dialDevice: the transport request cannot be sent; the connection is closed\<close>
  have h8:
      "(Dial (FailsAt 2 ''out'' []) = (Inr 0, (FailsAt 2 ''out'' [EvDial 0])))
       \<and> (SendMessage 0 (''host:'' @ getTransportDescriptor (descriptor deviceAbc))
           (FailsAt 2 ''out'' [EvDial 0]) = (Some refused, (FailsAt 2 ''out'' [EvDial 0,
           EvSendMessage 0 ''host:serial:abc''])))"
    by (simp add: witness_simps)
  have r8:
      "dialDevice deviceAbc (FailsAt 2 ''out'' []) =
          (Inl (Err (Code refused)
                  (''error connecting to device '' @ [squote]
                     @ descriptorString (descriptor deviceAbc) @ [squote])
                  None (Some refused)),
           Close 0 (FailsAt 2 ''out'' [EvDial 0, EvSendMessage 0 ''host:serial:abc'']))"
    by (rule t8 [THEN conjunct1, rule_format, OF h8])
  note t9 = t8 [THEN conjunct2]
  \<comment> \<open>dialDevice: the status of the transport request is a failure; the connection is closed\<close>
  have h9:
      "(Dial (FailsAt 3 ''out'' []) = (Inr 0, (FailsAt 3 ''out'' [EvDial 0])))
       \<and> (SendMessage 0 (''host:'' @ getTransportDescriptor (descriptor deviceAbc))
           (FailsAt 3 ''out'' [EvDial 0]) = (None, (FailsAt 3 ''out'' [EvDial 0, EvSendMessage 0
           ''host:serial:abc''])))
       \<and> (ReadStatus 0 (''host:'' @ getTransportDescriptor (descriptor deviceAbc)) (FailsAt
           3 ''out'' [EvDial 0, EvSendMessage 0 ''host:serial:abc'']) = (Some refused, (FailsAt
           3 ''out'' [EvDial 0, EvSendMessage 0 ''host:serial:abc'', EvReadStatus 0
           ''host:serial:abc''])))"
    by (simp add: witness_simps)
  have r9:
      "dialDevice deviceAbc (FailsAt 3 ''out'' [])
        = (Inl refused, Close 0 (FailsAt 3 ''out'' [EvDial 0, EvSendMessage 0
            ''host:serial:abc'', EvReadStatus 0 ''host:serial:abc'']))"
    by (rule t9 [THEN conjunct1, rule_format, OF h9])
  note t10 = t9 [THEN conjunct2]
  \<comment> \<open>dialDevice: the connection is pinned to the device\<close>
  have h10:
      "(Dial (FailsAt 0 ''out'' []) = (Inr 0, (FailsAt 0 ''out'' [EvDial 0])))
       \<and> (SendMessage 0 (''host:'' @ getTransportDescriptor (descriptor deviceAbc))
           (FailsAt 0 ''out'' [EvDial 0]) = (None, (FailsAt 0 ''out'' [EvDial 0, EvSendMessage 0
           ''host:serial:abc''])))
       \<and> (ReadStatus 0 (''host:'' @ getTransportDescriptor (descriptor deviceAbc)) (FailsAt
           0 ''out'' [EvDial 0, EvSendMessage 0 ''host:serial:abc'']) = (None, (FailsAt 0
           ''out'' [EvDial 0, EvSendMessage 0 ''host:serial:abc'', EvReadStatus 0
           ''host:serial:abc''])))"
    by (simp add: witness_simps)
  have r10:
      "dialDevice deviceAbc (FailsAt 0 ''out'' [])
        = (Inr 0, (FailsAt 0 ''out'' [EvDial 0, EvSendMessage 0 ''host:serial:abc'',
            EvReadStatus 0 ''host:serial:abc'']))"
    by (rule t10 [THEN conjunct1, rule_format, OF h10])
  note t11 = t10 [THEN conjunct2]
  \<comment> \<open>dialContext: the dial fails\<close>
  have h11:
      "(DialContext neverDone (FailsAt 1 ''out'' []) = (Inl refused, (FailsAt 1 ''out''
          [EvDialContext 0])))"
    by (simp add: witness_simps)
  have r11:
      "dialContext deviceAbc neverDone (FailsAt 1 ''out'' [])
        = (Inl refused, (FailsAt 1 ''out'' [EvDialContext 0]))"
    by (rule t11 [THEN conjunct1, rule_format, OF h11])
  note t12 = t11 [THEN conjunct2]
  \<comment> \<open>dialContext: the transport request cannot be sent; the connection is closed\<close>
  have h12:
      "(DialContext neverDone (FailsAt 2 ''out'' []) = (Inr 0, (FailsAt 2 ''out'' [EvDialContext
          0])))
       \<and> (SendMessage 0 (''host:'' @ getTransportDescriptor (descriptor deviceAbc))
           (FailsAt 2 ''out'' [EvDialContext 0]) = (Some refused, (FailsAt 2 ''out''
           [EvDialContext 0, EvSendMessage 0 ''host:serial:abc''])))"
    by (simp add: witness_simps)
  have r12:
      "dialContext deviceAbc neverDone (FailsAt 2 ''out'' []) =
          (Inl (Err (Code refused)
                  (''error connecting to device '' @ [squote]
                     @ descriptorString (descriptor deviceAbc) @ [squote])
                  None (Some refused)),
           Close 0 (FailsAt 2 ''out'' [EvDialContext 0, EvSendMessage 0 ''host:serial:abc'']))"
    by (rule t12 [THEN conjunct1, rule_format, OF h12])
  note t13 = t12 [THEN conjunct2]
  \<comment> \<open>dialContext: the status of the transport request is a failure; the connection is closed\<close>
  have h13:
      "(DialContext neverDone (FailsAt 3 ''out'' []) = (Inr 0, (FailsAt 3 ''out'' [EvDialContext
          0])))
       \<and> (SendMessage 0 (''host:'' @ getTransportDescriptor (descriptor deviceAbc))
           (FailsAt 3 ''out'' [EvDialContext 0]) = (None, (FailsAt 3 ''out'' [EvDialContext 0,
           EvSendMessage 0 ''host:serial:abc''])))
       \<and> (ReadStatus 0 (''host:'' @ getTransportDescriptor (descriptor deviceAbc)) (FailsAt
           3 ''out'' [EvDialContext 0, EvSendMessage 0 ''host:serial:abc'']) = (Some refused,
           (FailsAt 3 ''out'' [EvDialContext 0, EvSendMessage 0 ''host:serial:abc'',
           EvReadStatus 0 ''host:serial:abc''])))"
    by (simp add: witness_simps)
  have r13:
      "dialContext deviceAbc neverDone (FailsAt 3 ''out'' [])
        = (Inl refused, Close 0 (FailsAt 3 ''out'' [EvDialContext 0, EvSendMessage 0
            ''host:serial:abc'', EvReadStatus 0 ''host:serial:abc'']))"
    by (rule t13 [THEN conjunct1, rule_format, OF h13])
  note t14 = t13 [THEN conjunct2]
  \<comment> \<open>dialContext: the connection is pinned to the device\<close>
  have h14:
      "(DialContext neverDone (FailsAt 0 ''out'' []) = (Inr 0, (FailsAt 0 ''out'' [EvDialContext
          0])))
       \<and> (SendMessage 0 (''host:'' @ getTransportDescriptor (descriptor deviceAbc))
           (FailsAt 0 ''out'' [EvDialContext 0]) = (None, (FailsAt 0 ''out'' [EvDialContext 0,
           EvSendMessage 0 ''host:serial:abc''])))
       \<and> (ReadStatus 0 (''host:'' @ getTransportDescriptor (descriptor deviceAbc)) (FailsAt
           0 ''out'' [EvDialContext 0, EvSendMessage 0 ''host:serial:abc'']) = (None, (FailsAt 0
           ''out'' [EvDialContext 0, EvSendMessage 0 ''host:serial:abc'', EvReadStatus 0
           ''host:serial:abc''])))"
    by (simp add: witness_simps)
  have r14:
      "dialContext deviceAbc neverDone (FailsAt 0 ''out'' [])
        = (Inr 0, (FailsAt 0 ''out'' [EvDialContext 0, EvSendMessage 0 ''host:serial:abc'',
            EvReadStatus 0 ''host:serial:abc'']))"
    by (rule t14 [THEN conjunct1, rule_format, OF h14])
  note t15 = t14 [THEN conjunct2]
  \<comment> \<open>getSyncConn: the device cannot be dialled\<close>
  have h15:
      "(dialDevice deviceAbc (FailsAt 1 ''out'' []) = (Inl refused, (FailsAt 1 ''out'' [EvDial
          0])))"
    by (simp add: witness_simps)
  have r15:
      "getSyncConn deviceAbc (FailsAt 1 ''out'' [])
        = (Inl refused, (FailsAt 1 ''out'' [EvDial 0]))"
    by (rule t15 [THEN conjunct1, rule_format, OF h15])
  note t16 = t15 [THEN conjunct2]
  \<comment> \<open>getSyncConn: the switch to sync mode cannot be sent\<close>
  have h16:
      "(dialDevice deviceAbc (FailsAt 4 ''out'' []) = (Inr 0, (FailsAt 4 ''out'' [EvDial 0,
          EvSendMessage 0 ''host:serial:abc'', EvReadStatus 0 ''host:serial:abc''])))
       \<and> (SendMessage 0 ''sync:'' (FailsAt 4 ''out'' [EvDial 0, EvSendMessage 0
           ''host:serial:abc'', EvReadStatus 0 ''host:serial:abc'']) = (Some refused, (FailsAt 4
           ''out'' [EvDial 0, EvSendMessage 0 ''host:serial:abc'', EvReadStatus 0
           ''host:serial:abc'', EvSendMessage 0 ''sync:''])))"
    by (simp add: witness_simps)
  have r16:
      "getSyncConn deviceAbc (FailsAt 4 ''out'' [])
        = (Inl refused, (FailsAt 4 ''out'' [EvDial 0, EvSendMessage 0 ''host:serial:abc'',
            EvReadStatus 0 ''host:serial:abc'', EvSendMessage 0 ''sync:'']))"
    by (rule t16 [THEN conjunct1, rule_format, OF h16])
  note t17 = t16 [THEN conjunct2]
  \<comment> \<open>getSyncConn: the status of the switch is a failure\<close>
  have h17:
      "(dialDevice deviceAbc (FailsAt 5 ''out'' []) = (Inr 0, (FailsAt 5 ''out'' [EvDial 0,
          EvSendMessage 0 ''host:serial:abc'', EvReadStatus 0 ''host:serial:abc''])))
       \<and> (SendMessage 0 ''sync:'' (FailsAt 5 ''out'' [EvDial 0, EvSendMessage 0
           ''host:serial:abc'', EvReadStatus 0 ''host:serial:abc'']) = (None, (FailsAt 5 ''out''
           [EvDial 0, EvSendMessage 0 ''host:serial:abc'', EvReadStatus 0 ''host:serial:abc'',
           EvSendMessage 0 ''sync:''])))
       \<and> (ReadStatus 0 ''sync'' (FailsAt 5 ''out'' [EvDial 0, EvSendMessage 0
           ''host:serial:abc'', EvReadStatus 0 ''host:serial:abc'', EvSendMessage 0 ''sync:''])
           = (Some refused, (FailsAt 5 ''out'' [EvDial 0, EvSendMessage 0 ''host:serial:abc'',
           EvReadStatus 0 ''host:serial:abc'', EvSendMessage 0 ''sync:'', EvReadStatus 0
           ''sync''])))"
    by (simp add: witness_simps)
  have r17:
      "getSyncConn deviceAbc (FailsAt 5 ''out'' [])
        = (Inl refused, (FailsAt 5 ''out'' [EvDial 0, EvSendMessage 0 ''host:serial:abc'',
            EvReadStatus 0 ''host:serial:abc'', EvSendMessage 0 ''sync:'', EvReadStatus 0
            ''sync'']))"
    by (rule t17 [THEN conjunct1, rule_format, OF h17])
  note t18 = t17 [THEN conjunct2]
  \<comment> \<open>getSyncConn: the connection is in sync mode\<close>
  have h18:
      "(dialDevice deviceAbc (FailsAt 0 ''out'' []) = (Inr 0, (FailsAt 0 ''out'' [EvDial 0,
          EvSendMessage 0 ''host:serial:abc'', EvReadStatus 0 ''host:serial:abc''])))
       \<and> (SendMessage 0 ''sync:'' (FailsAt 0 ''out'' [EvDial 0, EvSendMessage 0
           ''host:serial:abc'', EvReadStatus 0 ''host:serial:abc'']) = (None, (FailsAt 0 ''out''
           [EvDial 0, EvSendMessage 0 ''host:serial:abc'', EvReadStatus 0 ''host:serial:abc'',
           EvSendMessage 0 ''sync:''])))
       \<and> (ReadStatus 0 ''sync'' (FailsAt 0 ''out'' [EvDial 0, EvSendMessage 0
           ''host:serial:abc'', EvReadStatus 0 ''host:serial:abc'', EvSendMessage 0 ''sync:''])
           = (None, (FailsAt 0 ''out'' [EvDial 0, EvSendMessage 0 ''host:serial:abc'',
           EvReadStatus 0 ''host:serial:abc'', EvSendMessage 0 ''sync:'', EvReadStatus 0
           ''sync''])))"
    by (simp add: witness_simps)
  have r18:
      "getSyncConn deviceAbc (FailsAt 0 ''out'' [])
        = (Inr 0, (FailsAt 0 ''out'' [EvDial 0, EvSendMessage 0 ''host:serial:abc'',
            EvReadStatus 0 ''host:serial:abc'', EvSendMessage 0 ''sync:'', EvReadStatus 0
            ''sync'']))"
    by (rule t18 [THEN conjunct1, rule_format, OF h18])
  note t19 = t18 [THEN conjunct2]
  \<comment> \<open>roundTripUntilEof: the request cannot be sent\<close>
  have h19:
      "(SendMessage 0 ''root:'' (FailsAt 4 ''out'' [EvDial 0, EvSendMessage 0
          ''host:serial:abc'', EvReadStatus 0 ''host:serial:abc'']) = (Some refused, (FailsAt 4
          ''out'' [EvDial 0, EvSendMessage 0 ''host:serial:abc'', EvReadStatus 0
          ''host:serial:abc'', EvSendMessage 0 ''root:''])))"
    by (simp add: witness_simps)
  have r19:
      "roundTripUntilEof 0 ''root:'' (FailsAt 4 ''out'' [EvDial 0, EvSendMessage 0
          ''host:serial:abc'', EvReadStatus 0 ''host:serial:abc''])
          = (([], Some (WrapError ''SendMessage failed: '' (PkgErr refused))), (FailsAt 4
              ''out'' [EvDial 0, EvSendMessage 0 ''host:serial:abc'', EvReadStatus 0
              ''host:serial:abc'', EvSendMessage 0 ''root:'']))"
    by (rule t19 [THEN conjunct1, rule_format, OF h19])
  note t20 = t19 [THEN conjunct2]
  \<comment> \<open>roundTripUntilEof: the status is a failure\<close>
  have h20:
      "(SendMessage 0 ''root:'' (FailsAt 5 ''out'' [EvDial 0, EvSendMessage 0
          ''host:serial:abc'', EvReadStatus 0 ''host:serial:abc'']) = (None, (FailsAt 5 ''out''
          [EvDial 0, EvSendMessage 0 ''host:serial:abc'', EvReadStatus 0 ''host:serial:abc'',
          EvSendMessage 0 ''root:''])))
       \<and> (ReadStatus 0 ''root:'' (FailsAt 5 ''out'' [EvDial 0, EvSendMessage 0
           ''host:serial:abc'', EvReadStatus 0 ''host:serial:abc'', EvSendMessage 0 ''root:''])
           = (Some refused, (FailsAt 5 ''out'' [EvDial 0, EvSendMessage 0 ''host:serial:abc'',
           EvReadStatus 0 ''host:serial:abc'', EvSendMessage 0 ''root:'', EvReadStatus 0
           ''root:''])))"
    by (simp add: witness_simps)
  have r20:
      "roundTripUntilEof 0 ''root:'' (FailsAt 5 ''out'' [EvDial 0, EvSendMessage 0
          ''host:serial:abc'', EvReadStatus 0 ''host:serial:abc''])
          = (([], Some (WrapError ''ReadStatus failed: '' (PkgErr refused))), (FailsAt 5 ''out''
              [EvDial 0, EvSendMessage 0 ''host:serial:abc'', EvReadStatus 0
              ''host:serial:abc'', EvSendMessage 0 ''root:'', EvReadStatus 0 ''root:'']))"
    by (rule t20 [THEN conjunct1, rule_format, OF h20])
  note t21 = t20 [THEN conjunct2]
  \<comment> \<open>roundTripUntilEof: the read fails\<close>
  have h21:
      "(SendMessage 0 ''root:'' (FailsAt 6 ''out'' [EvDial 0, EvSendMessage 0
          ''host:serial:abc'', EvReadStatus 0 ''host:serial:abc'']) = (None, (FailsAt 6 ''out''
          [EvDial 0, EvSendMessage 0 ''host:serial:abc'', EvReadStatus 0 ''host:serial:abc'',
          EvSendMessage 0 ''root:''])))
       \<and> (ReadStatus 0 ''root:'' (FailsAt 6 ''out'' [EvDial 0, EvSendMessage 0
           ''host:serial:abc'', EvReadStatus 0 ''host:serial:abc'', EvSendMessage 0 ''root:''])
           = (None, (FailsAt 6 ''out'' [EvDial 0, EvSendMessage 0 ''host:serial:abc'',
           EvReadStatus 0 ''host:serial:abc'', EvSendMessage 0 ''root:'', EvReadStatus 0
           ''root:''])))
       \<and> (ReadUntilEof 0 (FailsAt 6 ''out'' [EvDial 0, EvSendMessage 0 ''host:serial:abc'',
           EvReadStatus 0 ''host:serial:abc'', EvSendMessage 0 ''root:'', EvReadStatus 0
           ''root:'']) = (([], Some refused), (FailsAt 6 ''out'' [EvDial 0, EvSendMessage 0
           ''host:serial:abc'', EvReadStatus 0 ''host:serial:abc'', EvSendMessage 0 ''root:'',
           EvReadStatus 0 ''root:'', EvReadUntilEof 0])))"
    by (simp add: witness_simps)
  have r21:
      "roundTripUntilEof 0 ''root:'' (FailsAt 6 ''out'' [EvDial 0, EvSendMessage 0
          ''host:serial:abc'', EvReadStatus 0 ''host:serial:abc''])
          = (([], Some (WrapError ''ReadUntilEof failed: '' (PkgErr refused))), (FailsAt 6
              ''out'' [EvDial 0, EvSendMessage 0 ''host:serial:abc'', EvReadStatus 0
              ''host:serial:abc'', EvSendMessage 0 ''root:'', EvReadStatus 0 ''root:'',
              EvReadUntilEof 0]))"
    by (rule t21 [THEN conjunct1, rule_format, OF h21])
  note t22 = t21 [THEN conjunct2]
  \<comment> \<open>roundTripUntilEof: the answer is read\<close>
  have h22:
      "(SendMessage 0 ''root:'' (FailsAt 0 ''out'' [EvDial 0, EvSendMessage 0
          ''host:serial:abc'', EvReadStatus 0 ''host:serial:abc'']) = (None, (FailsAt 0 ''out''
          [EvDial 0, EvSendMessage 0 ''host:serial:abc'', EvReadStatus 0 ''host:serial:abc'',
          EvSendMessage 0 ''root:''])))
       \<and> (ReadStatus 0 ''root:'' (FailsAt 0 ''out'' [EvDial 0, EvSendMessage 0
           ''host:serial:abc'', EvReadStatus 0 ''host:serial:abc'', EvSendMessage 0 ''root:''])
           = (None, (FailsAt 0 ''out'' [EvDial 0, EvSendMessage 0 ''host:serial:abc'',
           EvReadStatus 0 ''host:serial:abc'', EvSendMessage 0 ''root:'', EvReadStatus 0
           ''root:''])))
       \<and> (ReadUntilEof 0 (FailsAt 0 ''out'' [EvDial 0, EvSendMessage 0 ''host:serial:abc'',
           EvReadStatus 0 ''host:serial:abc'', EvSendMessage 0 ''root:'', EvReadStatus 0
           ''root:'']) = ((''out'', None), (FailsAt 0 ''out'' [EvDial 0, EvSendMessage 0
           ''host:serial:abc'', EvReadStatus 0 ''host:serial:abc'', EvSendMessage 0 ''root:'',
           EvReadStatus 0 ''root:'', EvReadUntilEof 0])))"
    by (simp add: witness_simps)
  have r22:
      "roundTripUntilEof 0 ''root:'' (FailsAt 0 ''out'' [EvDial 0, EvSendMessage 0
          ''host:serial:abc'', EvReadStatus 0 ''host:serial:abc''])
        = ((''out'', None), (FailsAt 0 ''out'' [EvDial 0, EvSendMessage 0 ''host:serial:abc'',
            EvReadStatus 0 ''host:serial:abc'', EvSendMessage 0 ''root:'', EvReadStatus 0
            ''root:'', EvReadUntilEof 0]))"
    by (rule t22 [THEN conjunct1, rule_format, OF h22])
  note t23 = t22 [THEN conjunct2]
  \<comment> \<open>RunCommand: the command line is refused\<close>
  have h23:
      "(snd (fst (prepareCommandLine '' '' [])) = Some (AssertionErrorf
          ''command cannot be empty''))"
    by (simp add: witness_simps)
  have r23:
      "snd (fst (fst (RunCommand deviceAbc '' '' [] (FailsAt 0 ''out'' []))))
        = Some (clientError deviceAbc ''RunCommand'' (AssertionErrorf
            ''command cannot be empty''))"
    by (rule t23 [THEN conjunct1, rule_format, OF h23])
  note t24 = t23 [THEN conjunct2]
  \<comment> \<open>RunCommand: the device cannot be dialled\<close>
  have h24:
      "(snd (fst (prepareCommandLine ''ls'' [])) = None)
       \<and> (dialDevice deviceAbc (FailsAt 1 ''out'' []) = (Inl refused, (FailsAt 1 ''out''
           [EvDial 0])))"
    by (simp add: witness_simps)
  have r24:
      "snd (fst (fst (RunCommand deviceAbc ''ls'' [] (FailsAt 1 ''out'' []))))
        = Some (clientError deviceAbc ''RunCommand'' refused)"
    by (rule t24 [THEN conjunct1, rule_format, OF h24])
  note t25 = t24 [THEN conjunct2]
  \<comment> \<open>RunCommand: the shell request cannot be sent\<close>
  have h25:
      "(snd (fst (prepareCommandLine ''ls'' [])) = None)
       \<and> (dialDevice deviceAbc (FailsAt 4 ''out'' []) = (Inr 0, (FailsAt 4 ''out'' ?dial)))
       \<and> (SendMessage 0 (''shell:'' @ fst (fst (prepareCommandLine ''ls'' []))) (FailsAt 4
           ''out'' ?dial) = (Some refused, (FailsAt 4 ''out'' (?dial @ [EvSendMessage 0
           ''shell:ls'']))))"
    by (simp add: witness_simps)
  have r25:
      "snd (fst (fst (RunCommand deviceAbc ''ls'' [] (FailsAt 4 ''out'' []))))
        = Some (clientError deviceAbc ''RunCommand'' refused)"
    by (rule t25 [THEN conjunct1, rule_format, OF h25])
  note t26 = t25 [THEN conjunct2]
  \<comment> \<open>RunCommand: the status of the shell request is a failure\<close>
  have h26:
      "(snd (fst (prepareCommandLine ''ls'' [])) = None)
       \<and> (dialDevice deviceAbc (FailsAt 5 ''out'' []) = (Inr 0, (FailsAt 5 ''out'' ?dial)))
       \<and> (SendMessage 0 (''shell:'' @ fst (fst (prepareCommandLine ''ls'' []))) (FailsAt 5
           ''out'' ?dial) = (None, (FailsAt 5 ''out'' (?dial @ [EvSendMessage 0
           ''shell:ls'']))))
       \<and> (ReadStatus 0 (''shell:'' @ fst (fst (prepareCommandLine ''ls'' []))) (FailsAt 5
           ''out'' (?dial @ [EvSendMessage 0 ''shell:ls''])) = (Some refused, (FailsAt 5 ''out''
           (?dial @ [EvSendMessage 0 ''shell:ls'', EvReadStatus 0 ''shell:ls'']))))"
    by (simp add: witness_simps)
  have r26:
      "snd (fst (fst (RunCommand deviceAbc ''ls'' [] (FailsAt 5 ''out'' []))))
        = Some (clientError deviceAbc ''RunCommand'' refused)"
    by (rule t26 [THEN conjunct1, rule_format, OF h26])
  note t27 = t26 [THEN conjunct2]
  \<comment> \<open>RunCommand: the read of the output fails\<close>
  have h27:
      "(snd (fst (prepareCommandLine ''ls'' [])) = None)
       \<and> (dialDevice deviceAbc (FailsAt 6 ''out'' []) = (Inr 0, (FailsAt 6 ''out'' ?dial)))
       \<and> (SendMessage 0 (''shell:'' @ fst (fst (prepareCommandLine ''ls'' []))) (FailsAt 6
           ''out'' ?dial) = (None, (FailsAt 6 ''out'' (?dial @ [EvSendMessage 0
           ''shell:ls'']))))
       \<and> (ReadStatus 0 (''shell:'' @ fst (fst (prepareCommandLine ''ls'' []))) (FailsAt 6
           ''out'' (?dial @ [EvSendMessage 0 ''shell:ls''])) = (None, (FailsAt 6 ''out'' (?dial
           @ [EvSendMessage 0 ''shell:ls'', EvReadStatus 0 ''shell:ls'']))))
       \<and> (ReadUntilEof 0 (FailsAt 6 ''out'' (?dial @ [EvSendMessage 0 ''shell:ls'',
           EvReadStatus 0 ''shell:ls''])) = (([], Some refused), (FailsAt 6 ''out'' (?dial @
           [EvSendMessage 0 ''shell:ls'', EvReadStatus 0 ''shell:ls'', EvReadUntilEof 0]))))"
    by (simp add: witness_simps)
  have r27:
      "snd (fst (fst (RunCommand deviceAbc ''ls'' [] (FailsAt 6 ''out'' []))))
        = Some (clientError deviceAbc ''RunCommand'' refused)"
    by (rule t27 [THEN conjunct1, rule_format, OF h27])
  note t28 = t27 [THEN conjunct2]
  \<comment> \<open>Remount: the device cannot be dialled\<close>
  have h28:
      "(dialDevice deviceAbc (FailsAt 1 ''out'' []) = (Inl refused, (FailsAt 1 ''out'' [EvDial
          0])))"
    by (simp add: witness_simps)
  have r28:
      "snd (fst (Remount deviceAbc (FailsAt 1 ''out'' [])))
        = Some (clientError deviceAbc ''Remount'' refused)"
    by (rule t28 [THEN conjunct1, rule_format, OF h28])
  note t29 = t28 [THEN conjunct2]
  \<comment> \<open>Remount: the round trip fails\<close>
  have h29:
      "(dialDevice deviceAbc (FailsAt 4 ''out'' []) = (Inr 0, (FailsAt 4 ''out'' ?dial)))
       \<and> (RoundTripSingleResponse 0 ''remount'' (FailsAt 4 ''out'' ?dial) = (([], Some
           refused), (FailsAt 4 ''out'' (?dial @ [EvConnRoundTripSingleResponse 0
           ''remount'']))))"
    by (simp add: witness_simps)
  have r29:
      "snd (fst (Remount deviceAbc (FailsAt 4 ''out'' [])))
        = Some (clientError deviceAbc ''Remount'' refused)"
    by (rule t29 [THEN conjunct1, rule_format, OF h29])
  note t30 = t29 [THEN conjunct2]
  \<comment> \<open>ListDirEntries: no sync connection\<close>
  have h30:
      "(getSyncConn deviceAbc (FailsAt 1 ''out'' []) = (Inl refused, (FailsAt 1 ''out'' [EvDial
          0])))"
    by (simp add: witness_simps)
  have r30:
      "snd (fst (ListDirEntries deviceAbc ''/sdcard'' (FailsAt 1 ''out'' [])))
        = Some (clientError deviceAbc (''ListDirEntries('' @ ''/sdcard'' @ '')'') refused)"
    by (rule t30 [THEN conjunct1, rule_format, OF h30])
  note t31 = t30 [THEN conjunct2]
  \<comment> \<open>ListDirEntries: the sync request fails\<close>
  have h31:
      "(getSyncConn deviceAbc (FailsAt 6 ''out'' []) = (Inr 0, (FailsAt 6 ''out'' ?sync)))
       \<and> (listDirEntries 0 ''/sdcard'' (FailsAt 6 ''out'' ?sync) = ((None, Some refused),
           (FailsAt 6 ''out'' (?sync @ [EvListDirEntries 0 ''/sdcard'']))))"
    by (simp add: witness_simps)
  have r31:
      "snd (fst (ListDirEntries deviceAbc ''/sdcard'' (FailsAt 6 ''out'' [])))
        = Some (clientError deviceAbc (''ListDirEntries('' @ ''/sdcard'' @ '')'') refused)"
    by (rule t31 [THEN conjunct1, rule_format, OF h31])
  note t32 = t31 [THEN conjunct2]
  \<comment> \<open>Stat: no sync connection\<close>
  have h32:
      "(getSyncConn deviceAbc (FailsAt 1 ''out'' []) = (Inl refused, (FailsAt 1 ''out'' [EvDial
          0])))"
    by (simp add: witness_simps)
  have r32:
      "snd (fst (Stat deviceAbc ''/sdcard'' (FailsAt 1 ''out'' [])))
        = Some (clientError deviceAbc (''Stat('' @ ''/sdcard'' @ '')'') refused)"
    by (rule t32 [THEN conjunct1, rule_format, OF h32])
  note t33 = t32 [THEN conjunct2]
  \<comment> \<open>Stat: the sync request fails\<close>
  have h33:
      "(getSyncConn deviceAbc (FailsAt 6 ''out'' []) = (Inr 0, (FailsAt 6 ''out'' ?sync)))
       \<and> (stat 0 ''/sdcard'' (FailsAt 6 ''out'' ?sync) = ((None, Some refused), (FailsAt 6
           ''out'' (?sync @ [EvStat 0 ''/sdcard'']))))"
    by (simp add: witness_simps)
  have r33:
      "snd (fst (Stat deviceAbc ''/sdcard'' (FailsAt 6 ''out'' [])))
        = Some (clientError deviceAbc (''Stat('' @ ''/sdcard'' @ '')'') refused)"
    by (rule t33 [THEN conjunct1, rule_format, OF h33])
  note t34 = t33 [THEN conjunct2]
  \<comment> \<open>OpenRead: no sync connection\<close>
  have h34:
      "(getSyncConn deviceAbc (FailsAt 1 ''out'' []) = (Inl refused, (FailsAt 1 ''out'' [EvDial
          0])))"
    by (simp add: witness_simps)
  have r34:
      "snd (fst (OpenRead deviceAbc ''/sdcard'' (FailsAt 1 ''out'' [])))
        = Some (clientError deviceAbc (''OpenRead('' @ ''/sdcard'' @ '')'') refused)"
    by (rule t34 [THEN conjunct1, rule_format, OF h34])
  note t35 = t34 [THEN conjunct2]
  \<comment> \<open>OpenRead: the sync request fails\<close>
  have h35:
      "(getSyncConn deviceAbc (FailsAt 6 ''out'' []) = (Inr 0, (FailsAt 6 ''out'' ?sync)))
       \<and> (receiveFile 0 ''/sdcard'' (FailsAt 6 ''out'' ?sync) = ((None, Some refused),
           (FailsAt 6 ''out'' (?sync @ [EvReceiveFile 0 ''/sdcard'']))))"
    by (simp add: witness_simps)
  have r35:
      "snd (fst (OpenRead deviceAbc ''/sdcard'' (FailsAt 6 ''out'' [])))
        = Some (clientError deviceAbc (''OpenRead('' @ ''/sdcard'' @ '')'') refused)"
    by (rule t35 [THEN conjunct1, rule_format, OF h35])
  note t36 = t35 [THEN conjunct2]
  \<comment> \<open>OpenWrite: no sync connection\<close>
  have h36:
      "(getSyncConn deviceAbc (FailsAt 1 ''out'' []) = (Inl refused, (FailsAt 1 ''out'' [EvDial
          0])))"
    by (simp add: witness_simps)
  have r36:
      "snd (fst (OpenWrite deviceAbc ''/sdcard'' 420 0 (FailsAt 1 ''out'' [])))
        = Some (clientError deviceAbc (''OpenWrite('' @ ''/sdcard'' @ '')'') refused)"
    by (rule t36 [THEN conjunct1, rule_format, OF h36])
  note t37 = t36 [THEN conjunct2]
  \<comment> \<open>OpenWrite: the sync request fails\<close>
  have h37:
      "(getSyncConn deviceAbc (FailsAt 6 ''out'' []) = (Inr 0, (FailsAt 6 ''out'' ?sync)))
       \<and> (sendFile 0 ''/sdcard'' 420 0 (FailsAt 6 ''out'' ?sync) = ((None, Some refused),
           (FailsAt 6 ''out'' (?sync @ [EvSendFile 0 ''/sdcard'' 420 0]))))"
    by (simp add: witness_simps)
  have r37:
      "snd (fst (OpenWrite deviceAbc ''/sdcard'' 420 0 (FailsAt 6 ''out'' [])))
        = Some (clientError deviceAbc (''OpenWrite('' @ ''/sdcard'' @ '')'') refused)"
    by (rule t37 [THEN conjunct1, rule_format, OF h37])
  note t38 = t37 [THEN conjunct2]
  \<comment> \<open>RunCommandContext: the command line is refused\<close>
  have h38:
      "(snd (fst (prepareCommandLine '' '' [])) = Some (AssertionErrorf
          ''command cannot be empty''))"
    by (simp add: witness_simps)
  have r38:
      "snd (fst (fst (RunCommandContext deviceAbc neverDone '' '' [] (FailsAt 0 ''out'' []))))
        = Some (WrapError ''prepareCommandLine err: '' (PkgErr (AssertionErrorf
            ''command cannot be empty'')))"
    by (rule t38 [THEN conjunct1, rule_format, OF h38])
  note t39 = t38 [THEN conjunct2]
  \<comment> \<open>RunCommandContext: the device cannot be dialled\<close>
  have h39:
      "(snd (fst (prepareCommandLine ''ls'' [])) = None)
       \<and> (dialContext deviceAbc neverDone (FailsAt 1 ''out'' []) = (Inl refused, (FailsAt 1
           ''out'' [EvDialContext 0])))"
    by (simp add: witness_simps)
  have r39:
      "snd (fst (fst (RunCommandContext deviceAbc neverDone ''ls'' [] (FailsAt 1 ''out'' []))))
        = Some (WrapError ''dialContext err: '' (PkgErr refused))"
    by (rule t39 [THEN conjunct1, rule_format, OF h39])
  note t40 = t39 [THEN conjunct2]
  \<comment> \<open>RunCommandContext: the shell request cannot be sent\<close>
  have h40:
      "(snd (fst (prepareCommandLine ''ls'' [])) = None)
       \<and> (dialContext deviceAbc neverDone (FailsAt 4 ''out'' []) = (Inr 0, (FailsAt 4
           ''out'' ?dialc)))
       \<and> (SendMessage 0 (''shell:'' @ fst (fst (prepareCommandLine ''ls'' []))) (FailsAt 4
           ''out'' ?dialc) = (Some refused, (FailsAt 4 ''out'' (?dialc @ [EvSendMessage 0
           ''shell:ls'']))))"
    by (simp add: witness_simps)
  have r40:
      "snd (fst (fst (RunCommandContext deviceAbc neverDone ''ls'' [] (FailsAt 4 ''out'' []))))
        = Some (WrapError ''conn.SendMessage err: '' (PkgErr refused))"
    by (rule t40 [THEN conjunct1, rule_format, OF h40])
  note t41 = t40 [THEN conjunct2]
  \<comment> \<open>RunCommandContext: the status of the shell request is a failure\<close>
  have h41:
      "(snd (fst (prepareCommandLine ''ls'' [])) = None)
       \<and> (dialContext deviceAbc neverDone (FailsAt 5 ''out'' []) = (Inr 0, (FailsAt 5
           ''out'' ?dialc)))
       \<and> (SendMessage 0 (''shell:'' @ fst (fst (prepareCommandLine ''ls'' []))) (FailsAt 5
           ''out'' ?dialc) = (None, (FailsAt 5 ''out'' (?dialc @ [EvSendMessage 0
           ''shell:ls'']))))
       \<and> (ReadStatus 0 (''shell:'' @ fst (fst (prepareCommandLine ''ls'' []))) (FailsAt 5
           ''out'' (?dialc @ [EvSendMessage 0 ''shell:ls''])) = (Some refused, (FailsAt 5
           ''out'' (?dialc @ [EvSendMessage 0 ''shell:ls'', EvReadStatus 0 ''shell:ls'']))))"
    by (simp add: witness_simps)
  have r41:
      "snd (fst (fst (RunCommandContext deviceAbc neverDone ''ls'' [] (FailsAt 5 ''out'' []))))
        = Some (WrapError ''conn.ReadStatus err: '' (PkgErr refused))"
    by (rule t41 [THEN conjunct1, rule_format, OF h41])
  note t42 = t41 [THEN conjunct2]
  \<comment> \<open>RunCommandContext: the context is done when the read returns; its error is returned
      as it is\<close>
  have h42:
      "(snd (fst (prepareCommandLine ''ls'' [])) = None)
       \<and> (dialContext deviceAbc cancelledAtOnce (FailsAt 6 ''out'' []) = (Inr 0, (FailsAt 6
           ''out'' ?dialc)))
       \<and> (SendMessage 0 (''shell:'' @ fst (fst (prepareCommandLine ''ls'' []))) (FailsAt 6
           ''out'' ?dialc) = (None, (FailsAt 6 ''out'' (?dialc @ [EvSendMessage 0
           ''shell:ls'']))))
       \<and> (ReadStatus 0 (''shell:'' @ fst (fst (prepareCommandLine ''ls'' []))) (FailsAt 6
           ''out'' (?dialc @ [EvSendMessage 0 ''shell:ls''])) = (None, (FailsAt 6 ''out''
           (?dialc @ [EvSendMessage 0 ''shell:ls'', EvReadStatus 0 ''shell:ls'']))))
       \<and> (ReadUntilEof 0 (FailsAt 6 ''out'' (?dialc @ [EvSendMessage 0 ''shell:ls'',
           EvReadStatus 0 ''shell:ls''])) = (([], (Some refused)), (FailsAt 6 ''out'' (?dialc @
           [EvSendMessage 0 ''shell:ls'', EvReadStatus 0 ''shell:ls'', EvReadUntilEof 0]))))
       \<and> (ctxErr cancelledAtOnce (FailsAt 6 ''out'' (?dialc @ [EvSendMessage 0
           ''shell:ls'', EvReadStatus 0 ''shell:ls'', EvReadUntilEof 0])) = Some Canceled)"
    by (simp add: witness_simps)
  have r42:
      "snd (fst (fst (RunCommandContext deviceAbc cancelledAtOnce ''ls'' [] (FailsAt 6 ''out''
          []))))
        = Some Canceled"
    by (rule t42 [THEN conjunct1, rule_format, OF h42])
  note t43 = t42 [THEN conjunct2]
  \<comment> \<open>RunCommandContext: the read of the output fails and the context is not done\<close>
  have h43:
      "(snd (fst (prepareCommandLine ''ls'' [])) = None)
       \<and> (dialContext deviceAbc neverDone (FailsAt 6 ''out'' []) = (Inr 0, (FailsAt 6
           ''out'' ?dialc)))
       \<and> (SendMessage 0 (''shell:'' @ fst (fst (prepareCommandLine ''ls'' []))) (FailsAt 6
           ''out'' ?dialc) = (None, (FailsAt 6 ''out'' (?dialc @ [EvSendMessage 0
           ''shell:ls'']))))
       \<and> (ReadStatus 0 (''shell:'' @ fst (fst (prepareCommandLine ''ls'' []))) (FailsAt 6
           ''out'' (?dialc @ [EvSendMessage 0 ''shell:ls''])) = (None, (FailsAt 6 ''out''
           (?dialc @ [EvSendMessage 0 ''shell:ls'', EvReadStatus 0 ''shell:ls'']))))
       \<and> (ReadUntilEof 0 (FailsAt 6 ''out'' (?dialc @ [EvSendMessage 0 ''shell:ls'',
           EvReadStatus 0 ''shell:ls''])) = (([], Some refused), (FailsAt 6 ''out'' (?dialc @
           [EvSendMessage 0 ''shell:ls'', EvReadStatus 0 ''shell:ls'', EvReadUntilEof 0]))))
       \<and> (ctxErr neverDone (FailsAt 6 ''out'' (?dialc @ [EvSendMessage 0 ''shell:ls'',
           EvReadStatus 0 ''shell:ls'', EvReadUntilEof 0])) = None)"
    by (simp add: witness_simps)
  have r43:
      "snd (fst (fst (RunCommandContext deviceAbc neverDone ''ls'' [] (FailsAt 6 ''out'' []))))
        = Some (WrapError ''conn.ReadUntilEof err: '' (PkgErr refused))"
    by (rule t43 [THEN conjunct1, rule_format, OF h43])
  note t44 = t43 [THEN conjunct2]
  \<comment> \<open>Root: the device cannot be dialled\<close>
  have h44:
      "(dialDevice deviceAbc (FailsAt 1 ''out'' []) = (Inl refused, (FailsAt 1 ''out'' [EvDial
          0])))"
    by (simp add: witness_simps)
  have r44:
      "fst (Root deviceAbc (FailsAt 1 ''out'' []))
        = Some (WrapError ''dialDevice failed: '' (PkgErr refused))"
    by (rule t44 [THEN conjunct1, rule_format, OF h44])
  note t45 = t44 [THEN conjunct2]
  \<comment> \<open>Root: the round trip fails\<close>
  have h45:
      "(dialDevice deviceAbc (FailsAt 5 ''out'' []) = (Inr 0, (FailsAt 5 ''out'' ?dial)))
       \<and> (roundTripUntilEof 0 ''root:'' (FailsAt 5 ''out'' ?dial) = (([], Some (WrapError
           ''ReadStatus failed: '' (PkgErr refused))), (FailsAt 5 ''out'' (?dial @
           [EvSendMessage 0 ''root:'', EvReadStatus 0 ''root:'']))))"
    by (simp add: witness_simps)
  have r45:
      "fst (Root deviceAbc (FailsAt 5 ''out'' []))
        = Some (WrapError ''roundTripUntilEof failed: '' (WrapError ''ReadStatus failed: ''
            (PkgErr refused)))"
    by (rule t45 [THEN conjunct1, rule_format, OF h45])
  note t46 = t45 [THEN conjunct2]
  \<comment> \<open>Root: the answer is classified; neither error wraps anything\<close>
  have h46:
      "(dialDevice deviceAbc (FailsAt 0 ''out'' []) = (Inr 0, (FailsAt 0 ''out'' ?dial)))
       \<and> (roundTripUntilEof 0 ''root:'' (FailsAt 0 ''out'' ?dial) = ((''out'', None),
           (FailsAt 0 ''out'' (?dial @ [EvSendMessage 0 ''root:'', EvReadStatus 0 ''root:'',
           EvReadUntilEof 0]))))"
    by (simp add: witness_simps)
  have r46:
      "fst (Root deviceAbc (FailsAt 0 ''out'' [])) =
          (if Contains ''out'' ''restarting adbd as root'' then None
           else if Contains ''out'' ''adbd is already running as root'' then Some ErrNoOp
           else Some (ErrorString (''unexpected response: '' @ ''out'')))"
    by (rule t46 [THEN conjunct1, rule_format, OF h46])
  note t47 = t46 [THEN conjunct2]
  \<comment> \<open>Unroot: the device cannot be dialled\<close>
  have h47:
      "(dialDevice deviceAbc (FailsAt 1 ''out'' []) = (Inl refused, (FailsAt 1 ''out'' [EvDial
          0])))"
    by (simp add: witness_simps)
  have r47:
      "fst (Unroot deviceAbc (FailsAt 1 ''out'' []))
        = Some (WrapError ''dialDevice failed: '' (PkgErr refused))"
    by (rule t47 [THEN conjunct1, rule_format, OF h47])
  note t48 = t47 [THEN conjunct2]
  \<comment> \<open>Unroot: the round trip fails\<close>
  have h48:
      "(dialDevice deviceAbc (FailsAt 5 ''out'' []) = (Inr 0, (FailsAt 5 ''out'' ?dial)))
       \<and> (roundTripUntilEof 0 ''unroot:'' (FailsAt 5 ''out'' ?dial) = (([], Some (WrapError
           ''ReadStatus failed: '' (PkgErr refused))), (FailsAt 5 ''out'' (?dial @
           [EvSendMessage 0 ''unroot:'', EvReadStatus 0 ''unroot:'']))))"
    by (simp add: witness_simps)
  have r48:
      "fst (Unroot deviceAbc (FailsAt 5 ''out'' []))
        = Some (WrapError ''roundTripUntilEof failed: '' (WrapError ''ReadStatus failed: ''
            (PkgErr refused)))"
    by (rule t48 [THEN conjunct1, rule_format, OF h48])
  note t49 = t48 [THEN conjunct2]
  \<comment> \<open>Unroot: the answer is classified; neither error wraps anything\<close>
  have h49:
      "(dialDevice deviceAbc (FailsAt 0 ''out'' []) = (Inr 0, (FailsAt 0 ''out'' ?dial)))
       \<and> (roundTripUntilEof 0 ''unroot:'' (FailsAt 0 ''out'' ?dial) = ((''out'', None),
           (FailsAt 0 ''out'' (?dial @ [EvSendMessage 0 ''unroot:'', EvReadStatus 0 ''unroot:'',
           EvReadUntilEof 0]))))"
    by (simp add: witness_simps)
  have r49:
      "fst (Unroot deviceAbc (FailsAt 0 ''out'' [])) =
          (if Contains ''out'' ''restarting adbd as non root'' then None
           else if Contains ''out'' ''adbd not running as root'' then Some ErrNoOp
           else Some (ErrorString (''unexpected unroot response: '' @ ''out'')))"
    by (rule t49 [THEN conjunct1, rule_format, OF h49])
  note t50 = t49 [THEN conjunct2]
  \<comment> \<open>WaitFor: the dial fails\<close>
  have h50:
      "(Dial (FailsAt 1 ''out'' []) = (Inl refused, (FailsAt 1 ''out'' [EvDial 0])))"
    by (simp add: witness_simps)
  have r50:
      "fst (WaitFor deviceAbc ''device'' (FailsAt 1 ''out'' []))
        = Some (WrapError ''server Dial: '' (PkgErr refused))"
    by (rule t50 [THEN conjunct1, rule_format, OF h50])
  note t51 = t50 [THEN conjunct2]
  \<comment> \<open>WaitFor: the round trip fails\<close>
  have h51:
      "(Dial (FailsAt 2 ''out'' []) = (Inr 0, (FailsAt 2 ''out'' [EvDial 0])))
       \<and> (roundTripUntilEof 0 (getHostPrefix (descriptor deviceAbc) @ '':wait-for-any-'' @
           ''device'') (FailsAt 2 ''out'' [EvDial 0]) = (([], Some (WrapError
           ''SendMessage failed: '' (PkgErr refused))), (FailsAt 2 ''out'' [EvDial 0,
           EvSendMessage 0 ''host-serial:abc:wait-for-any-device''])))"
    by (simp add: witness_simps)
  have r51:
      "fst (WaitFor deviceAbc ''device'' (FailsAt 2 ''out'' []))
        = Some (WrapError ''roundTripUntilEof err: '' (WrapError ''SendMessage failed: ''
            (PkgErr refused)))"
    by (rule t51 [THEN conjunct1, rule_format, OF h51])
  note t52 = t51 [THEN conjunct2]
  \<comment> \<open>WaitFor: whatever the answer is, there is no error\<close>
  have h52:
      "(Dial (FailsAt 0 ''out'' []) = (Inr 0, (FailsAt 0 ''out'' [EvDial 0])))
       \<and> (roundTripUntilEof 0 (getHostPrefix (descriptor deviceAbc) @ '':wait-for-any-'' @
           ''device'') (FailsAt 0 ''out'' [EvDial 0]) = ((''out'', None), (FailsAt 0 ''out''
           [EvDial 0, EvSendMessage 0 ''host-serial:abc:wait-for-any-device'', EvReadStatus 0
           ''host-serial:abc:wait-for-any-device'', EvReadUntilEof 0])))"
    by (simp add: witness_simps)
  have r52:
      "fst (WaitFor deviceAbc ''device'' (FailsAt 0 ''out'' [])) = None"
    by (rule t52 [THEN conjunct1, rule_format, OF h52])
  show ?thesis
    by (intro conjI)
       (rule r0, rule r1, rule r2, rule r3, rule r4, rule r5, rule r6, rule r7, rule r8, rule
           r9,
        rule r10, rule r11, rule r12, rule r13, rule r14, rule r15, rule r16, rule r17, rule
            r18, rule r19,
        rule r20, rule r21, rule r22, rule r23, rule r24, rule r25, rule r26, rule r27, rule
            r28, rule r29,
        rule r30, rule r31, rule r32, rule r33, rule r34, rule r35, rule r36, rule r37, rule
            r38, rule r39,
        rule r40, rule r41, rule r42, rule r43, rule r44, rule r45, rule r46, rule r47, rule
            r48, rule r49,
        rule r50, rule r51, rule r52)
qed

section \<open>The prepared command line\<close>

text \<open>
  Claim C4. For a command that is not blank and arguments none of which holds a double
  quote: with no argument the prepared line is the command unchanged; with arguments it
  is the command, a space, and the arguments in their order joined by single spaces,
  where an argument that contains whitespace stands between double quotes and an
  argument without whitespace stands as it is. No error is returned.
\<close>

theorem prepareCommandLine_quotes:
  assumes "\<not> isBlank cmd" and "\<forall>a\<in>set args. \<not> ContainsRune a dquote"
  shows "fst (prepareCommandLine cmd args) =
     (if args = [] then cmd
      else cmd @ '' '' @
           Join (map (\<lambda>a. if containsWhitespace a then [dquote] @ a @ [dquote] else a) args) '' '',
      None)"
  using assms by (simp add: prepareCommandLine_def loop_clean0)

theorem prepareCommandLine_quotes_witness:
  "fst (prepareCommandLine ''cmd'' [''arg with spaces'', ''arg2'']) =
     (''cmd '' @ [dquote] @ ''arg with spaces'' @ [dquote] @ '' arg2'', None)"
  using prepareCommandLine_quotes [of "''cmd''" "[''arg with spaces'', ''arg2'']"]
  by (simp add: isBlank_def isSpace_def containsWhitespace_def ContainsRune_def dquote_def)

text \<open>
  Claim C5. For an argument list in which some argument holds a double quote, with
  \<open>i\<close> the index of the first such argument: the loop over the arguments stops with
  a ParseError whose message gives the index \<open>i\<close> in decimal and the argument itself,
  and \<open>prepareCommandLine\<close>, for any command that has passed its blank check, returns
  that error and the empty string for the command line.
\<close>

theorem prepareCommandLine_double_quote:
  assumes "i < length args" and "ContainsRune (args ! i) dquote"
    and "\<forall>j<i. \<not> ContainsRune (args ! j) dquote"
  shows "fst (prepareCommandLine_loop 0 args) =
           Some (Err ParseError
                   (''arg at index '' @ showNat i @ '' contains an invalid double quote: ''
                      @ args ! i)
                   None None)
       \<and> (\<not> isBlank cmd \<longrightarrow>
            fst (prepareCommandLine cmd args) =
              ([], Some (Err ParseError
                           (''arg at index '' @ showNat i @ '' contains an invalid double quote: ''
                              @ args ! i)
                           None None)))"
  using assms by (simp add: prepareCommandLine_def loop_dq0 Errorf_def)

theorem prepareCommandLine_double_quote_witness:
  "fst (prepareCommandLine ''cmd'' [''a b'', ''quoted'' @ [dquote] @ ''arg'', [dquote]]) =
     ([], Some (Err ParseError
                  (''arg at index 1 contains an invalid double quote: quoted'' @ [dquote] @ ''arg'')
                  None None))"
  using prepareCommandLine_double_quote
          [of 1 "[''a b'', ''quoted'' @ [dquote] @ ''arg'', [dquote]]" "''cmd''"]
  by (simp add: isBlank_def isSpace_def ContainsRune_def dquote_def showNat_digit digit_def)

text \<open>
  Claim C6. For a command string whose every byte is whitespace, the empty string
  included, \<open>RunCommand\<close> returns no output and an error of kind AssertionError, whose
  cause is the assertion that the command cannot be empty; the world it returns is the
  world it was given, so nothing was dialled, sent or read, and the argument slice is
  untouched.
\<close>

theorem RunCommand_blank:
  assumes "\<forall>ch\<in>set cmd. isSpace ch"
  shows "fst (RunCommand c cmd args w) =
           (([], Some (Err AssertionError ''error performing RunCommand on Device''
                         (Some (descriptorString (descriptor c)))
                         (Some (Err AssertionError ''command cannot be empty'' None None)))),
            args)
         \<and> snd (RunCommand c cmd args w) = w"
  using assms
  by (simp add: RunCommand_def prepareCommandLine_def isBlank_def list_all_iff wrapClientError_def
        AssertionErrorf_def Errorf_def)

theorem RunCommand_blank_witness:
  "fst (RunCommand anyDevice [CHR '' '', CHR 0x09, CHR '' ''] [''a b''] (MockServer ''output'')) =
           (([], Some (Err AssertionError ''error performing RunCommand on Device''
                         (Some ''transport-any'')
                         (Some (Err AssertionError ''command cannot be empty'' None None)))),
            [''a b''])
   \<and> events (snd (RunCommand anyDevice [CHR '' '', CHR 0x09, CHR '' ''] [''a b'']
                    (MockServer ''output''))) = []"
  using RunCommand_blank [of "[CHR '' '', CHR 0x09, CHR '' '']" anyDevice "[''a b'']"
                             "MockServer ''output''"]
  by (simp add: isSpace_def descriptorString_def example_defs)

section \<open>Attribute queries\<close>

text \<open>
  Claim C7. Let the serial query of a device succeed with \<open>serial\<close> and let
  \<open>deviceListFunc\<close> return the records \<open>devices\<close> without an error. If a record with
  that serial is in the list, \<open>DeviceInfo\<close> returns the first such record and no error.
  If no record has that serial, it returns no record and an error of kind
  DeviceNotFound whose cause carries the message "device list doesn't contain serial"
  followed by the serial.
\<close>

theorem DeviceInfo_lookup:
  assumes "Serial_of c w = ((serial, None), w')"
    and "deviceListFunc c = (devices, None)"
  shows "(find (\<lambda>deviceInfo. Serial deviceInfo = serial) devices = Some d \<longrightarrow>
            d \<in> set devices \<and> Serial d = serial
            \<and> fst (DeviceInfo_of c w) = (Some d, None))
       \<and> ((\<forall>d\<in>set devices. Serial d \<noteq> serial) \<longrightarrow>
            fst (DeviceInfo_of c w) =
              (None, Some (Err DeviceNotFound ''error performing DeviceInfo on Device''
                             (Some (descriptorString (descriptor c)))
                             (Some (Err DeviceNotFound
                                      (''device list doesn't contain serial '' @ serial)
                                      None None)))))"
proof (intro conjI impI)
  assume f: "find (\<lambda>deviceInfo. Serial deviceInfo = serial) devices = Some d"
  then show "d \<in> set devices" by (auto simp: find_Some_iff)
  from f show "Serial d = serial" by (auto simp: find_Some_iff)
  from f show "fst (DeviceInfo_of c w) = (Some d, None)"
    using assms by (simp add: DeviceInfo_of_def)
next
  assume "\<forall>d\<in>set devices. Serial d \<noteq> serial"
  then have "find (\<lambda>deviceInfo. Serial deviceInfo = serial) devices = None"
    by (simp add: find_None_iff)
  then show "fst (DeviceInfo_of c w) =
              (None, Some (Err DeviceNotFound ''error performing DeviceInfo on Device''
                             (Some (descriptorString (descriptor c)))
                             (Some (Err DeviceNotFound
                                      (''device list doesn't contain serial '' @ serial)
                                      None None))))"
    using assms by (simp add: DeviceInfo_of_def wrapClientError_def Errorf_def)
qed

theorem DeviceInfo_lookup_witness:
  "fst (DeviceInfo_of
          \<lparr>descriptor = DescSerial ''abc'',
           deviceListFunc = ([\<lparr>Serial = ''abc'', Product = ''Foo''\<rparr>,
                              \<lparr>Serial = ''def'', Product = ''Bar''\<rparr>], None)\<rparr>
          (MockServer ''abc''))
     = (Some \<lparr>Serial = ''abc'', Product = ''Foo''\<rparr>, None)
   \<and> fst (DeviceInfo_of
          \<lparr>descriptor = DescSerial ''serial'',
           deviceListFunc = ([\<lparr>Serial = ''abc'', Product = ''Foo''\<rparr>,
                              \<lparr>Serial = ''def'', Product = ''Bar''\<rparr>], None)\<rparr>
          (MockServer ''serial''))
     = (None, Some (Err DeviceNotFound ''error performing DeviceInfo on Device''
                      (Some ''serial:serial'')
                      (Some (Err DeviceNotFound ''device list doesn't contain serial serial''
                               None None))))"
proof -
  let ?devices = "[\<lparr>Serial = ''abc'', Product = ''Foo''\<rparr>, \<lparr>Serial = ''def'', Product = ''Bar''\<rparr>]"
  let ?c1 = "\<lparr>descriptor = DescSerial ''abc'', deviceListFunc = (?devices, None)\<rparr>"
  let ?c2 = "\<lparr>descriptor = DescSerial ''serial'', deviceListFunc = (?devices, None)\<rparr>"
  have s1: "Serial_of ?c1 (MockServer ''abc'') =
      ((''abc'', None), snd (Serial_of ?c1 (MockServer ''abc'')))"
    by (simp add: Serial_of_def getAttribute_def wrapClientError_def io_defs example_defs)
  have s2: "Serial_of ?c2 (MockServer ''serial'') =
      ((''serial'', None), snd (Serial_of ?c2 (MockServer ''serial'')))"
    by (simp add: Serial_of_def getAttribute_def wrapClientError_def io_defs example_defs)
  have l1: "deviceListFunc ?c1 = (?devices, None)" by simp
  have l2: "deviceListFunc ?c2 = (?devices, None)" by simp
  have f1: "find (\<lambda>deviceInfo. Serial deviceInfo = ''abc'') ?devices
              = Some \<lparr>Serial = ''abc'', Product = ''Foo''\<rparr>"
    by simp
  have f2: "\<forall>d\<in>set ?devices. Serial d \<noteq> ''serial''"
    by simp
  have a: "fst (DeviceInfo_of ?c1 (MockServer ''abc'')) = (Some \<lparr>Serial = ''abc'', Product = ''Foo''\<rparr>, None)"
    using DeviceInfo_lookup [OF s1 l1, of "\<lparr>Serial = ''abc'', Product = ''Foo''\<rparr>"] f1
    by blast
  have b: "fst (DeviceInfo_of ?c2 (MockServer ''serial'')) =
     (None, Some (Err DeviceNotFound ''error performing DeviceInfo on Device''
                      (Some (descriptorString (descriptor ?c2)))
                      (Some (Err DeviceNotFound (''device list doesn't contain serial '' @ ''serial'')
                               None None))))"
    using DeviceInfo_lookup [OF s2 l2] f2
    by blast
  show ?thesis
    unfolding a b by (simp add: descriptorString_def)
qed

section \<open>Root and unroot\<close>

text \<open>
  Claim C8. Take a dial that yields a connection on which the transport request,
  \<open>host:\<close> followed by the transport descriptor, is sent and acknowledged: the
  connection is pinned to the device. If the request \<open>root:\<close> is then sent on that
  connection, its status is read, and the read to the end of the stream answers the
  text \<open>resp\<close>, then \<open>Root\<close> returns: no error if \<open>resp\<close> contains "restarting
  adbd as root"; otherwise the sentinel \<open>ErrNoOp\<close> if it contains "adbd is already
  running as root"; otherwise an error string that quotes \<open>resp\<close>. The log of the
  call is the dial, the transport request and its status, \<open>root:\<close> and its status,
  the read, and the close, all on the one connection. \<open>Unroot\<close> does the same with
  the request \<open>unroot:\<close> and the texts "restarting adbd as non root" and "adbd not
  running as root".
\<close>

theorem Root_Unroot_classify:
  assumes "Dial w = (Inr conn, w0)"
    and "SendMessage conn (''host:'' @ getTransportDescriptor (descriptor c)) w0 = (None, w0')"
    and "ReadStatus conn (''host:'' @ getTransportDescriptor (descriptor c)) w0' = (None, w1)"
  shows "(SendMessage conn ''root:'' w1 = (None, w2)
          \<and> ReadStatus conn ''root:'' w2 = (None, w3)
          \<and> ReadUntilEof conn w3 = ((resp, None), w4) \<longrightarrow>
            Root c w =
              (if Contains resp ''restarting adbd as root'' then None
               else if Contains resp ''adbd is already running as root'' then Some ErrNoOp
               else Some (ErrorString (''unexpected response: '' @ resp)),
               Close conn w4)
            \<and> events (Close conn w4) = events w @
                 [EvDial conn,
                  EvSendMessage conn (''host:'' @ getTransportDescriptor (descriptor c)),
                  EvReadStatus conn (''host:'' @ getTransportDescriptor (descriptor c)),
                  EvSendMessage conn ''root:'', EvReadStatus conn ''root:'', EvReadUntilEof conn,
                  EvClose conn])
       \<and> (SendMessage conn ''unroot:'' w1 = (None, u2)
          \<and> ReadStatus conn ''unroot:'' u2 = (None, u3)
          \<and> ReadUntilEof conn u3 = ((resp', None), u4) \<longrightarrow>
            Unroot c w =
              (if Contains resp' ''restarting adbd as non root'' then None
               else if Contains resp' ''adbd not running as root'' then Some ErrNoOp
               else Some (ErrorString (''unexpected unroot response: '' @ resp')),
               Close conn u4)
            \<and> events (Close conn u4) = events w @
                 [EvDial conn,
                  EvSendMessage conn (''host:'' @ getTransportDescriptor (descriptor c)),
                  EvReadStatus conn (''host:'' @ getTransportDescriptor (descriptor c)),
                  EvSendMessage conn ''unroot:'', EvReadStatus conn ''unroot:'', EvReadUntilEof conn,
                  EvClose conn])"
proof -
  have d: "dialDevice c w = (Inr conn, w1)"
    using assms by (rule dialDevice_ok)
  have e1: "events w1 = events w @
                 [EvDial conn,
                  EvSendMessage conn (''host:'' @ getTransportDescriptor (descriptor c)),
                  EvReadStatus conn (''host:'' @ getTransportDescriptor (descriptor c))]"
    using Dial_events [OF assms(1)] SendMessage_events [OF assms(2)] ReadStatus_events [OF assms(3)]
    by simp
  have root: "Root c w =
              (if Contains resp ''restarting adbd as root'' then None
               else if Contains resp ''adbd is already running as root'' then Some ErrNoOp
               else Some (ErrorString (''unexpected response: '' @ resp)),
               Close conn w4)
            \<and> events (Close conn w4) = events w @
                 [EvDial conn,
                  EvSendMessage conn (''host:'' @ getTransportDescriptor (descriptor c)),
                  EvReadStatus conn (''host:'' @ getTransportDescriptor (descriptor c)),
                  EvSendMessage conn ''root:'', EvReadStatus conn ''root:'', EvReadUntilEof conn,
                  EvClose conn]"
    if s: "SendMessage conn ''root:'' w1 = (None, w2)"
      and r: "ReadStatus conn ''root:'' w2 = (None, w3)"
      and u: "ReadUntilEof conn w3 = ((resp, None), w4)"
  proof
    show "Root c w =
              (if Contains resp ''restarting adbd as root'' then None
               else if Contains resp ''adbd is already running as root'' then Some ErrNoOp
               else Some (ErrorString (''unexpected response: '' @ resp)),
               Close conn w4)"
      using d s r u by (simp add: Root_def roundTripUntilEof_def)
    show "events (Close conn w4) = events w @
                 [EvDial conn,
                  EvSendMessage conn (''host:'' @ getTransportDescriptor (descriptor c)),
                  EvReadStatus conn (''host:'' @ getTransportDescriptor (descriptor c)),
                  EvSendMessage conn ''root:'', EvReadStatus conn ''root:'', EvReadUntilEof conn,
                  EvClose conn]"
      using e1 SendMessage_events [OF s] ReadStatus_events [OF r] ReadUntilEof_events [OF u]
      by (simp add: Close_def)
  qed
  have unroot: "Unroot c w =
              (if Contains resp' ''restarting adbd as non root'' then None
               else if Contains resp' ''adbd not running as root'' then Some ErrNoOp
               else Some (ErrorString (''unexpected unroot response: '' @ resp')),
               Close conn u4)
            \<and> events (Close conn u4) = events w @
                 [EvDial conn,
                  EvSendMessage conn (''host:'' @ getTransportDescriptor (descriptor c)),
                  EvReadStatus conn (''host:'' @ getTransportDescriptor (descriptor c)),
                  EvSendMessage conn ''unroot:'', EvReadStatus conn ''unroot:'', EvReadUntilEof conn,
                  EvClose conn]"
    if s: "SendMessage conn ''unroot:'' w1 = (None, u2)"
      and r: "ReadStatus conn ''unroot:'' u2 = (None, u3)"
      and u: "ReadUntilEof conn u3 = ((resp', None), u4)"
  proof
    show "Unroot c w =
              (if Contains resp' ''restarting adbd as non root'' then None
               else if Contains resp' ''adbd not running as root'' then Some ErrNoOp
               else Some (ErrorString (''unexpected unroot response: '' @ resp')),
               Close conn u4)"
      using d s r u by (simp add: Unroot_def roundTripUntilEof_def)
    show "events (Close conn u4) = events w @
                 [EvDial conn,
                  EvSendMessage conn (''host:'' @ getTransportDescriptor (descriptor c)),
                  EvReadStatus conn (''host:'' @ getTransportDescriptor (descriptor c)),
                  EvSendMessage conn ''unroot:'', EvReadStatus conn ''unroot:'', EvReadUntilEof conn,
                  EvClose conn]"
      using e1 SendMessage_events [OF s] ReadStatus_events [OF r] ReadUntilEof_events [OF u]
      by (simp add: Close_def)
  qed
  show ?thesis using root unroot by blast
qed

theorem Root_Unroot_classify_witness:
  "Root anyDevice (MockServer ''adbd is already running as root'')
     = (Some ErrNoOp,
        MockServer ''adbd is already running as root''
          \<lparr>events := [EvDial 0, EvSendMessage 0 ''host:transport-any'',
                      EvReadStatus 0 ''host:transport-any'', EvSendMessage 0 ''root:'',
                      EvReadStatus 0 ''root:'', EvReadUntilEof 0, EvClose 0]\<rparr>)
   \<and> fst (Root anyDevice (MockServer ''restarting adbd as root'')) = None
   \<and> fst (Root anyDevice (MockServer ''adbd cannot run as root in production builds''))
       = Some (ErrorString ''unexpected response: adbd cannot run as root in production builds'')
   \<and> fst (Unroot anyDevice (MockServer ''adbd not running as root'')) = Some ErrNoOp
   \<and> fst (Unroot anyDevice (MockServer ''restarting adbd as non root'')) = None
   \<and> Unroot anyDevice (MockServer ''adbd is already running as root'')
     = (Some (ErrorString ''unexpected unroot response: adbd is already running as root''),
        MockServer ''adbd is already running as root''
          \<lparr>events := [EvDial 0, EvSendMessage 0 ''host:transport-any'',
                      EvReadStatus 0 ''host:transport-any'', EvSendMessage 0 ''unroot:'',
                      EvReadStatus 0 ''unroot:'', EvReadUntilEof 0, EvClose 0]\<rparr>)"
proof -
  have t: "getTransportDescriptor (descriptor anyDevice) = ''transport-any''"
    by (simp add: anyDevice_def)
  have th: "Root anyDevice (MockServer m) =
              (if Contains m ''restarting adbd as root'' then None
               else if Contains m ''adbd is already running as root'' then Some ErrNoOp
               else Some (ErrorString (''unexpected response: '' @ m)),
               MockServer m\<lparr>events := [EvDial 0, EvSendMessage 0 ''host:transport-any'',
                      EvReadStatus 0 ''host:transport-any'', EvSendMessage 0 ''root:'',
                      EvReadStatus 0 ''root:'', EvReadUntilEof 0, EvClose 0]\<rparr>)
          \<and> Unroot anyDevice (MockServer m) =
              (if Contains m ''restarting adbd as non root'' then None
               else if Contains m ''adbd not running as root'' then Some ErrNoOp
               else Some (ErrorString (''unexpected unroot response: '' @ m)),
               MockServer m\<lparr>events := [EvDial 0, EvSendMessage 0 ''host:transport-any'',
                      EvReadStatus 0 ''host:transport-any'', EvSendMessage 0 ''unroot:'',
                      EvReadStatus 0 ''unroot:'', EvReadUntilEof 0, EvClose 0]\<rparr>)" for m
  proof -
    let ?h = "''host:'' @ getTransportDescriptor (descriptor anyDevice)"
    let ?w0 = "MockServer m\<lparr>events := [EvDial 0]\<rparr>"
    let ?w0' = "MockServer m\<lparr>events := [EvDial 0, EvSendMessage 0 ?h]\<rparr>"
    let ?w1 = "MockServer m\<lparr>events := [EvDial 0, EvSendMessage 0 ?h, EvReadStatus 0 ?h]\<rparr>"
    let ?w2 = "\<lambda>req. MockServer m\<lparr>events := [EvDial 0, EvSendMessage 0 ?h, EvReadStatus 0 ?h,
                  EvSendMessage 0 req]\<rparr>"
    let ?w3 = "\<lambda>req. MockServer m\<lparr>events := [EvDial 0, EvSendMessage 0 ?h, EvReadStatus 0 ?h,
                  EvSendMessage 0 req, EvReadStatus 0 req]\<rparr>"
    let ?w4 = "\<lambda>req. MockServer m\<lparr>events := [EvDial 0, EvSendMessage 0 ?h, EvReadStatus 0 ?h,
                  EvSendMessage 0 req, EvReadStatus 0 req, EvReadUntilEof 0]\<rparr>"
    have a1: "Dial (MockServer m) = (Inr 0, ?w0)"
      by (subst MockServer_start) (simp add: MockServer_calls)
    have a2: "SendMessage 0 ?h ?w0 = (None, ?w0')" by (simp add: MockServer_calls)
    have a3: "ReadStatus 0 ?h ?w0' = (None, ?w1)" by (simp add: MockServer_calls)
    have b: "SendMessage 0 req ?w1 = (None, ?w2 req)" "ReadStatus 0 req (?w2 req) = (None, ?w3 req)"
      "ReadUntilEof 0 (?w3 req) = ((m, None), ?w4 req)" for req
      by (simp_all add: MockServer_calls)
    note T = Root_Unroot_classify [OF a1 a2 a3, of "?w2 ''root:''" "?w3 ''root:''" m "?w4 ''root:''"
        "?w2 ''unroot:''" "?w3 ''unroot:''" m "?w4 ''unroot:''"]
    have r: "Root anyDevice (MockServer m) =
              (if Contains m ''restarting adbd as root'' then None
               else if Contains m ''adbd is already running as root'' then Some ErrNoOp
               else Some (ErrorString (''unexpected response: '' @ m)),
               Close 0 (?w4 ''root:''))"
      using T b by blast
    have u: "Unroot anyDevice (MockServer m) =
              (if Contains m ''restarting adbd as non root'' then None
               else if Contains m ''adbd not running as root'' then Some ErrNoOp
               else Some (ErrorString (''unexpected unroot response: '' @ m)),
               Close 0 (?w4 ''unroot:''))"
      using T b by blast
    show ?thesis unfolding r u by (simp add: Close_def t)
  qed
  show ?thesis
    by (simp add: th)
qed

text \<open>
  Claim C9. When the \<open>get-state\<close> query fails with an error whose text contains
  "unauthorized", \<open>State\<close> returns the Unauthorized state and no error. When it fails
  with any other error, \<open>State\<close> returns the Invalid state and that error wrapped for
  the operation \<open>State\<close>.
\<close>

theorem State_unauthorized:
  assumes "getAttribute c ''get-state'' w = ((attr, Some e), w')"
  shows "(Contains (ErrError e) ''unauthorized'' \<longrightarrow>
            fst (State parseDeviceState c w) = (StateUnauthorized, None))
       \<and> (\<not> Contains (ErrError e) ''unauthorized'' \<longrightarrow>
            fst (State parseDeviceState c w) =
              (StateInvalid,
               Some (Err (Code e) ''error performing State on Device''
                       (Some (descriptorString (descriptor c))) (Some e))))"
  using assms by (simp add: State_def wrapClientError_def)

theorem State_unauthorized_witness:
  "fst (State (\<lambda>attr. (StateNamed attr, None)) \<lparr>descriptor = DescSerial ''abc'', deviceListFunc = ([], None)\<rparr>
      \<lparr>events = [],
       reply = (\<lambda>h. ([], Some (Err ConnectionError ''device unauthorized.'' None None))),
       entryReply = (\<lambda>h. None)\<rparr>)
     = (StateUnauthorized, None)
   \<and> fst (State (\<lambda>attr. (StateNamed attr, None)) \<lparr>descriptor = DescSerial ''abc'', deviceListFunc = ([], None)\<rparr>
        Unreachable)
     = (StateInvalid,
        Some (Err NetworkError ''error performing State on Device'' (Some ''serial:abc'')
                (Some (Err NetworkError ''connection refused'' None None))))"
proof -
  let ?c = "\<lparr>descriptor = DescSerial ''abc'', deviceListFunc = ([], None)\<rparr>"
  let ?w = "\<lparr>events = [],
       reply = (\<lambda>h. ([], Some (Err ConnectionError ''device unauthorized.'' None None))),
       entryReply = (\<lambda>h. None)\<rparr>"
  have g: "getAttribute ?c ''get-state'' ?w =
      (([], Some (Err ConnectionError ''device unauthorized.'' None None)),
       snd (getAttribute ?c ''get-state'' ?w))"
    by (simp add: getAttribute_def io_defs)
  have h: "getAttribute ?c ''get-state'' Unreachable =
      (([], Some (Err NetworkError ''connection refused'' None None)),
       snd (getAttribute ?c ''get-state'' Unreachable))"
    by (simp add: getAttribute_def io_defs example_defs)
  show ?thesis
    using State_unauthorized [OF g, of "\<lambda>attr. (StateNamed attr, None)"]
      State_unauthorized [OF h, of "\<lambda>attr. (StateNamed attr, None)"]
    by (simp add: ErrError_def descriptorString_def)
qed

section \<open>The argument slice after a call\<close>

text \<open>
  Against claim C10 as it is stated: an argument that contains whitespace and no double
  quote is not always overwritten. The loop stops at the first argument that holds a
  double quote, so that \<open>a b\<close> behind such an argument stays as it is; and for a
  blank command the loop does not run at all.
\<close>

theorem whitespace_argument_left_unquoted:
  "snd (prepareCommandLine ''cmd'' [''q'' @ [dquote] @ ''x'', ''a b''])
     = [''q'' @ [dquote] @ ''x'', ''a b'']
   \<and> snd (prepareCommandLine '' '' [''a b'']) = [''a b'']
   \<and> containsWhitespace ''a b'' \<and> \<not> ContainsRune ''a b'' dquote"
proof -
  have "snd (prepareCommandLine ''cmd'' [''q'' @ [dquote] @ ''x'', ''a b''])
     = map (\<lambda>a. if containsWhitespace a then [dquote] @ a @ [dquote] else a)
         (take 0 [''q'' @ [dquote] @ ''x'', ''a b'']) @ drop 0 [''q'' @ [dquote] @ ''x'', ''a b'']"
    by (rule prepareCommandLine_prefix_args)
       (simp_all add: isBlank_def isSpace_def ContainsRune_def)
  moreover have "snd (prepareCommandLine '' '' [''a b'']) = [''a b'']"
    by (rule prepareCommandLine_blank_args) (simp add: isBlank_def isSpace_def)
  ultimately show ?thesis
    by (simp add: containsWhitespace_def isSpace_def ContainsRune_def dquote_def)
qed

text \<open>
  Claim C10, amended. \<open>prepareCommandLine\<close> leaves the slice of a blank command as
  it is. For a command that is not blank, let \<open>i\<close> be the index of the first
  argument that holds a double quote, or the length of the slice when there is none:
  the arguments before \<open>i\<close> that contain whitespace are overwritten by their
  double-quoted form, and every other argument is as it was. \<open>RunCommand\<close> and
  \<open>RunCommandContext\<close> hand the caller's slice to it, so the caller finds that slice
  after either call, whatever the call returns. \<open>RunCommandContext\<close> starts the
  watcher goroutine on that slice or not at all, and it does start it once the status
  of the shell request is read. Whenever the goroutine takes the case of the context's
  signal and its dial succeeds, the \<open>ps | grep\<close> command it sends carries the last
  path segment of the command followed by the arguments of that slice.
\<close>

theorem prepareCommandLine_overwrites_args:
  "(isBlank cmd \<longrightarrow> snd (prepareCommandLine cmd args) = args)
   \<and> (\<not> isBlank cmd \<and> i \<le> length args
        \<and> (\<forall>j<i. \<not> ContainsRune (args ! j) dquote)
        \<and> (i < length args \<longrightarrow> ContainsRune (args ! i) dquote) \<longrightarrow>
          snd (prepareCommandLine cmd args) =
            map (\<lambda>a. if containsWhitespace a then [dquote] @ a @ [dquote] else a) (take i args)
              @ drop i args)
   \<and> (\<not> isBlank cmd \<longrightarrow>
          snd (prepareCommandLine cmd args) =
            map (\<lambda>a. if containsWhitespace a then [dquote] @ a @ [dquote] else a)
              (takeWhile (\<lambda>a. \<not> ContainsRune a dquote) args)
              @ dropWhile (\<lambda>a. \<not> ContainsRune a dquote) args)
   \<and> snd (fst (RunCommand c cmd args w)) = snd (prepareCommandLine cmd args)
   \<and> fst (snd (fst (RunCommandContext c ctx cmd args w))) = snd (prepareCommandLine cmd args)
   \<and> (snd (snd (fst (RunCommandContext c ctx cmd args w))) = NotStarted
        \<or> snd (snd (fst (RunCommandContext c ctx cmd args w)))
             = Started cmd (snd (prepareCommandLine cmd args)))
   \<and> (snd (fst (prepareCommandLine cmd args)) = None
        \<and> DialContext ctx w = (Inr conn, w0)
        \<and> SendMessage conn (''host:'' @ getTransportDescriptor (descriptor c)) w0 = (None, w0')
        \<and> ReadStatus conn (''host:'' @ getTransportDescriptor (descriptor c)) w0' = (None, w1)
        \<and> SendMessage conn (''shell:'' @ fst (fst (prepareCommandLine cmd args))) w1 = (None, w2)
        \<and> ReadStatus conn (''shell:'' @ fst (fst (prepareCommandLine cmd args))) w2 = (None, w3)
        \<longrightarrow>
          snd (snd (fst (RunCommandContext c ctx cmd args w)))
            = Started cmd (snd (prepareCommandLine cmd args)))
   \<and> (watcherSelect ctx' cmdDoneClosed pick v = Some CtxDone
        \<and> Dial v = (Inr conn', v0)
        \<and> SendMessage conn' (''host:'' @ getTransportDescriptor (descriptor c)) v0 = (None, v0')
        \<and> ReadStatus conn' (''host:'' @ getTransportDescriptor (descriptor c)) v0' = (None, v1)
        \<longrightarrow>
          (\<exists>rest.
             map_option events
               (watcherGoroutine c ctx' (Started cmd (snd (prepareCommandLine cmd args)))
                  cmdDoneClosed pick v)
             = Some (events v1 @
                 EvSendMessage conn'
                   (''shell:ps -f -A | grep '' @ [squote]
                      @ last (Split cmd (CHR ''/''))
                      @ (if snd (prepareCommandLine cmd args) = [] then []
                         else '' '' @ Join (snd (prepareCommandLine cmd args)) '' '')
                      @ [squote] @ '' | sed 's/   */ /g' | cut -d ' ' -f 2 | head -n 1'')
                 # rest)))"
proof -
  have g: "\<exists>rest.
             map_option events
               (watcherGoroutine c ctx' (Started cmd args') cmdDoneClosed pick v)
             = Some (events v1 @
                 EvSendMessage conn'
                   (''shell:ps -f -A | grep '' @ [squote]
                      @ last (Split cmd (CHR ''/''))
                      @ (if args' = [] then [] else '' '' @ Join args' '' '')
                      @ [squote] @ '' | sed 's/   */ /g' | cut -d ' ' -f 2 | head -n 1'')
                 # rest)"
    if sel: "watcherSelect ctx' cmdDoneClosed pick v = Some CtxDone"
      and d: "Dial v = (Inr conn', v0)"
      and s: "SendMessage conn' (''host:'' @ getTransportDescriptor (descriptor c)) v0 = (None, v0')"
      and r: "ReadStatus conn' (''host:'' @ getTransportDescriptor (descriptor c)) v0' = (None, v1)"
    for args'
  proof -
    have "dialDevice c v = (Inr conn', v1)" using d s r by (rule dialDevice_ok)
    then obtain rest where
      "events (watcher c cmd args' v) =
         events v1 @ EvSendMessage conn' (''shell:'' @ procFetchCmd (watcherFullCommand cmd args'))
           # rest"
      using watcher_sends by blast
    then show ?thesis
      using sel by (simp add: watcherGoroutine_def watcherFullCommand_eq procFetchCmd_def)
  qed
  show ?thesis
    using prepareCommandLine_blank_args [of cmd args] prepareCommandLine_prefix_args [of cmd i args]
      prepareCommandLine_takeWhile_args [of cmd args]
      RunCommand_args [of c cmd args w] RunCommandContext_args [of c ctx cmd args w]
      RunCommandContext_spawned [of c ctx cmd args w]
      RunCommandContext_started [of cmd args ctx w conn w0 c w0' w1 w2 w3]
      g [of "snd (prepareCommandLine cmd args)"]
    by blast
qed

theorem prepareCommandLine_overwrites_args_witness:
  "snd (prepareCommandLine '' '' [''a b'']) = [''a b'']
   \<and> snd (prepareCommandLine ''cmd'' [''a b'', ''q'' @ [dquote] @ ''x'', ''c d''])
       = [[dquote] @ ''a b'' @ [dquote], ''q'' @ [dquote] @ ''x'', ''c d'']
   \<and> snd (prepareCommandLine ''cmd'' [''a b'', ''c'', ''d e''])
       = [[dquote] @ ''a b'' @ [dquote], ''c'', [dquote] @ ''d e'' @ [dquote]]
   \<and> snd (fst (RunCommand anyDevice ''/system/bin/sleep'' [''1 2''] (MockServer ''42'')))
       = [[dquote] @ ''1 2'' @ [dquote]]
   \<and> snd (fst (RunCommandContext anyDevice cancelledAtOnce ''/system/bin/sleep'' [''1 2'']
                  (MockServer ''42'')))
       = ([[dquote] @ ''1 2'' @ [dquote]],
          Started ''/system/bin/sleep'' [[dquote] @ ''1 2'' @ [dquote]])
   \<and> (\<exists>rest.
         map_option events
           (watcherGoroutine anyDevice cancelledAtOnce
              (Started ''/system/bin/sleep'' [[dquote] @ ''1 2'' @ [dquote]]) True CtxDone
              (MockServer ''42''))
         = Some ([EvDial 0, EvSendMessage 0 ''host:transport-any'',
                  EvReadStatus 0 ''host:transport-any'',
                  EvSendMessage 0
                    (''shell:ps -f -A | grep '' @ [squote] @ ''sleep '' @ [dquote] @ ''1 2''
                       @ [dquote] @ [squote]
                       @ '' | sed 's/   */ /g' | cut -d ' ' -f 2 | head -n 1'')]
                 @ rest))"
proof -
  let ?q = "[dquote] @ ''1 2'' @ [dquote]"
  let ?cmd = "''/system/bin/sleep''"
  let ?h = "''host:'' @ getTransportDescriptor (descriptor anyDevice)"
  let ?sh = "''shell:'' @ fst (fst (prepareCommandLine ?cmd [''1 2'']))"
  let ?M = "MockServer ''42''"
  have t: "getTransportDescriptor (descriptor anyDevice) = ''transport-any''"
    by (simp add: anyDevice_def)
  \<comment> \<open>a blank command\<close>
  have b: "isBlank '' ''" by (simp add: isBlank_def isSpace_def)
  have w1: "snd (prepareCommandLine '' '' [''a b'']) = [''a b'']"
    by (rule prepareCommandLine_overwrites_args [THEN conjunct1, rule_format, OF b])
  \<comment> \<open>a double quote in the second argument\<close>
  let ?args = "[''a b'', ''q'' @ [dquote] @ ''x'', ''c d'']"
  have h2: "\<not> isBlank ''cmd'' \<and> 1 \<le> length ?args
        \<and> (\<forall>j<1. \<not> ContainsRune (?args ! j) dquote)
        \<and> (1 < length ?args \<longrightarrow> ContainsRune (?args ! 1) dquote)"
    by (simp add: isBlank_def isSpace_def ContainsRune_def dquote_def)
  have "snd (prepareCommandLine ''cmd'' ?args) =
          map (\<lambda>a. if containsWhitespace a then [dquote] @ a @ [dquote] else a) (take 1 ?args)
            @ drop 1 ?args"
    by (rule prepareCommandLine_overwrites_args
          [THEN conjunct2, THEN conjunct1, rule_format, OF h2])
  then have w2: "snd (prepareCommandLine ''cmd'' ?args)
       = [[dquote] @ ''a b'' @ [dquote], ''q'' @ [dquote] @ ''x'', ''c d'']"
    by (simp add: containsWhitespace_def isSpace_def)
  \<comment> \<open>no double quote at all\<close>
  have nb: "\<not> isBlank ''cmd''" by (simp add: isBlank_def isSpace_def)
  have "snd (prepareCommandLine ''cmd'' [''a b'', ''c'', ''d e'']) =
          map (\<lambda>a. if containsWhitespace a then [dquote] @ a @ [dquote] else a)
            (takeWhile (\<lambda>a. \<not> ContainsRune a dquote) [''a b'', ''c'', ''d e''])
            @ dropWhile (\<lambda>a. \<not> ContainsRune a dquote) [''a b'', ''c'', ''d e'']"
    by (rule prepareCommandLine_overwrites_args
          [THEN conjunct2, THEN conjunct2, THEN conjunct1, rule_format, OF nb])
  then have w2b: "snd (prepareCommandLine ''cmd'' [''a b'', ''c'', ''d e''])
       = [[dquote] @ ''a b'' @ [dquote], ''c'', [dquote] @ ''d e'' @ [dquote]]"
    by (simp add: containsWhitespace_def isSpace_def ContainsRune_def dquote_def)
  \<comment> \<open>the two callers and the goroutine\<close>
  have p: "snd (fst (prepareCommandLine ?cmd [''1 2''])) = None"
    "snd (prepareCommandLine ?cmd [''1 2'']) = [?q]"
    by (simp_all add: sleep_prepared)
  have c1: "DialContext cancelledAtOnce ?M = (Inr 0, ?M\<lparr>events := [EvDialContext 0]\<rparr>)"
    by (subst MockServer_start) (simp add: MockServer_calls)
  have c2: "SendMessage 0 ?h (?M\<lparr>events := [EvDialContext 0]\<rparr>)
              = (None, ?M\<lparr>events := [EvDialContext 0, EvSendMessage 0 ?h]\<rparr>)"
    by (simp add: MockServer_calls)
  have c3: "ReadStatus 0 ?h (?M\<lparr>events := [EvDialContext 0, EvSendMessage 0 ?h]\<rparr>)
              = (None, ?M\<lparr>events := [EvDialContext 0, EvSendMessage 0 ?h, EvReadStatus 0 ?h]\<rparr>)"
    by (simp add: MockServer_calls)
  have c4: "SendMessage 0 ?sh (?M\<lparr>events := [EvDialContext 0, EvSendMessage 0 ?h, EvReadStatus 0 ?h]\<rparr>)
              = (None, ?M\<lparr>events := [EvDialContext 0, EvSendMessage 0 ?h, EvReadStatus 0 ?h,
                                       EvSendMessage 0 ?sh]\<rparr>)"
    by (simp add: MockServer_calls)
  have c5: "ReadStatus 0 ?sh (?M\<lparr>events := [EvDialContext 0, EvSendMessage 0 ?h, EvReadStatus 0 ?h,
                                       EvSendMessage 0 ?sh]\<rparr>)
              = (None, ?M\<lparr>events := [EvDialContext 0, EvSendMessage 0 ?h, EvReadStatus 0 ?h,
                                       EvSendMessage 0 ?sh, EvReadStatus 0 ?sh]\<rparr>)"
    by (simp add: MockServer_calls)
  have s: "watcherSelect cancelledAtOnce True CtxDone ?M = Some CtxDone"
    by (simp add: watcherSelect_def ctxErr_def cancelledAtOnce_def)
  have d1: "Dial ?M = (Inr 0, ?M\<lparr>events := [EvDial 0]\<rparr>)"
    by (subst MockServer_start) (simp add: MockServer_calls)
  have d2: "SendMessage 0 ?h (?M\<lparr>events := [EvDial 0]\<rparr>)
              = (None, ?M\<lparr>events := [EvDial 0, EvSendMessage 0 ?h]\<rparr>)"
    by (simp add: MockServer_calls)
  have d3: "ReadStatus 0 ?h (?M\<lparr>events := [EvDial 0, EvSendMessage 0 ?h]\<rparr>)
              = (None, ?M\<lparr>events := [EvDial 0, EvSendMessage 0 ?h, EvReadStatus 0 ?h]\<rparr>)"
    by (simp add: MockServer_calls)
  note T = prepareCommandLine_overwrites_args [THEN conjunct2, THEN conjunct2, THEN conjunct2]
  have w3: "snd (fst (RunCommand anyDevice ?cmd [''1 2''] ?M)) = snd (prepareCommandLine ?cmd [''1 2''])"
    by (rule T [THEN conjunct1])
  have w4: "fst (snd (fst (RunCommandContext anyDevice cancelledAtOnce ?cmd [''1 2''] ?M)))
              = snd (prepareCommandLine ?cmd [''1 2''])"
    by (rule T [THEN conjunct2, THEN conjunct1])
  have w5: "snd (snd (fst (RunCommandContext anyDevice cancelledAtOnce ?cmd [''1 2''] ?M)))
              = Started ?cmd (snd (prepareCommandLine ?cmd [''1 2'']))"
    by (rule T [THEN conjunct2, THEN conjunct2, THEN conjunct2, THEN conjunct1, rule_format])
       (rule conjI [OF p(1) conjI [OF c1 conjI [OF c2 conjI [OF c3 conjI [OF c4 c5]]]]])
  have w6: "\<exists>rest.
             map_option events
               (watcherGoroutine anyDevice cancelledAtOnce
                  (Started ?cmd (snd (prepareCommandLine ?cmd [''1 2''])))
                  True CtxDone ?M)
             = Some (events (?M\<lparr>events := [EvDial 0, EvSendMessage 0 ?h, EvReadStatus 0 ?h]\<rparr>) @
                 EvSendMessage 0
                   (''shell:ps -f -A | grep '' @ [squote]
                      @ last (Split ?cmd (CHR ''/''))
                      @ (if snd (prepareCommandLine ?cmd [''1 2'']) = [] then []
                         else '' '' @ Join (snd (prepareCommandLine ?cmd [''1 2''])) '' '')
                      @ [squote] @ '' | sed 's/   */ /g' | cut -d ' ' -f 2 | head -n 1'')
                 # rest)"
    by (rule T [THEN conjunct2, THEN conjunct2, THEN conjunct2, THEN conjunct2, rule_format])
       (rule conjI [OF s conjI [OF d1 conjI [OF d2 d3]]])
  have w45: "snd (fst (RunCommandContext anyDevice cancelledAtOnce ?cmd [''1 2''] ?M))
       = ([?q], Started ?cmd [?q])"
    using w4 w5 unfolding p by (simp add: prod_eq_iff)
  show ?thesis
    using w1 w2 w2b w3 w45 w6 unfolding p by (simp add: t)
qed

end
